theory Spec2Isabelle
  imports Complex_Main
begin

section \<open>JavaScript values\<close>

text \<open>
  A JavaScript string is a sequence of UTF-16 code units; \<open>slice(0, n)\<close> and \<open>length\<close>
  count code units, so a string is a list of naturals and \<open>s.slice(0, n)\<close> is \<open>take n s\<close>.
  \<open>str\<close> turns an ASCII literal of the theory into such a string.
\<close>

type_synonym jstring = "nat list"

definition str :: "string \<Rightarrow> jstring" where
  "str s = map of_char s"

text \<open>
  A JavaScript number: a finite value, an infinity or NaN. Finite values are rationals
  (every finite double is one); \<open>-0\<close> is \<open>Fin 0\<close>, which is right for every test the program
  makes on it (truthiness, \<open>===\<close>, \<open>Math.min\<close>/\<open>Math.max\<close> up to the sign of zero).
\<close>

datatype jsnum = NaN | NegInf | Fin rat | PosInf

datatype json =
    JNull
  | JBool bool
  | JNum jsnum
  | JStr jstring
  | JArr "json list"
  | JObj "(jstring \<times> json) list"

text \<open>The arguments of a tool call, \<open>Record<string, unknown>\<close>: own properties by name.\<close>

type_synonym args = "(jstring \<times> json) list"

definition jsnum_of_nat :: "nat \<Rightarrow> jsnum" where
  "jsnum_of_nat n = Fin (of_nat n)"

subsection \<open>Character classes and the runtime\<close>

definition isWordChar :: "nat \<Rightarrow> bool" where
  \<comment> \<open>\<open>\w\<close> without the \<open>u\<close> flag: \<open>[A-Za-z0-9_]\<close>\<close>
  "isWordChar c \<longleftrightarrow> (48 \<le> c \<and> c \<le> 57) \<or> (65 \<le> c \<and> c \<le> 90) \<or> c = 95 \<or> (97 \<le> c \<and> c \<le> 122)"

definition isWhiteSpace :: "nat \<Rightarrow> bool" where
  \<comment> \<open>\<open>\s\<close> and what \<open>trim\<close> strips: WhiteSpace and LineTerminator of ECMAScript\<close>
  "isWhiteSpace c \<longleftrightarrow> (9 \<le> c \<and> c \<le> 13) \<or> c = 32 \<or> c = 160 \<or> c = 5760
     \<or> (8192 \<le> c \<and> c \<le> 8202) \<or> c = 8232 \<or> c = 8233 \<or> c = 8239 \<or> c = 8287
     \<or> c = 12288 \<or> c = 65279"

definition isLineTerminator :: "nat \<Rightarrow> bool" where
  "isLineTerminator c \<longleftrightarrow> c = 10 \<or> c = 13 \<or> c = 8232 \<or> c = 8233"

text \<open>
  The selector descriptor \<open>getStableSelector\<close> returns: \<open>{type: 'selector', value}\<close>,
  \<open>{type: 'nth', selector, index}\<close> or \<open>{type: 'xpath', value}\<close>.
\<close>

datatype selectorDesc =
    Selector jstring
  | Nth jstring int
  | XPath jstring

text \<open>
  Functions of the JavaScript runtime whose results depend on Unicode tables or on number
  and JSON syntax are parameters of the model: \<open>String.prototype.toLowerCase\<close>, the
  Canonicalize operation of a regular expression with the \<open>i\<close> flag (and without \<open>u\<close>) on
  one code unit, \<open>String(n)\<close> of a number, \<open>Number(s)\<close> of a string, \<open>JSON.parse\<close> (\<open>None\<close>
  when it throws) and \<open>JSON.stringify\<close> of a selector descriptor.
\<close>

record platform =
  toLowerCase :: "jstring \<Rightarrow> jstring"
  canonicalize :: "nat \<Rightarrow> nat"
  numToString :: "jsnum \<Rightarrow> jstring"
  stringToNumber :: "jstring \<Rightarrow> jsnum"
  JSON_parse :: "jstring \<Rightarrow> json option"
  JSON_stringify :: "selectorDesc \<Rightarrow> jstring"

definition trim :: "jstring \<Rightarrow> jstring" where
  "trim s = rev (dropWhile isWhiteSpace (rev (dropWhile isWhiteSpace s)))"

fun join :: "jstring \<Rightarrow> jstring list \<Rightarrow> jstring" where
  "join sep [] = []"
| "join sep [x] = x"
| "join sep (x # y # r) = x @ sep @ join sep (y # r)"

definition truthy :: "jstring option \<Rightarrow> bool" where
  \<comment> \<open>\<open>Boolean(s)\<close> of a string or \<open>undefined\<close>\<close>
  "truthy v = (case v of None \<Rightarrow> False | Some s \<Rightarrow> s \<noteq> [])"

definition orElse :: "jstring \<Rightarrow> jstring \<Rightarrow> jstring" where
  \<comment> \<open>\<open>a || b\<close> on strings\<close>
  "orElse a b = (if a \<noteq> [] then a else b)"

definition orUndef :: "jstring option \<Rightarrow> jstring \<Rightarrow> jstring" where
  \<comment> \<open>\<open>a || b\<close> where \<open>a\<close> may be \<open>undefined\<close>\<close>
  "orUndef a b = (case a of None \<Rightarrow> b | Some s \<Rightarrow> orElse s b)"

subsection \<open>The regular expressions of the security layer\<close>

text \<open>
  Every pattern of \<open>DESTRUCTIVE_PATTERNS\<close> has the shape \<open>/\b(a1|...|an)\b/i\<close>, each
  alternative a sequence of literal characters, \<open>\s*\<close> and \<open>.*\<close>. \<open>ends P a s i\<close> lists every
  position at which a match of the alternative \<open>a\<close> that starts at \<open>i\<close> can end;
  \<open>RegExp.prototype.test\<close> backtracks over all of them, so it answers whether some start and
  some end satisfy both \<open>\b\<close> assertions.
\<close>

datatype rx_item = Lit nat | SpaceStar | DotStar

fun ends :: "platform \<Rightarrow> rx_item list \<Rightarrow> jstring \<Rightarrow> nat \<Rightarrow> nat list" where
  "ends P [] s i = [i]"
| "ends P (Lit c # r) s i =
     (if i < length s \<and> canonicalize P (s ! i) = canonicalize P c then ends P r s (Suc i) else [])"
| "ends P (SpaceStar # r) s i =
     concat (map (\<lambda>k. ends P r s (i + k)) [0..<Suc (length (takeWhile isWhiteSpace (drop i s)))])"
| "ends P (DotStar # r) s i =
     concat (map (\<lambda>k. ends P r s (i + k))
       [0..<Suc (length (takeWhile (\<lambda>c. \<not> isLineTerminator c) (drop i s)))])"

definition isWordBoundary :: "jstring \<Rightarrow> nat \<Rightarrow> bool" where
  "isWordBoundary s i \<longleftrightarrow>
     (0 < i \<and> isWordChar (s ! (i - 1))) \<noteq> (i < length s \<and> isWordChar (s ! i))"

definition rx_test :: "platform \<Rightarrow> rx_item list list \<Rightarrow> jstring \<Rightarrow> bool" where
  "rx_test P alts s =
     list_ex (\<lambda>i. isWordBoundary s i \<and>
                list_ex (\<lambda>a. list_ex (isWordBoundary s) (ends P a s i)) alts)
       [0..<Suc (length s)]"

definition lits :: "jstring \<Rightarrow> rx_item list" where
  "lits s = map Lit s"

definition DESTRUCTIVE_PATTERNS :: "rx_item list list list" where
  "DESTRUCTIVE_PATTERNS =
    [ [lits (str ''pay''), lits [1086, 1087, 1083, 1072, 1090], lits [1082, 1091, 1087, 1080],
       lits (str ''buy'')],
      [lits (str ''checkout''), lits [1086, 1092, 1086, 1088, 1084, 1083],
       lits (str ''place'') @ [SpaceStar] @ lits (str ''order''),
       lits [1087, 1086, 1076, 1090, 1074, 1077, 1088, 1078, 1076] @ [DotStar]
         @ lits [1079, 1072, 1082, 1072, 1079]],
      [lits (str ''confirm'') @ [SpaceStar] @ lits (str ''order''),
       lits [1087, 1086, 1076, 1090, 1074, 1077, 1088, 1076, 1080, 1090, 1100]],
      [lits (str ''delete''), lits [1091, 1076, 1072, 1083], lits (str ''remove''),
       lits [1091, 1076, 1072, 1083, 1080, 1090, 1100]],
      [lits (str ''unsubscribe''), lits [1086, 1090, 1087, 1080, 1089]],
      [lits (str ''cancel'') @ [SpaceStar] @ lits (str ''subscription''),
       lits [1086, 1090, 1084, 1077, 1085, 1080, 1090, 1100] @ [SpaceStar]
         @ lits [1087, 1086, 1076, 1087, 1080, 1089, 1082]],
      [lits (str ''send'') @ [SpaceStar] @ lits (str ''money''),
       lits [1087, 1077, 1088, 1077, 1074, 1086, 1076], lits (str ''transfer'')],
      [lits (str ''submit'') @ [SpaceStar] @ lits (str ''payment''),
       lits [1086, 1087, 1083, 1072, 1090, 1080, 1090, 1100]] ]"

section \<open>The snapshot\<close>

text \<open>
  An element of the snapshot, as \<open>collectSnapshotScript\<close> pushes it. A field written
  \<open>x || undefined\<close> in the source is an option (\<open>None\<close> is \<open>undefined\<close>), a flag written
  \<open>b || undefined\<close> is a boolean.
\<close>

record element =
  elem_id :: nat
  role :: jstring
  tagName :: jstring
  elem_text :: jstring
  placeholder :: "jstring option"
  href :: "jstring option"
  elem_value :: "jstring option"
  elem_type :: "jstring option"
  labelText :: "jstring option"
  elem_title :: "jstring option"
  selector :: selectorDesc
  isInDialog :: bool
  disabled :: bool
  options :: "(jstring \<times> jstring) list option"

record heading =
  level :: jsnum
  heading_text :: jstring

record tabInfo =
  tab_index :: nat
  tab_url :: jstring
  tab_title :: jstring

record snapshot =
  url :: jstring
  title :: jstring
  elements :: "element list"
  headings :: "heading list"
  contentExcerpt :: jstring
  tabs :: "tabInfo list"
  activeTabIndex :: int

section \<open>Security layer: \<open>checkDestructiveAction\<close>\<close>

record verdict =
  destructive :: bool
  description :: "jstring option"

definition notDestructive :: verdict where
  "notDestructive = \<lparr>destructive = False, description = None\<rparr>"

definition findElement :: "snapshot \<Rightarrow> jsnum \<Rightarrow> element option" where
  \<comment> \<open>\<open>snapshot.elements.find((e) => e.id === elementId)\<close>\<close>
  "findElement snap n = find (\<lambda>e. jsnum_of_nat (elem_id e) = n) (elements snap)"

definition textSurface :: "platform \<Rightarrow> element \<Rightarrow> jstring" where
  "textSurface P el =
     join (str '' '')
       (map (toLowerCase P)
         (map the (filter truthy [Some (elem_text el), elem_value el, elem_title el, labelText el])))"

definition checkDestructiveAction :: "platform \<Rightarrow> jstring \<Rightarrow> args \<Rightarrow> snapshot \<Rightarrow> verdict" where
  "checkDestructiveAction P toolName args snap =
     (if toolName \<noteq> str ''click_element'' then notDestructive
      else case map_of args (str ''element_id'') of
        Some (JNum elementId) \<Rightarrow>
          (case findElement snap elementId of
             None \<Rightarrow> notDestructive
           | Some el \<Rightarrow>
               let text = textSurface P el in
               if text = [] then notDestructive
               else if list_ex (\<lambda>pattern. rx_test P pattern text) DESTRUCTIVE_PATTERNS then
                 let description = take 80 (orElse (elem_text el) (orUndef (elem_value el) (str ''Action'')))
                 in \<lparr>destructive = True,
                     description = Some (orElse (trim description) (str ''Sensitive action''))\<rparr>
               else notDestructive)
      | _ \<Rightarrow> notDestructive)"

section \<open>The environment\<close>

text \<open>
  Everything outside the program is reached through calls: Playwright (pages, locators,
  the browser context), timers, the chat completion endpoint and the confirmation prompt.
  The model records every call in a trace, in the order the program makes it, and an
  environment answers each call from the trace so far: whether it raises, and what it
  returns. Quantifying over environments covers every behaviour of the browser, the model
  endpoint and the user.
\<close>

datatype locator =
    LocXPath jstring          \<comment> \<open>\<open>page.locator('xpath=' + value).first()\<close>\<close>
  | LocNth jstring int        \<comment> \<open>\<open>page.locator(selector).nth(index)\<close>\<close>
  | LocFirst jstring          \<comment> \<open>\<open>page.locator(value).first()\<close>\<close>
  | LocInnerLink locator      \<comment> \<open>\<open>locator.locator('a[href]').first()\<close>\<close>

datatype page_op =
    Goto jstring                         \<comment> \<open>\<open>page.goto(url, {waitUntil: 'domcontentloaded', timeout: 30000})\<close>\<close>
  | WaitForLoadState jstring nat         \<comment> \<open>state, timeout\<close>
  | BringToFront
  | UrlAndTitle                          \<comment> \<open>\<open>p.url()\<close>, \<open>p.title()\<close>\<close>
  | EvaluateSnapshot                     \<comment> \<open>\<open>page.evaluate(collectSnapshotScript)\<close>\<close>
  | WaitForVisible locator nat           \<comment> \<open>\<open>locator.waitFor({state: 'visible', timeout})\<close>\<close>
  | ScrollIntoViewIfNeeded locator nat
  | Click locator nat bool               \<comment> \<open>\<open>locator.click({timeout, force})\<close>\<close>
  | EvaluateClick selectorDesc jstring   \<comment> \<open>the \<open>page.evaluate\<close> of \<open>clickViaEvaluate\<close>\<close>
  | Fill locator jstring
  | KeyboardType jstring
  | SelectByValue locator jstring
  | SelectByLabel locator jstring
  | Check locator
  | Uncheck locator
  | MouseWheel int int

datatype chatMessage =
    SystemMessage jstring
  | UserMessage jstring
  | AssistantMessage jstring
  | AssistantToolCall jstring jstring jstring   \<comment> \<open>id, name, arguments\<close>
  | ToolMessage jstring jstring                 \<comment> \<open>tool call id, content\<close>

datatype call =
    OnPage nat page_op        \<comment> \<open>a call on the page with this handle\<close>
  | NewPage                   \<comment> \<open>\<open>context.newPage()\<close>\<close>
  | Sleep rat                 \<comment> \<open>\<open>setTimeout\<close>, milliseconds\<close>
  | Confirm jstring           \<comment> \<open>\<open>getUserConfirmation(description)\<close>\<close>
  | ClassifyTask jstring      \<comment> \<open>the chat completion of \<open>classifyTask\<close>\<close>
  | ChatCompletion "chatMessage list"

type_synonym trace = "call list"

record toolCall =
  tc_id :: jstring
  tc_name :: jstring
  tc_arguments :: jstring

text \<open>
  \<open>response.choices?.[0]\<close>: the finish reason, the content of the message (\<open>None\<close> when
  it is \<open>null\<close> or missing) and its tool calls (\<open>[]\<close> when there are none).
\<close>

record choice =
  finish_reason :: jstring
  content :: "jstring option"
  tool_calls :: "toolCall list"

section \<open>Perception: \<open>collectSnapshotScript\<close>\<close>

text \<open>
  What the script reads of one DOM element. \<open>el.value\<close> is undefined, a string (form
  controls) or a number (\<open>li\<close>, \<open>progress\<close>, \<open>meter\<close>). The two \<open>el.matches\<close> tests and
  \<open>el.closest\<close> are answered by the browser and recorded as flags; \<open>innerText\<close> is \<open>[]\<close>
  where the property is undefined, which every use (\<open>||\<close>) treats like the empty string.
\<close>

datatype domValue = Undefined | StringValue jstring | NumberValue jsnum

record domElement =
  nodeIdent :: nat
  dom_tagName :: jstring
  attributes :: "(jstring \<times> jstring) list"
  dom_id :: jstring
  innerText :: jstring
  textContent :: jstring
  dom_value :: domValue
  rect_width :: rat
  rect_height :: rat
  rect_top :: rat
  rect_left :: rat
  style_visibility :: jstring
  style_display :: jstring
  matchesInteractive :: bool   \<comment> \<open>\<open>el.matches(interactiveSelector)\<close>\<close>
  matchesNative :: bool
    \<comment> \<open>\<open>el.matches\<close> of the native tags \<open>a\<close>, \<open>button\<close>, \<open>input\<close>, \<open>textarea\<close>, \<open>select\<close> and
        the roles \<open>button\<close> and \<open>link\<close>\<close>
  closestDialog :: bool        \<comment> \<open>\<open>el.closest\<close> finds a \<open>dialog\<close> or \<open>alertdialog\<close> role\<close>
  dom_options :: "(jstring \<times> jstring) list option"   \<comment> \<open>\<open>el.options\<close>: value and text of each\<close>

datatype dom = Element domElement "dom list"

text \<open>
  The document: its body, \<open>document.querySelectorAll\<close> (the identities of the matching
  nodes in document order, \<open>None\<close> when the selector is invalid and the call throws),
  the \<open>label[for]\<close> elements (\<open>htmlFor\<close>, \<open>textContent\<close>), the headings under the body
  (\<open>tagName\<close>, \<open>textContent\<close>) and the text of the main region.
\<close>

record document =
  body :: "dom option"
  querySelectorAll :: "jstring \<Rightarrow> nat list option"
  labelsWithFor :: "(jstring \<times> jstring) list"
  headingElements :: "(jstring \<times> jstring) list"
  mainTextContent :: jstring
  location_href :: jstring
  document_title :: jstring

datatype script_error = InvalidSelector | NotAFunction

definition MAX_ELEMENTS :: nat where "MAX_ELEMENTS = 200"
definition MAX_CONTENT_CHARS :: nat where "MAX_CONTENT_CHARS = 1200"
definition MAX_HEADINGS :: nat where "MAX_HEADINGS = 30"

definition getAttribute :: "domElement \<Rightarrow> jstring \<Rightarrow> jstring" where
  \<comment> \<open>\<open>el.getAttribute(name) || ''\<close>\<close>
  "getAttribute el name = (case map_of (attributes el) name of None \<Rightarrow> [] | Some v \<Rightarrow> v)"

definition hasAttribute :: "domElement \<Rightarrow> jstring \<Rightarrow> bool" where
  "hasAttribute el name = (map_of (attributes el) name \<noteq> None)"

definition getAssociatedLabelText :: "document \<Rightarrow> domElement list \<Rightarrow> domElement \<Rightarrow> jstring" where
  \<comment> \<open>\<open>ancestors\<close>: the elements between \<open>el\<close> and the body, nearest first\<close>
  "getAssociatedLabelText D ancestors el =
     (case (if dom_id el \<noteq> [] then find (\<lambda>label. fst label = dom_id el) (labelsWithFor D) else None) of
        Some label \<Rightarrow> take 80 (trim (snd label))
      | None \<Rightarrow>
         (case find (\<lambda>parent. dom_tagName parent = str ''LABEL'') ancestors of
            Some parent \<Rightarrow> take 80 (trim (textContent parent))
          | None \<Rightarrow> []))"

definition escapeXPathText :: "jstring \<Rightarrow> jstring" where
  \<comment> \<open>the three \<open>replace\<close> calls: backslash (92) doubled, then a backslash before each
      double quote (34), then newline (10) to space\<close>
  "escapeXPathText text =
     map (\<lambda>c. if c = 10 then 32 else c)
       (concat (map (\<lambda>c. if c = 34 then [92, 34] else [c])
         (concat (map (\<lambda>c. if c = 92 then [92, 92] else [c]) text))))"

fun indexOf :: "nat list \<Rightarrow> nat \<Rightarrow> int" where
  "indexOf [] x = - 1"
| "indexOf (y # ys) x = (if y = x then 0 else let i = indexOf ys x in if i < 0 then - 1 else i + 1)"

definition selectorText :: "domElement \<Rightarrow> script_error + jstring" where
  \<comment> \<open>\<open>(el.innerText || el.value || el.getAttribute('aria-label') || '').trim().slice(0, 80)\<close>;
      a number has no \<open>trim\<close>\<close>
  "selectorText el =
     (if innerText el \<noteq> [] then Inr (take 80 (trim (innerText el)))
      else case dom_value el of
        StringValue v \<Rightarrow> Inr (take 80 (trim (orElse v (getAttribute el (str ''aria-label'')))))
      | NumberValue n \<Rightarrow>
          (if n = NaN \<or> n = Fin 0 then Inr (take 80 (trim (getAttribute el (str ''aria-label''))))
           else Inl NotAFunction)
      | Undefined \<Rightarrow> Inr (take 80 (trim (getAttribute el (str ''aria-label'')))))"

definition quoted :: "jstring \<Rightarrow> jstring" where
  \<comment> \<open>the text between two double quotes (code unit 34)\<close>
  "quoted s = [34] @ s @ [34]"

definition structuralSelector :: "platform \<Rightarrow> domElement \<Rightarrow> jstring" where
  \<comment> \<open>\<open>parts.join('')\<close>: the tag, then \<open>[role="..."]\<close>, \<open>[name="..."]\<close>, \<open>[type="..."]\<close>\<close>
  "structuralSelector P el =
     (let tag = toLowerCase P (dom_tagName el);
          role = getAttribute el (str ''role'');
          name = trim (getAttribute el (str ''name''));
          type_attr = trim (getAttribute el (str ''type''))
      in tag
         @ (if role \<noteq> [] then str ''[role='' @ quoted role @ str '']'' else [])
         @ (if name \<noteq> [] \<and> (tag = str ''input'' \<or> tag = str ''textarea'')
            then str ''[name='' @ quoted name @ str '']'' else [])
         @ (if type_attr \<noteq> [] \<and> tag = str ''input''
            then str ''[type='' @ quoted type_attr @ str '']'' else []))"

definition getStableSelector :: "platform \<Rightarrow> document \<Rightarrow> domElement \<Rightarrow> script_error + selectorDesc" where
  "getStableSelector P D el =
     (case selectorText el of
        Inl e \<Rightarrow> Inl e
      | Inr text \<Rightarrow>
         let selector = structuralSelector P el in
         (case querySelectorAll D selector of
            None \<Rightarrow> Inl InvalidSelector
          | Some all \<Rightarrow>
              if 1 < length all \<and> text \<noteq> [] then
                Inr (XPath (str ''//'' @ selector @ str ''[contains(normalize-space(.), ''
                            @ quoted (escapeXPathText text) @ str '')]''))
              else if 1 < length all then Inr (Nth selector (indexOf all (nodeIdent el)))
              else Inr (Selector selector)))"

definition valueString :: "platform \<Rightarrow> domElement \<Rightarrow> jstring" where
  \<comment> \<open>\<open>el.value !== undefined ? String(el.value) : ''\<close>\<close>
  "valueString P el =
     (case dom_value el of
        Undefined \<Rightarrow> []
      | StringValue v \<Rightarrow> v
      | NumberValue n \<Rightarrow> numToString P n)"

definition optional :: "jstring \<Rightarrow> jstring option" where
  \<comment> \<open>\<open>s || undefined\<close>\<close>
  "optional s = (if s \<noteq> [] then Some s else None)"

definition rawInner :: "domElement \<Rightarrow> jstring" where
  "rawInner el = trim (orElse (innerText el) (textContent el))"

definition displayText :: "platform \<Rightarrow> domElement \<Rightarrow> jstring \<Rightarrow> jstring" where
  \<comment> \<open>the \<open>||\<close> chain of the source; \<open>label\<close> is what \<open>walk\<close> computed for the element\<close>
  "displayText P el label =
     (let text = take 200 (rawInner el);
          titleAttr = take 100 (trim (getAttribute el (str ''title'')));
          placeholder' = take 60 (trim (getAttribute el (str ''placeholder'')));
          href' = trim (getAttribute el (str ''href''));
          ariaLabel = take 100 (trim (getAttribute el (str ''aria-label'')));
          value = take 100 (trim (valueString P el))
      in orElse text (orElse ariaLabel (orElse titleAttr (orElse value
           (orElse (if placeholder' \<noteq> [] then str ''placeholder: '' @ placeholder' else [])
             (orElse (if href' \<noteq> [] then str ''link: '' @ href' else [])
               (if label \<noteq> [] then str ''label: '' @ label else [])))))))"

definition elementKey :: "platform \<Rightarrow> domElement \<Rightarrow> jstring" where
  "elementKey P el =
     dom_tagName el @ str ''-'' @ take 50 (rawInner el) @ str ''-'' @ getAttribute el (str ''href'')
       @ str ''-'' @ numToString P (Fin (rect_top el)) @ str ''-'' @ numToString P (Fin (rect_left el))"

definition captureElement ::
    "platform \<Rightarrow> document \<Rightarrow> domElement list \<Rightarrow> domElement \<Rightarrow> nat \<Rightarrow> script_error + element" where
  \<comment> \<open>the object \<open>walk\<close> pushes for \<open>el\<close>, with the given id\<close>
  "captureElement P D ancestors el ident =
     (let tag = toLowerCase P (dom_tagName el);
          label =
            (if tag = str ''input'' \<or> tag = str ''textarea'' \<or> tag = str ''select''
             then getAssociatedLabelText D ancestors el else [])
      in case getStableSelector P D el of
           Inl e \<Rightarrow> Inl e
         | Inr sel \<Rightarrow> Inr
            \<lparr>elem_id = ident,
             role = orElse (getAttribute el (str ''role'')) (toLowerCase P (dom_tagName el)),
             tagName = tag,
             elem_text = displayText P el label,
             placeholder = optional (take 60 (trim (getAttribute el (str ''placeholder'')))),
             href = optional (trim (getAttribute el (str ''href''))),
             elem_value = optional (take 100 (trim (valueString P el))),
             elem_type = optional (trim (getAttribute el (str ''type''))),
             labelText = optional label,
             elem_title = optional (take 100 (trim (getAttribute el (str ''title'')))),
             selector = sel,
             isInDialog = closestDialog el,
             disabled = (hasAttribute el (str ''disabled'')
                         \<or> map_of (attributes el) (str ''aria-disabled'') = Some (str ''true'')),
             options =
               (if tag = str ''select'' then
                  (case dom_options el of
                     None \<Rightarrow> None
                   | Some os \<Rightarrow>
                       Some (map (\<lambda>opt. (orElse (fst opt) (snd opt), take 60 (trim (snd opt)))) (take 30 os)))
                else None)\<rparr>)"

definition skipped :: "domElement \<Rightarrow> bool" where
  \<comment> \<open>the size test and the style test of \<open>walk\<close>\<close>
  "skipped el \<longleftrightarrow>
     (let isButtonLike = (getAttribute el (str ''role'') = str ''button''
                          \<or> (dom_tagName el = str ''A'' \<and> getAttribute el (str ''href'') \<noteq> []));
          hasLabel = (trim (orElse (innerText el)
                        (orElse (textContent el) (getAttribute el (str ''aria-label'')))) \<noteq> []);
          skipSmall = (rect_width el < 2 \<or> rect_height el < 2)
      in (skipSmall \<and> \<not> (isButtonLike \<and> hasLabel))
         \<or> style_visibility el = str ''hidden'' \<or> style_display el = str ''none'')"

text \<open>
  \<open>walk\<close> threads the array \<open>elements\<close> (\<open>es\<close>) and the set \<open>seen\<close>; \<open>ancestors\<close> holds the
  elements from the parent of the node up to the root, nearest first, and the loop of
  \<open>getAssociatedLabelText\<close> stops below the root (\<open>document.body\<close>), hence \<open>butlast\<close>.
  Every node under the body is an element (\<open>el.children\<close>), so the node type test passes.
\<close>

fun walk :: "platform \<Rightarrow> document \<Rightarrow> domElement list \<Rightarrow> dom \<Rightarrow> element list \<times> jstring list
              \<Rightarrow> script_error + element list \<times> jstring list"
and walkChildren :: "platform \<Rightarrow> document \<Rightarrow> domElement list \<Rightarrow> dom list
              \<Rightarrow> element list \<times> jstring list \<Rightarrow> script_error + element list \<times> jstring list"
where
  "walk P D ancestors (Element el cs) (es, seen) =
     (if MAX_ELEMENTS \<le> length es then Inr (es, seen)
      else if \<not> matchesInteractive el then walkChildren P D (el # ancestors) cs (es, seen)
      else if skipped el then walkChildren P D (el # ancestors) cs (es, seen)
      else if elementKey P el \<in> set seen then
        walkChildren P D (el # ancestors) cs (es, seen)
      else
        (case captureElement P D (butlast ancestors) el (length es + 1) of
           Inl e \<Rightarrow> Inl e
         | Inr captured \<Rightarrow>
             if \<not> matchesNative el then
               walkChildren P D (el # ancestors) cs
                 (es @ [captured], elementKey P el # seen)
             else Inr (es @ [captured], elementKey P el # seen)))"
| "walkChildren P D ancestors [] st = Inr st"
| "walkChildren P D ancestors (c # cs) st =
     (case walk P D ancestors c st of
        Inl e \<Rightarrow> Inl e
      | Inr st' \<Rightarrow> walkChildren P D ancestors cs st')"

definition parseIntDigit :: "jstring \<Rightarrow> jsnum" where
  \<comment> \<open>\<open>parseInt(h.tagName.charAt(1), 10)\<close>\<close>
  "parseIntDigit tag =
     (if 1 < length tag \<and> 48 \<le> tag ! 1 \<and> tag ! 1 \<le> 57 then Fin (of_nat (tag ! 1 - 48)) else NaN)"

fun collectHeadings :: "(jstring \<times> jstring) list \<Rightarrow> heading list \<Rightarrow> heading list" where
  "collectHeadings [] acc = acc"
| "collectHeadings (h # hs) acc =
     collectHeadings hs
       (if MAX_HEADINGS \<le> length acc then acc
        else let text = take 120 (trim (snd h)) in
          if text \<noteq> [] then acc @ [\<lparr>level = parseIntDigit (fst h), heading_text = text\<rparr>]
          else acc)"

fun collapseFrom :: "bool \<Rightarrow> jstring \<Rightarrow> jstring" where
  \<comment> \<open>\<open>inRun\<close>: the previous code unit was white space, and its run already gave a space\<close>
  "collapseFrom inRun [] = []"
| "collapseFrom inRun (c # cs) =
     (if isWhiteSpace c then (if inRun then collapseFrom True cs else 32 # collapseFrom True cs)
      else c # collapseFrom False cs)"

definition collapseWhiteSpace :: "jstring \<Rightarrow> jstring" where
  \<comment> \<open>\<open>replace(/\s+/g, ' ')\<close>\<close>
  "collapseWhiteSpace s = collapseFrom False s"

definition collectSnapshotScript :: "platform \<Rightarrow> document \<Rightarrow> script_error + snapshot" where
  "collectSnapshotScript P D =
     (case body D of
        None \<Rightarrow> Inr \<lparr>url = [], title = [], elements = [], headings = [], contentExcerpt = [],
                     tabs = [], activeTabIndex = 0\<rparr>
      | Some rootEl \<Rightarrow>
          (case walk P D [] rootEl ([], []) of
             Inl e \<Rightarrow> Inl e
           | Inr (es, seen) \<Rightarrow> Inr
              \<lparr>url = location_href D,
               title = document_title D,
               elements = es,
               headings = collectHeadings (headingElements D) [],
               contentExcerpt = take MAX_CONTENT_CHARS (trim (collapseWhiteSpace (mainTextContent D))),
               tabs = [], activeTabIndex = 0\<rparr>))"

section \<open>Environment answers and the controller state\<close>

text \<open>
  The environment answers from the trace of the calls made before the one it answers.
  \<open>raises\<close> says whether a call throws, with the text \<open>String(err?.message || err)\<close> of what
  it throws; the other fields are what a call returns when it does not throw.
\<close>

record env =
  raises :: "trace \<Rightarrow> call \<Rightarrow> jstring option"
  pages :: "trace \<Rightarrow> nat list"                         \<comment> \<open>\<open>context.pages()\<close>\<close>
  newPageHandle :: "trace \<Rightarrow> nat"                      \<comment> \<open>the page \<open>context.newPage()\<close> gives\<close>
  urlAndTitle :: "trace \<Rightarrow> nat \<Rightarrow> jstring \<times> jstring"
  pageDocument :: "trace \<Rightarrow> nat \<Rightarrow> document"          \<comment> \<open>what the snapshot script sees\<close>
  scriptErrorText :: "script_error \<Rightarrow> jstring"         \<comment> \<open>the message when the script throws\<close>
  confirmAnswer :: "trace \<Rightarrow> jstring \<Rightarrow> bool"
  classifyAnswer :: "trace \<Rightarrow> jstring \<Rightarrow> jstring option"
    \<comment> \<open>\<open>response.choices?.[0]?.message?.content\<close> of the classification\<close>
  chatAnswer :: "trace \<Rightarrow> chatMessage list \<Rightarrow> choice option"   \<comment> \<open>\<open>response.choices?.[0]\<close>\<close>

text \<open>
  The state of a run: the trace, and the two private fields of \<open>BrowserController\<close>
  (\<open>#context\<close> is set or null, \<open>#page\<close> is a page handle or null or undefined).
\<close>

record world =
  trace :: trace
  hasContext :: bool
  activePage :: "nat option"

text \<open>
  An asynchronous function is a state transformer that returns a value or throws
  (\<open>Inl\<close> of the text of the error).
\<close>

type_synonym 'a io = "world \<Rightarrow> (jstring + 'a) \<times> world"

definition io_return :: "'a \<Rightarrow> 'a io" where
  "io_return x = (\<lambda>w. (Inr x, w))"

definition io_throw :: "jstring \<Rightarrow> 'a io" where
  "io_throw e = (\<lambda>w. (Inl e, w))"

definition io_bind :: "'a io \<Rightarrow> ('a \<Rightarrow> 'b io) \<Rightarrow> 'b io" where
  "io_bind m k = (\<lambda>w. case m w of (Inl e, w') \<Rightarrow> (Inl e, w') | (Inr x, w') \<Rightarrow> k x w')"

definition io_then :: "unit io \<Rightarrow> 'b io \<Rightarrow> 'b io" where
  "io_then m n = io_bind m (\<lambda>_. n)"

definition io_catch :: "'a io \<Rightarrow> (jstring \<Rightarrow> 'a io) \<Rightarrow> 'a io" where
  \<comment> \<open>\<open>try { m } catch (err) { h }\<close>\<close>
  "io_catch m h = (\<lambda>w. case m w of (Inl e, w') \<Rightarrow> h e w' | (Inr x, w') \<Rightarrow> (Inr x, w'))"

definition io_call :: "env \<Rightarrow> call \<Rightarrow> unit io" where
  \<comment> \<open>an awaited call to the environment\<close>
  "io_call E c =
     (\<lambda>w. (case raises E (trace w) c of None \<Rightarrow> Inr () | Some e \<Rightarrow> Inl e,
           w\<lparr>trace := trace w @ [c]\<rparr>))"

definition sleep :: "rat \<Rightarrow> unit io" where
  \<comment> \<open>\<open>await new Promise((r) => setTimeout(r, ms))\<close>\<close>
  "sleep ms = (\<lambda>w. (Inr (), w\<lparr>trace := trace w @ [Sleep ms]\<rparr>))"

definition setPage :: "nat option \<Rightarrow> unit io" where
  \<comment> \<open>\<open>this.#page = ...\<close>\<close>
  "setPage p = (\<lambda>w. (Inr (), w\<lparr>activePage := p\<rparr>))"

section \<open>\<open>BrowserController\<close>\<close>

definition ACTION_DELAY_MS :: rat where "ACTION_DELAY_MS = 500"
definition CLICK_AFTER_DELAY_MS :: rat where "CLICK_AFTER_DELAY_MS = 1200"

definition locatorFromSelector :: "platform \<Rightarrow> selectorDesc \<Rightarrow> locator io" where
  "locatorFromSelector P selectorDesc =
     (case selectorDesc of
        XPath v \<Rightarrow>
          if v \<noteq> [] then io_return (LocXPath v)
          else io_throw (str ''Invalid selector descriptor: '' @ JSON_stringify P selectorDesc)
      | Nth sel idx \<Rightarrow> io_return (LocNth sel idx)
      | Selector v \<Rightarrow>
          if v \<noteq> [] then io_return (LocFirst v)
          else io_throw (str ''Invalid selector descriptor: '' @ JSON_stringify P selectorDesc))"

definition clickViaEvaluate :: "env \<Rightarrow> nat \<Rightarrow> selectorDesc \<Rightarrow> jstring \<Rightarrow> unit io" where
  \<comment> \<open>one \<open>page.evaluate\<close>; what the script does inside the page is the environment's\<close>
  "clickViaEvaluate E page selectorDesc expectedText =
     io_call E (OnPage page (EvaluateClick selectorDesc (take 40 expectedText)))"

definition findElementInSnapshot :: "platform \<Rightarrow> snapshot \<Rightarrow> jsnum \<Rightarrow> element io" where
  "findElementInSnapshot P snap ident =
     (case findElement snap ident of
        None \<Rightarrow> io_throw (str ''Element id not found in snapshot: '' @ numToString P ident)
      | Some el \<Rightarrow> io_return el)"

definition delay :: "unit io" where
  "delay = sleep ACTION_DELAY_MS"

definition getPage :: "nat io" where
  "getPage = (\<lambda>w. case activePage w of
                     None \<Rightarrow> (Inl (str ''Browser not launched''), w)
                   | Some p \<Rightarrow> (Inr p, w))"

definition getPages :: "env \<Rightarrow> nat list io" where
  "getPages E = (\<lambda>w. if \<not> hasContext w then (Inl (str ''Browser not launched''), w)
                      else (Inr (pages E (trace w)), w))"

definition ignoreErrors :: "unit io \<Rightarrow> unit io" where
  \<comment> \<open>\<open>.catch(() => {})\<close>\<close>
  "ignoreErrors m = io_catch m (\<lambda>_. io_return ())"

definition gotoAndSettle :: "env \<Rightarrow> nat \<Rightarrow> jstring \<Rightarrow> unit io" where
  \<comment> \<open>\<open>page.goto\<close>, then \<open>waitForLoadState('networkidle')\<close> with its errors dropped\<close>
  "gotoAndSettle E page u =
     io_then (io_call E (OnPage page (Goto u)))
       (ignoreErrors (io_call E (OnPage page (WaitForLoadState (str ''networkidle'') 5000))))"

definition newTab :: "env \<Rightarrow> jstring option \<Rightarrow> unit io" where
  "newTab E u =
     (\<lambda>w. if \<not> hasContext w then (Inl (str ''Browser not launched''), w)
          else io_then (io_call E NewPage)
                 (io_then (setPage (Some (newPageHandle E (trace w))))
                   (io_then (if truthy u then gotoAndSettle E (newPageHandle E (trace w)) (the u)
                             else io_return ())
                      delay)) w)"

definition isInteger :: "rat \<Rightarrow> bool" where
  "isInteger r \<longleftrightarrow> of_int \<lfloor>r\<rfloor> = r"

definition switchTab :: "platform \<Rightarrow> env \<Rightarrow> jsnum \<Rightarrow> unit io" where
  \<comment> \<open>\<open>pages[tabIndex]\<close> is undefined for an index that is no integer; calling
      \<open>bringToFront\<close> on it throws a TypeError (the text is V8's)\<close>
  "switchTab P E tabIndex =
     io_bind (getPages E) (\<lambda>ps.
       let invalid = io_throw (str ''Invalid tab index: '' @ numToString P tabIndex
                       @ str '' (tabs: 0'' @ [8211] @ numToString P (Fin (of_nat (length ps) - 1))
                       @ str '')'');
           undefinedPage = io_then (setPage None)
              (io_throw (str ''Cannot read properties of undefined (reading 'bringToFront')''))
       in case tabIndex of
            NegInf \<Rightarrow> invalid
          | PosInf \<Rightarrow> invalid
          | NaN \<Rightarrow> undefinedPage
          | Fin r \<Rightarrow>
              if r < 0 \<or> of_nat (length ps) \<le> r then invalid
              else if isInteger r then
                io_then (setPage (Some (ps ! nat \<lfloor>r\<rfloor>)))
                  (io_then (io_call E (OnPage (ps ! nat \<lfloor>r\<rfloor>) BringToFront)) delay)
              else undefinedPage)"

definition navigate :: "env \<Rightarrow> jstring \<Rightarrow> unit io" where
  "navigate E u = io_bind getPage (\<lambda>page. io_then (gotoAndSettle E page u) delay)"

definition isWrapper :: "element \<Rightarrow> bool" where
  "isWrapper el \<longleftrightarrow> (tagName el = str ''div'' \<or> tagName el = str ''span'') \<and> role el = str ''button''"

definition clickTiers :: "env \<Rightarrow> nat \<Rightarrow> locator \<Rightarrow> selectorDesc \<Rightarrow> jstring \<Rightarrow> unit io" where
  \<comment> \<open>the last \<open>try\<close> of \<open>clickElement\<close> and the delay after it\<close>
  "clickTiers E page loc selectorDesc textHint =
     io_then
       (io_catch (io_call E (OnPage page (Click loc 10000 False)))
          (\<lambda>err. io_catch (io_call E (OnPage page (Click loc 5000 True)))
             (\<lambda>err2. clickViaEvaluate E page selectorDesc textHint)))
       (sleep CLICK_AFTER_DELAY_MS)"

definition clickElement :: "platform \<Rightarrow> env \<Rightarrow> snapshot \<Rightarrow> jsnum \<Rightarrow> unit io" where
  "clickElement P E snap elementId =
     io_bind (findElementInSnapshot P snap elementId) (\<lambda>el.
     io_bind getPage (\<lambda>page.
       let selectorDesc = selector el;
           textHint = take 40 (trim (orElse (elem_text el) (orUndef (href el) [])))
       in
     io_bind (locatorFromSelector P selectorDesc) (\<lambda>loc.
     io_then (io_call E (OnPage page (WaitForVisible loc 15000)))
    (io_then (io_call E (OnPage page (ScrollIntoViewIfNeeded loc 8000)))
    (io_then delay
      (if isWrapper el then
         io_catch
           (io_then (clickViaEvaluate E page selectorDesc textHint) (sleep CLICK_AFTER_DELAY_MS))
           (\<lambda>_. io_catch
              (io_then (io_call E (OnPage page (WaitForVisible (LocInnerLink loc) 3000)))
                (io_then (io_call E (OnPage page (Click (LocInnerLink loc) 8000 False)))
                  (sleep CLICK_AFTER_DELAY_MS)))
              (\<lambda>_. clickTiers E page loc selectorDesc textHint))
       else clickTiers E page loc selectorDesc textHint))))))"

definition typeText :: "platform \<Rightarrow> env \<Rightarrow> snapshot \<Rightarrow> jsnum option \<Rightarrow> jstring \<Rightarrow> unit io" where
  "typeText P E snap elementId text =
     io_bind getPage (\<lambda>page.
       io_then
         (case elementId of
            Some ident \<Rightarrow>
              io_bind (findElementInSnapshot P snap ident) (\<lambda>el.
              io_bind (locatorFromSelector P (selector el)) (\<lambda>loc.
                io_then (io_call E (OnPage page (Fill loc [])))
                        (io_call E (OnPage page (Fill loc text)))))
          | None \<Rightarrow> io_call E (OnPage page (KeyboardType text)))
         delay)"

definition selectOption :: "platform \<Rightarrow> env \<Rightarrow> snapshot \<Rightarrow> jsnum \<Rightarrow> jstring \<Rightarrow> unit io" where
  "selectOption P E snap elementId valueOrLabel =
     io_bind (findElementInSnapshot P snap elementId) (\<lambda>el.
     io_bind getPage (\<lambda>page.
     io_bind (locatorFromSelector P (selector el)) (\<lambda>loc.
       io_then
         (io_catch (io_call E (OnPage page (SelectByValue loc valueOrLabel)))
            (\<lambda>_. io_call E (OnPage page (SelectByLabel loc valueOrLabel))))
         delay)))"

definition setCheckbox :: "platform \<Rightarrow> env \<Rightarrow> snapshot \<Rightarrow> jsnum \<Rightarrow> bool \<Rightarrow> unit io" where
  "setCheckbox P E snap elementId checked =
     io_bind (findElementInSnapshot P snap elementId) (\<lambda>el.
     io_bind getPage (\<lambda>page.
     io_bind (locatorFromSelector P (selector el)) (\<lambda>loc.
       io_then
         (if checked then io_call E (OnPage page (Check loc))
          else io_call E (OnPage page (Uncheck loc)))
         delay)))"

definition scroll :: "env \<Rightarrow> jstring \<Rightarrow> unit io" where
  "scroll E direction =
     io_bind getPage (\<lambda>page.
       io_then
         (if direction = str ''down'' then io_call E (OnPage page (MouseWheel 0 300))
          else if direction = str ''up'' then io_call E (OnPage page (MouseWheel 0 (- 300)))
          else if direction = str ''left'' then io_call E (OnPage page (MouseWheel (- 300) 0))
          else if direction = str ''right'' then io_call E (OnPage page (MouseWheel 300 0))
          else io_return ())
         delay)"

definition io_query :: "env \<Rightarrow> call \<Rightarrow> (trace \<Rightarrow> 'a) \<Rightarrow> 'a io" where
  \<comment> \<open>an awaited call that returns the environment's answer\<close>
  "io_query E c answer =
     (\<lambda>w. (case raises E (trace w) c of None \<Rightarrow> Inr (answer (trace w)) | Some e \<Rightarrow> Inl e,
           w\<lparr>trace := trace w @ [c]\<rparr>))"

fun tabInfos :: "env \<Rightarrow> nat list \<Rightarrow> nat \<Rightarrow> tabInfo list io" where
  \<comment> \<open>the \<open>pages.map\<close> of \<open>getSnapshot\<close>: url and title of each page, or the two
      placeholders when reading them throws\<close>
  "tabInfos E [] i = io_return []"
| "tabInfos E (p # ps) i =
     io_bind
       (io_catch
          (io_query E (OnPage p UrlAndTitle)
             (\<lambda>t. \<lparr>tab_index = i, tab_url = fst (urlAndTitle E t p), tab_title = snd (urlAndTitle E t p)\<rparr>))
          (\<lambda>_. io_return \<lparr>tab_index = i, tab_url = str ''(navigating)'', tab_title = str ''(loading)''\<rparr>))
       (\<lambda>info. io_bind (tabInfos E ps (Suc i)) (\<lambda>rest. io_return (info # rest)))"

definition getPageSnapshot :: "platform \<Rightarrow> env \<Rightarrow> nat \<Rightarrow> snapshot io" where
  \<comment> \<open>\<open>page.evaluate(collectSnapshotScript)\<close>: the call may throw by itself (the context
      was destroyed), or because the script throws\<close>
  "getPageSnapshot P E page =
     io_bind (io_query E (OnPage page EvaluateSnapshot) (\<lambda>t. collectSnapshotScript P (pageDocument E t page)))
       (\<lambda>r. case r of Inl e \<Rightarrow> io_throw (scriptErrorText E e) | Inr snap \<Rightarrow> io_return snap)"

definition containsIgnoreCase :: "platform \<Rightarrow> jstring \<Rightarrow> jstring \<Rightarrow> bool" where
  \<comment> \<open>\<open>/pattern/i.test(s)\<close> for a pattern of literal characters\<close>
  "containsIgnoreCase P pattern s =
     list_ex (\<lambda>i. map (canonicalize P) (take (length pattern) (drop i s)) = map (canonicalize P) pattern)
       [0..<Suc (length s)]"

definition getSnapshot :: "platform \<Rightarrow> env \<Rightarrow> snapshot io" where
  "getSnapshot P E =
     io_bind getPage (\<lambda>page.
     io_bind (getPages E) (\<lambda>ps.
     io_bind (tabInfos E ps 0) (\<lambda>infos.
     io_then (ignoreErrors (io_call E (OnPage page (WaitForLoadState (str ''domcontentloaded'') 8000))))
       (io_bind
          (io_catch (getPageSnapshot P E page)
             (\<lambda>err. if containsIgnoreCase P (str ''Execution context was destroyed'') err
                        \<or> containsIgnoreCase P (str ''Target closed'') err
                     then io_then delay
                            (io_then (ignoreErrors (io_call E (OnPage page
                                        (WaitForLoadState (str ''domcontentloaded'') 10000))))
                               (getPageSnapshot P E page))
                     else io_throw err))
          (\<lambda>pageSnapshot.
             io_return (pageSnapshot\<lparr>tabs := infos, activeTabIndex := indexOf ps page\<rparr>))))))"

section \<open>Tools: \<open>executeTool\<close>\<close>

record actionResult =
  success :: bool
  message :: jstring
  stop :: bool
  userQuestion :: "jstring option"

definition succeeded :: "jstring \<Rightarrow> actionResult" where
  \<comment> \<open>\<open>{ success: true, message }\<close>\<close>
  "succeeded m = \<lparr>success = True, message = m, stop = False, userQuestion = None\<rparr>"

definition failed :: "jstring \<Rightarrow> actionResult" where
  \<comment> \<open>\<open>{ success: false, message }\<close>\<close>
  "failed m = \<lparr>success = False, message = m, stop = False, userQuestion = None\<rparr>"

fun jsString :: "platform \<Rightarrow> json \<Rightarrow> jstring" where
  \<comment> \<open>\<open>String(v)\<close> of a value that \<open>JSON.parse\<close> produced\<close>
  "jsString P JNull = str ''null''"
| "jsString P (JBool b) = (if b then str ''true'' else str ''false'')"
| "jsString P (JNum n) = numToString P n"
| "jsString P (JStr s) = s"
| "jsString P (JArr xs) = join (str '','') (map (\<lambda>x. if x = JNull then [] else jsString P x) xs)"
| "jsString P (JObj kvs) = str ''[object Object]''"

definition jsTruthy :: "json option \<Rightarrow> bool" where
  "jsTruthy v =
     (case v of
        None \<Rightarrow> False
      | Some JNull \<Rightarrow> False
      | Some (JBool b) \<Rightarrow> b
      | Some (JNum n) \<Rightarrow> n \<noteq> NaN \<and> n \<noteq> Fin 0
      | Some (JStr s) \<Rightarrow> s \<noteq> []
      | Some (JArr xs) \<Rightarrow> True
      | Some (JObj kvs) \<Rightarrow> True)"

definition toNumber :: "platform \<Rightarrow> json option \<Rightarrow> jsnum" where
  \<comment> \<open>\<open>Number(v)\<close>\<close>
  "toNumber P v =
     (case v of
        None \<Rightarrow> NaN
      | Some JNull \<Rightarrow> Fin 0
      | Some (JBool b) \<Rightarrow> Fin (if b then 1 else 0)
      | Some (JNum n) \<Rightarrow> n
      | Some (JStr s) \<Rightarrow> stringToNumber P s
      | Some (JArr xs) \<Rightarrow> stringToNumber P (jsString P (JArr xs))
      | Some (JObj kvs) \<Rightarrow> stringToNumber P (jsString P (JObj kvs)))"

definition waitSeconds :: "jsnum \<Rightarrow> rat" where
  \<comment> \<open>\<open>Math.min(10, Math.max(1, n || 2))\<close>\<close>
  "waitSeconds n =
     (case n of
        NaN \<Rightarrow> 2
      | NegInf \<Rightarrow> 1
      | PosInf \<Rightarrow> 10
      | Fin r \<Rightarrow> if r = 0 then 2 else min 10 (max 1 r))"

definition executeTool :: "platform \<Rightarrow> env \<Rightarrow> jstring \<Rightarrow> args \<Rightarrow> snapshot \<Rightarrow> actionResult io" where
  "executeTool P E name args snap =
    (if name = str ''navigate'' then
       (case map_of args (str ''url'') of
          Some (JStr u) \<Rightarrow>
            io_then (navigate E u) (io_return (succeeded (str ''Navigated to '' @ u)))
        | _ \<Rightarrow> io_return (failed (str ''url must be a string'')))
     else if name = str ''open_new_tab'' then
       io_catch
         (io_then (newTab E (case map_of args (str ''url'') of Some (JStr u) \<Rightarrow> Some u | _ \<Rightarrow> None))
           (io_bind (getPages E) (\<lambda>ps.
              let idx = numToString P (Fin (of_nat (length ps) - 1)) in
              io_return (succeeded
                (if jsTruthy (map_of args (str ''url''))
                 then str ''Opened new tab '' @ idx @ str '' and navigated to ''
                        @ jsString P (the (map_of args (str ''url'')))
                 else str ''Opened new tab '' @ idx
                        @ str '' (blank). Use navigate(url) to go to a page.'')))))
         (\<lambda>err. io_return (failed err))
     else if name = str ''switch_tab'' then
       (case map_of args (str ''tab_index'') of
          Some (JNum tabIndex) \<Rightarrow>
            io_catch
              (io_then (switchTab P E tabIndex)
                 (io_return (succeeded (str ''Switched to tab '' @ numToString P tabIndex))))
              (\<lambda>err. io_return (failed err))
        | _ \<Rightarrow> io_return (failed (str ''tab_index must be a number'')))
     else if name = str ''click_element'' then
       (case map_of args (str ''element_id'') of
          Some (JNum elementId) \<Rightarrow>
            if (case findElement snap elementId of None \<Rightarrow> False | Some targetEl \<Rightarrow> disabled targetEl)
            then io_return (failed (str
              ''Element is disabled. Fill required fields or wait for it to become enabled, then try again.''))
            else
              io_catch
                (io_then (clickElement P E snap elementId)
                   (io_return (succeeded (str ''Clicked element '' @ numToString P elementId))))
                (\<lambda>msg. io_return (failed (msg @ str
                  ''. Try scroll(down) to bring the element into view, then wait(2), then click again; or the element may have changed (re-check snapshot).'')))
        | _ \<Rightarrow> io_return (failed (str ''element_id must be a number'')))
     else if name = str ''type_text'' then
       (case map_of args (str ''text'') of
          Some (JStr text) \<Rightarrow>
            io_catch
              (io_then
                 (typeText P E snap
                    (case map_of args (str ''element_id'') of Some (JNum n) \<Rightarrow> Some n | _ \<Rightarrow> None) text)
                 (io_return (succeeded (str ''Typed text into '' @
                    (case map_of args (str ''element_id'') of
                       None \<Rightarrow> str ''focused field''
                     | Some JNull \<Rightarrow> str ''focused field''
                     | Some v \<Rightarrow> str ''element '' @ jsString P v)))))
              (\<lambda>err. io_return (failed err))
        | _ \<Rightarrow> io_return (failed (str ''text must be a string'')))
     else if name = str ''select_option'' then
       (case map_of args (str ''element_id'') of
          Some (JNum elementId) \<Rightarrow>
            (case map_of args (str ''value_or_label'') of
               Some (JStr valueOrLabel) \<Rightarrow>
                 io_catch
                   (io_then (selectOption P E snap elementId valueOrLabel)
                      (io_return (succeeded (str ''Selected '' @ quoted valueOrLabel
                         @ str '' in element '' @ numToString P elementId))))
                   (\<lambda>err. io_return (failed err))
             | _ \<Rightarrow> io_return (failed (str ''value_or_label must be a string'')))
        | _ \<Rightarrow> io_return (failed (str ''element_id must be a number'')))
     else if name = str ''set_checkbox'' then
       (case map_of args (str ''element_id'') of
          Some (JNum elementId) \<Rightarrow>
            (case map_of args (str ''checked'') of
               Some (JBool checked) \<Rightarrow>
                 io_catch
                   (io_then (setCheckbox P E snap elementId checked)
                      (io_return (succeeded ((if checked then str ''Checked'' else str ''Unchecked'')
                         @ str '' element '' @ numToString P elementId))))
                   (\<lambda>err. io_return (failed err))
             | _ \<Rightarrow> io_return (failed (str ''checked must be a boolean'')))
        | _ \<Rightarrow> io_return (failed (str ''element_id must be a number'')))
     else if name = str ''scroll'' then
       (case map_of args (str ''direction'') of
          Some (JStr direction) \<Rightarrow>
            if direction \<in> set [str ''up'', str ''down'', str ''left'', str ''right''] then
              io_then (scroll E direction) (io_return (succeeded (str ''Scrolled '' @ direction)))
            else io_return (failed (str ''direction must be up, down, left, or right''))
        | _ \<Rightarrow> io_return (failed (str ''direction must be up, down, left, or right'')))
     else if name = str ''wait'' then
       (let sec = waitSeconds (toNumber P (map_of args (str ''seconds''))) in
        io_then (sleep (sec * 1000))
          (io_return (succeeded (str ''Waited '' @ numToString P (Fin sec) @ str '' seconds''))))
     else if name = str ''task_done'' then
       io_return \<lparr>success = True,
                  message = (case map_of args (str ''result'') of Some (JStr r) \<Rightarrow> r | _ \<Rightarrow> str ''Done''),
                  stop = True, userQuestion = None\<rparr>
     else if name = str ''request_user_input'' then
       io_return \<lparr>success = True,
                  message = (case map_of args (str ''question'') of
                               Some (JStr q) \<Rightarrow> q | _ \<Rightarrow> str ''Need your input''),
                  stop = True,
                  userQuestion = (case map_of args (str ''question'') of Some (JStr q) \<Rightarrow> Some q | _ \<Rightarrow> None)\<rparr>
     else io_return (failed (str ''Unknown tool: '' @ name)))"

section \<open>The agent loop: \<open>runAgent\<close>\<close>

text \<open>
  The prompt texts of \<open>SUB_AGENT_PROMPTS\<close> (by task type) and the rendering
  \<open>formatSnapshotForPrompt\<close> only produce text for the model endpoint; they are parameters.
\<close>

record prompts =
  SUB_AGENT_PROMPTS :: "jstring \<Rightarrow> jstring"
  formatSnapshotForPrompt :: "snapshot \<Rightarrow> jstring"

record agentResult =
  run_done :: bool
  run_result :: "jstring option"
  run_userQuestion :: "jstring option"
  run_error :: "jstring option"

definition MAX_ITERATIONS :: nat where "MAX_ITERATIONS = 80"

definition TASK_TYPES :: "jstring list" where
  "TASK_TYPES = [str ''browse'', str ''form'', str ''read'']"

definition classifyTask :: "platform \<Rightarrow> env \<Rightarrow> jstring \<Rightarrow> jstring io" where
  "classifyTask P E userTask =
     io_bind (io_query E (ClassifyTask userTask) (\<lambda>t. classifyAnswer E t userTask)) (\<lambda>answer.
       let word = toLowerCase P (trim (orUndef answer (str ''default'')))
       in io_return (if word \<in> set TASK_TYPES then word else str ''default''))"

definition confirmation :: "env \<Rightarrow> jstring \<Rightarrow> bool io" where
  \<comment> \<open>\<open>await getUserConfirmation(description)\<close>\<close>
  "confirmation E d = io_query E (Confirm d) (\<lambda>t. confirmAnswer E t d)"

definition gatedExecute ::
    "platform \<Rightarrow> env \<Rightarrow> bool \<Rightarrow> jstring \<Rightarrow> args \<Rightarrow> snapshot \<Rightarrow> actionResult io" where
  \<comment> \<open>the security check of \<open>runAgent\<close> and the \<open>if\<close> after it; \<open>hasConfirmation\<close>: the
      dependency \<open>getUserConfirmation\<close> is given\<close>
  "gatedExecute P E hasConfirmation name args snap =
     (let security = checkDestructiveAction P name args snap in
      if destructive security \<and> hasConfirmation then
        io_bind
          (confirmation E (case description security of None \<Rightarrow> str ''Sensitive action'' | Some d \<Rightarrow> d))
          (\<lambda>allowed.
             if \<not> allowed then io_return (failed (str ''User denied the action.''))
             else executeTool P E name args snap)
      else executeTool P E name args snap)"

datatype outcome = Return agentResult | Continue "chatMessage list"

fun mergeIntoFirstUserTurn :: "chatMessage list \<Rightarrow> jstring \<Rightarrow> chatMessage list" where
  \<comment> \<open>\<open>messages[1].content += '\n\n' + content\<close>\<close>
  "mergeIntoFirstUserTurn (m # UserMessage c # rest) s = m # UserMessage (c @ [10, 10] @ s) # rest"
| "mergeIntoFirstUserTurn ms s = ms"

definition parseArguments :: "platform \<Rightarrow> jstring \<Rightarrow> json" where
  \<comment> \<open>\<open>JSON.parse(arguments || '{}')\<close>, and \<open>{}\<close> when it throws\<close>
  "parseArguments P a =
     (if a = [] then JObj []
      else case JSON_parse P a of None \<Rightarrow> JObj [] | Some v \<Rightarrow> v)"

definition argsOf :: "json \<Rightarrow> args" where
  \<comment> \<open>the properties the tools read: a parsed value that is no object has none of them\<close>
  "argsOf v = (case v of JObj kvs \<Rightarrow> kvs | _ \<Rightarrow> [])"

definition handleResponse ::
    "platform \<Rightarrow> env \<Rightarrow> bool \<Rightarrow> snapshot \<Rightarrow> chatMessage list \<Rightarrow> choice option \<Rightarrow> outcome io" where
  \<comment> \<open>the body of the \<open>for\<close> loop after the chat completion (lines 61 to 134); \<open>response\<close> is
      \<open>response.choices?.[0]\<close>; \<open>continue\<close> and the end of the body are \<open>Continue\<close>.
      \<open>logToolCall\<close> throws a TypeError on \<open>null\<close> arguments (the text is V8's)\<close>
  "handleResponse P E hasConfirmation snap messages1 response =
     (case response of
        None \<Rightarrow> io_return (Return \<lparr>run_done = False, run_result = None, run_userQuestion = None,
                                    run_error = Some (str ''No response from model'')\<rparr>)
      | Some ch \<Rightarrow>
          if finish_reason ch = str ''stop'' \<and> tool_calls ch = [] then
            io_return (Continue (messages1 @
              [AssistantMessage (orUndef (content ch) (str ''(no content)''))]))
          else
            (case tool_calls ch of
               [] \<Rightarrow> io_return (Continue (messages1 @ [AssistantMessage (orUndef (content ch) [])]))
             | toolCall # _ \<Rightarrow>
                 let parsed = parseArguments P (tc_arguments toolCall);
                     messages2 = messages1 @
                       [AssistantToolCall (tc_id toolCall) (tc_name toolCall)
                          (orElse (tc_arguments toolCall) (str ''{}''))]
                 in
                 if parsed = JNull then
                   io_throw (str ''Cannot convert undefined or null to object'')
                 else
                   io_bind (gatedExecute P E hasConfirmation (tc_name toolCall) (argsOf parsed) snap)
                     (\<lambda>result.
                        let toolContent = (if success result then message result
                                           else str ''Error: '' @ message result);
                            messages3 = messages2 @ [ToolMessage (tc_id toolCall) toolContent]
                        in
                        if stop result then
                          io_return (Return \<lparr>run_done = True, run_result = Some (message result),
                                              run_userQuestion = userQuestion result,
                                              run_error = None\<rparr>)
                        else io_return (Continue messages3))))"

definition iteration ::
    "platform \<Rightarrow> prompts \<Rightarrow> env \<Rightarrow> bool \<Rightarrow> nat \<Rightarrow> chatMessage list \<Rightarrow> outcome io" where
  \<comment> \<open>the body of the \<open>for\<close> loop: the snapshot, the state message, the chat completion
      (lines 42 to 59), then \<open>handleResponse\<close>\<close>
  "iteration P T E hasConfirmation i messages =
     io_bind (getSnapshot P E) (\<lambda>snap.
       let stateContent = str ''Current page state:'' @ [10, 10] @ formatSnapshotForPrompt T snap;
           messages1 = (if i = 0 then mergeIntoFirstUserTurn messages stateContent
                        else messages @ [UserMessage stateContent])
       in
       io_bind (io_query E (ChatCompletion messages1) (\<lambda>t. chatAnswer E t messages1))
         (handleResponse P E hasConfirmation snap messages1))"

function agentLoop ::
    "platform \<Rightarrow> prompts \<Rightarrow> env \<Rightarrow> bool \<Rightarrow> nat \<Rightarrow> chatMessage list \<Rightarrow> agentResult io" where
  "agentLoop P T E hasConfirmation i messages w =
     (if MAX_ITERATIONS \<le> i then
        (Inr \<lparr>run_done = False, run_result = None, run_userQuestion = None,
              run_error = Some (str ''Max iterations reached'')\<rparr>, w)
      else
        (case iteration P T E hasConfirmation i messages w of
           (Inl e, w') \<Rightarrow> (Inl e, w')
         | (Inr (Return r), w') \<Rightarrow> (Inr r, w')
         | (Inr (Continue messages'), w') \<Rightarrow> agentLoop P T E hasConfirmation (Suc i) messages' w'))"
  by pat_completeness auto
termination
  by (relation "measure (\<lambda>(P, T, E, hasConfirmation, i, messages, w). MAX_ITERATIONS - i)") auto

definition runAgent :: "platform \<Rightarrow> prompts \<Rightarrow> env \<Rightarrow> bool \<Rightarrow> jstring \<Rightarrow> agentResult io" where
  "runAgent P T E hasConfirmation userTask =
     io_bind (classifyTask P E userTask) (\<lambda>taskType.
       agentLoop P T E hasConfirmation 0
         [SystemMessage (SUB_AGENT_PROMPTS T taskType),
          UserMessage (str ''Current task from user: '' @ userTask @ [10, 10] @ str
            ''What is the current state of the page? Decide the next action. If you see a blank page or no relevant content, navigate first. Otherwise use the element ids from the snapshot below.'')])"

section \<open>The tool catalog: \<open>TOOL_DEFINITIONS\<close>\<close>

text \<open>
  The catalog as the source declares it, without the description texts: for each tool its
  parameters with their JSON schema types, and the names of the required ones.
\<close>

datatype argType = StringType | IntegerType | NumberType | BooleanType | EnumType "jstring list"

record toolDefinition =
  tool_name :: jstring
  properties :: "(jstring \<times> argType) list"
  required :: "jstring list"

definition TOOL_DEFINITIONS :: "toolDefinition list" where
  "TOOL_DEFINITIONS =
    [ \<lparr>tool_name = str ''navigate'', properties = [(str ''url'', StringType)], required = [str ''url'']\<rparr>,
      \<lparr>tool_name = str ''open_new_tab'', properties = [(str ''url'', StringType)], required = []\<rparr>,
      \<lparr>tool_name = str ''switch_tab'', properties = [(str ''tab_index'', IntegerType)],
        required = [str ''tab_index'']\<rparr>,
      \<lparr>tool_name = str ''click_element'', properties = [(str ''element_id'', IntegerType)],
        required = [str ''element_id'']\<rparr>,
      \<lparr>tool_name = str ''type_text'',
        properties = [(str ''text'', StringType), (str ''element_id'', IntegerType)],
        required = [str ''text'']\<rparr>,
      \<lparr>tool_name = str ''select_option'',
        properties = [(str ''element_id'', IntegerType), (str ''value_or_label'', StringType)],
        required = [str ''element_id'', str ''value_or_label'']\<rparr>,
      \<lparr>tool_name = str ''set_checkbox'',
        properties = [(str ''element_id'', IntegerType), (str ''checked'', BooleanType)],
        required = [str ''element_id'', str ''checked'']\<rparr>,
      \<lparr>tool_name = str ''scroll'',
        properties = [(str ''direction'', EnumType [str ''up'', str ''down'', str ''left'', str ''right''])],
        required = [str ''direction'']\<rparr>,
      \<lparr>tool_name = str ''wait'', properties = [(str ''seconds'', NumberType)], required = [str ''seconds'']\<rparr>,
      \<lparr>tool_name = str ''task_done'', properties = [(str ''result'', StringType)],
        required = [str ''result'']\<rparr>,
      \<lparr>tool_name = str ''request_user_input'', properties = [(str ''question'', StringType)],
        required = [str ''question'']\<rparr> ]"


section \<open>Native dialogs: \<open>#attachDialogHandler\<close> and \<open>launch\<close>\<close>

text \<open>
  The listeners of the browser context, as \<open>page.on\<close> and \<open>context.on\<close> keep them: for each
  page the listeners of its \<open>dialog\<close> event, for the context the listeners of its \<open>page\<close>
  event, each in the order of registration. The program registers one kind of each.
\<close>

datatype dialogKind = Alert | ConfirmDialog | Prompt | BeforeUnload

datatype dialogReply = Accepted | Dismissed

datatype dialogListener = AcceptDialog
  \<comment> \<open>\<open>(dialog) => dialog.accept()\<close>\<close>

datatype pageListener = AttachDialogHandler
  \<comment> \<open>\<open>(p) => this.#attachDialogHandler(p)\<close>\<close>

record browserContext =
  contextPages :: "nat list"                          \<comment> \<open>\<open>context.pages()\<close>\<close>
  dialogListeners :: "nat \<Rightarrow> dialogListener list"
  pageListeners :: "pageListener list"

definition attachDialogHandler :: "nat \<Rightarrow> browserContext \<Rightarrow> browserContext" where
  \<comment> \<open>\<open>page.on('dialog', (dialog) => dialog.accept())\<close>\<close>
  "attachDialogHandler page c =
     c\<lparr>dialogListeners := (dialogListeners c)(page := dialogListeners c page @ [AcceptDialog])\<rparr>"

fun runPageListener :: "pageListener \<Rightarrow> nat \<Rightarrow> browserContext \<Rightarrow> browserContext" where
  "runPageListener AttachDialogHandler p c = attachDialogHandler p c"

fun runDialogListener :: "dialogListener \<Rightarrow> dialogKind \<Rightarrow> dialogReply" where
  "runDialogListener AcceptDialog dialog = Accepted"

definition emitPage :: "nat \<Rightarrow> browserContext \<Rightarrow> browserContext" where
  \<comment> \<open>the context has a new page (a tab of \<open>context.newPage()\<close>, or a popup) and emits
      \<open>page\<close>: every listener runs on it\<close>
  "emitPage p c =
     fold (\<lambda>listener. runPageListener listener p) (pageListeners c)
       (c\<lparr>contextPages := contextPages c @ [p]\<rparr>)"

definition emitDialog :: "nat \<Rightarrow> dialogKind \<Rightarrow> browserContext \<Rightarrow> dialogReply list" where
  \<comment> \<open>the page emits \<open>dialog\<close>: what its listeners do with the dialog, in order\<close>
  "emitDialog p dialog c = map (\<lambda>listener. runDialogListener listener dialog) (dialogListeners c p)"

definition launch :: "browserContext \<Rightarrow> nat \<Rightarrow> browserContext \<times> nat" where
  \<comment> \<open>\<open>launch\<close> from line 153 on; \<open>c\<close> is the context \<open>launchPersistentContext\<close> returned,
      \<open>fresh\<close> the handle of the page \<open>context.newPage()\<close> would create. The result is the
      context and \<open>this.#page\<close>\<close>
  "launch c fresh =
     (let c1 = fold attachDialogHandler (contextPages c) c;
          c2 = c1\<lparr>pageListeners := pageListeners c1 @ [AttachDialogHandler]\<rparr>
      in case contextPages c2 of
           p # _ \<Rightarrow> (c2, p)
         | [] \<Rightarrow> (emitPage fresh c2, fresh))"
section \<open>Properties as stated, and example inputs\<close>

subsection \<open>The runtime\<close>

text \<open>
  What the theorems about texts assume of the two case functions of the runtime, all of it
  fixed by ECMAScript: on a string of ASCII code units \<open>toLowerCase\<close> lowers the letters
  A to Z and changes nothing else; Canonicalize maps an ASCII code unit to its upper case
  and never maps a code unit from outside ASCII into ASCII.
\<close>

definition asciiLower :: "nat \<Rightarrow> nat" where
  "asciiLower c = (if 65 \<le> c \<and> c \<le> 90 then c + 32 else c)"

definition asciiUpper :: "nat \<Rightarrow> nat" where
  "asciiUpper c = (if 97 \<le> c \<and> c \<le> 122 then c - 32 else c)"

definition ecmaCase :: "platform \<Rightarrow> bool" where
  "ecmaCase P \<longleftrightarrow>
     (\<forall>s. list_all (\<lambda>c. c < 128) s \<longrightarrow> toLowerCase P s = map asciiLower s)
     \<and> (\<forall>c. c < 128 \<longrightarrow> canonicalize P c = asciiUpper c)
     \<and> (\<forall>c. 128 \<le> c \<longrightarrow> 128 \<le> canonicalize P c)"

subsection \<open>Perception\<close>

definition denseIds :: "element list \<Rightarrow> bool" where
  \<comment> \<open>the ids are 1, 2, ..., N in order, and N is within the cap\<close>
  "denseIds es \<longleftrightarrow> map elem_id es = [1..<Suc (length es)] \<and> length es \<le> MAX_ELEMENTS"

text \<open>
  The sources of the display text in the priority order the specification gives: own text,
  aria-label, title, value, placeholder hint, href hint, associated-label hint.
\<close>

definition displaySources :: "platform \<Rightarrow> document \<Rightarrow> domElement list \<Rightarrow> domElement \<Rightarrow> jstring list" where
  "displaySources P D ancestors el =
     (let tag = toLowerCase P (dom_tagName el);
          label = (if tag = str ''input'' \<or> tag = str ''textarea'' \<or> tag = str ''select''
                   then getAssociatedLabelText D ancestors el else []);
          placeholder' = take 60 (trim (getAttribute el (str ''placeholder'')));
          href' = trim (getAttribute el (str ''href''))
      in [ take 200 (trim (orElse (innerText el) (textContent el))),
           take 100 (trim (getAttribute el (str ''aria-label''))),
           take 100 (trim (getAttribute el (str ''title''))),
           take 100 (trim (valueString P el)),
           (if placeholder' \<noteq> [] then str ''placeholder: '' @ placeholder' else []),
           (if href' \<noteq> [] then str ''link: '' @ href' else []),
           (if label \<noteq> [] then str ''label: '' @ label else []) ])"

fun firstNonEmpty :: "jstring list \<Rightarrow> jstring" where
  "firstNonEmpty [] = []"
| "firstNonEmpty (s # rest) = (if s \<noteq> [] then s else firstNonEmpty rest)"

text \<open>
  The texts \<open>getStableSelector\<close> reads from the DOM element, in its order: \<open>innerText\<close>, the
  value when it is a string, the aria-label; and the text it derives from them.
\<close>

definition selectorSources :: "domElement \<Rightarrow> jstring list" where
  "selectorSources el =
     [innerText el,
      (case dom_value el of StringValue v \<Rightarrow> v | _ \<Rightarrow> []),
      getAttribute el (str ''aria-label'')]"

definition selectorTextOf :: "domElement \<Rightarrow> jstring" where
  "selectorTextOf el = take 80 (trim (firstNonEmpty (selectorSources el)))"

definition demoPlatform :: platform where
  "demoPlatform =
     \<lparr>toLowerCase = map asciiLower,
      canonicalize = asciiUpper,
      numToString =
        (\<lambda>n. case n of
               Fin r \<Rightarrow> (if r = 10 then str ''10'' else if r = 40 then str ''40''
                         else [48 + nat \<lfloor>r\<rfloor>])
             | _ \<Rightarrow> str ''NaN''),
      stringToNumber = (\<lambda>s. NaN),
      JSON_parse =
        (\<lambda>s. if s = str ''null'' then Some JNull
             else if s = str ''{'' @ quoted (str ''result'') @ str '':'' @ quoted (str ''All done'') @ str ''}''
             then Some (JObj [(str ''result'', JStr (str ''All done''))])
             else None),
      JSON_stringify = (\<lambda>d. str ''{}'')\<rparr>"

definition demoNode :: "nat \<Rightarrow> jstring \<Rightarrow> (jstring \<times> jstring) list \<Rightarrow> jstring \<Rightarrow> domValue \<Rightarrow> rat \<Rightarrow> domElement" where
  \<comment> \<open>a visible 80 by 20 interactive element at the given top\<close>
  "demoNode ident tag attrs inner val y =
     \<lparr>nodeIdent = ident, dom_tagName = tag, attributes = attrs, dom_id = [], innerText = inner,
      textContent = inner, dom_value = val, rect_width = 80, rect_height = 20, rect_top = y,
      rect_left = 10, style_visibility = str ''visible'', style_display = str ''block'',
      matchesInteractive = True, matchesNative = True, closestDialog = False, dom_options = None\<rparr>"

definition demoDelete :: domElement where
  "demoDelete = demoNode 1 (str ''BUTTON'') [] (str ''Delete account'') (StringValue []) 10"

definition demoIcon :: domElement where
  "demoIcon = demoNode 2 (str ''BUTTON'') [(str ''title'', str ''Close'')] [] (StringValue []) 40"

definition demoSearch :: domElement where
  "demoSearch = demoNode 3 (str ''INPUT'')
     [(str ''type'', str ''text''), (str ''name'', str ''q''), (str ''placeholder'', str ''Search'')]
     [] (StringValue []) 40"

definition demoBody :: domElement where
  "demoBody = (demoNode 0 (str ''BODY'') [] (str ''Delete account'') Undefined 10)
                \<lparr>matchesInteractive := False, matchesNative := False\<rparr>"

definition demoIconCaptured :: element where
  \<comment> \<open>what \<open>walk\<close> records for \<open>demoIcon\<close>\<close>
  "demoIconCaptured =
     \<lparr>elem_id = 2, role = str ''button'', tagName = str ''button'', elem_text = str ''Close'',
      placeholder = None, href = None, elem_value = None, elem_type = None, labelText = None,
      elem_title = Some (str ''Close''), selector = Nth (str ''button'') 1, isInDialog = False,
      disabled = False, options = None\<rparr>"

definition demoDocument :: document where
  "demoDocument =
     \<lparr>body = Some (Element demoBody [Element demoDelete [], Element demoIcon [], Element demoSearch []]),
      querySelectorAll = (\<lambda>s. if s = str ''button'' then Some [1, 2] else Some [3]),
      labelsWithFor = [], headingElements = [(str ''H1'', str ''Settings'')],
      mainTextContent = str ''Delete account'', location_href = str ''https://example.org/'',
      document_title = str ''Settings''\<rparr>"

subsection \<open>Policy gate\<close>

definition matchesDestructivePattern :: "platform \<Rightarrow> jstring \<Rightarrow> bool" where
  \<comment> \<open>some pattern of \<open>DESTRUCTIVE_PATTERNS\<close> matches the text\<close>
  "matchesDestructivePattern P s = list_ex (\<lambda>pattern. rx_test P pattern s) DESTRUCTIVE_PATTERNS"

subsection \<open>Tools\<close>

text \<open>
  The declared shape of an argument, read the way the dispatcher tests types (\<open>typeof\<close>): a
  number stands for both \<open>integer\<close> and \<open>number\<close>. \<open>requiredShape\<close>: every required
  parameter of the tool is present with its declared type.
\<close>

definition typeMatches :: "argType \<Rightarrow> json option \<Rightarrow> bool" where
  "typeMatches ty v =
     (case ty of
        StringType \<Rightarrow> (case v of Some (JStr s) \<Rightarrow> True | _ \<Rightarrow> False)
      | IntegerType \<Rightarrow> (case v of Some (JNum n) \<Rightarrow> True | _ \<Rightarrow> False)
      | NumberType \<Rightarrow> (case v of Some (JNum n) \<Rightarrow> True | _ \<Rightarrow> False)
      | BooleanType \<Rightarrow> (case v of Some (JBool b) \<Rightarrow> True | _ \<Rightarrow> False)
      | EnumType vs \<Rightarrow> (case v of Some (JStr s) \<Rightarrow> s \<in> set vs | _ \<Rightarrow> False))"

definition requiredShape :: "toolDefinition \<Rightarrow> args \<Rightarrow> bool" where
  "requiredShape d args =
     list_all (\<lambda>r. case map_of (properties d) r of
                      None \<Rightarrow> True
                    | Some ty \<Rightarrow> typeMatches ty (map_of args r))
       (required d)"

definition defaultingTools :: "jstring list" where
  \<comment> \<open>the tools whose case in \<open>executeTool\<close> replaces a missing argument by a default\<close>
  "defaultingTools = [str ''wait'', str ''task_done'', str ''request_user_input'']"

subsection \<open>Example environments\<close>

definition plainText :: choice where
  "plainText = \<lparr>finish_reason = str ''stop'', content = Some (str ''Thinking.''), tool_calls = []\<rparr>"

definition demoEnv :: env where
  \<comment> \<open>no call throws; the user denies; the model answers with plain text\<close>
  "demoEnv =
     \<lparr>raises = (\<lambda>t c. None),
      pages = (\<lambda>t. [0]),
      newPageHandle = (\<lambda>t. 1),
      urlAndTitle = (\<lambda>t p. (str ''https://example.org/'', str ''Settings'')),
      pageDocument = (\<lambda>t p. demoDocument),
      scriptErrorText = (\<lambda>e. str ''Error''),
      confirmAnswer = (\<lambda>t d. False),
      classifyAnswer = (\<lambda>t u. Some (str ''browse'')),
      chatAnswer = (\<lambda>t ms. Some plainText)\<rparr>"

definition demoWorld :: world where
  \<comment> \<open>after \<open>launch\<close>: a context and one page\<close>
  "demoWorld = \<lparr>trace = [], hasContext = True, activePage = Some 0\<rparr>"

definition demoButton :: "nat \<Rightarrow> jstring \<Rightarrow> jstring option \<Rightarrow> bool \<Rightarrow> element" where
  "demoButton ident label tip off =
     \<lparr>elem_id = ident, role = str ''button'', tagName = str ''button'', elem_text = label,
      placeholder = None, href = None, elem_value = None, elem_type = None, labelText = None,
      elem_title = tip, selector = Selector (str ''button''), isInDialog = False, disabled = off,
      options = None\<rparr>"

definition demoCancelInput :: element where
  "demoCancelInput =
     (demoButton 5 (str ''Cancel'') None False)
       \<lparr>role := str ''input'', tagName := str ''input'', elem_value := Some (str ''Cancel''),
        elem_type := Some (str ''button'')\<rparr>"

definition demoSnapshot :: snapshot where
  \<comment> \<open>1: Delete account; 2: Cancel; 3: Cancel, with a tooltip; 4: a disabled Submit;
      5: an input button whose value is Cancel\<close>
  "demoSnapshot =
     \<lparr>url = str ''https://example.org/'', title = str ''Settings'',
      elements = [demoButton 1 (str ''Delete account'') None False,
                  demoButton 2 (str ''Cancel'') None False,
                  demoButton 3 (str ''Cancel'') (Some (str ''Delete draft'')) False,
                  demoButton 4 (str ''Submit'') None True,
                  demoCancelInput],
      headings = [], contentExcerpt = [], tabs = [], activeTabIndex = 0\<rparr>"

definition clickArgs :: "nat \<Rightarrow> args" where
  "clickArgs n = [(str ''element_id'', JNum (Fin (of_nat n)))]"

definition stubbornEnv :: env where
  \<comment> \<open>like \<open>demoEnv\<close>, but every \<open>locator.click\<close> times out\<close>
  "stubbornEnv =
     demoEnv\<lparr>raises := (\<lambda>t c. case c of
                                   OnPage p (Click loc ms force) \<Rightarrow> Some (str ''Timeout exceeded'')
                                 | _ \<Rightarrow> None)\<rparr>"

definition confirmPrompt :: "platform \<Rightarrow> jstring \<Rightarrow> args \<Rightarrow> snapshot \<Rightarrow> jstring" where
  \<comment> \<open>\<open>security.description ?? 'Sensitive action'\<close>\<close>
  "confirmPrompt P name args snap =
     (case description (checkDestructiveAction P name args snap) of
        None \<Rightarrow> str ''Sensitive action''
      | Some d \<Rightarrow> d)"

definition typeArgs :: "nat \<Rightarrow> args" where
  "typeArgs n = [(str ''text'', JStr (str ''x'')), (str ''element_id'', JNum (Fin (of_nat n)))]"

subsection \<open>The loop\<close>

text \<open>
  A run is launched when the controller has its context and an active page. The cycles of
  the loop are counted by the chat completions in the trace: each cycle that reaches the
  decision makes exactly one.
\<close>

definition launched :: "world \<Rightarrow> bool" where
  "launched w \<longleftrightarrow> hasContext w \<and> activePage w \<noteq> None"

definition isChat :: "call \<Rightarrow> bool" where
  "isChat c = (case c of ChatCompletion ms \<Rightarrow> True | _ \<Rightarrow> False)"

definition chatCount :: "trace \<Rightarrow> nat" where
  "chatCount t = length (filter isChat t)"

text \<open>
  \<open>steady Q m\<close>: from a launched world, \<open>m\<close> leaves the world launched and makes no chat
  completion, and a value it returns satisfies \<open>Q\<close>. \<open>calm Q m\<close>: moreover \<open>m\<close> does not throw.
\<close>

definition steady :: "('a \<Rightarrow> bool) \<Rightarrow> 'a io \<Rightarrow> bool" where
  "steady Q m \<longleftrightarrow>
     (\<forall>w. launched w \<longrightarrow>
        launched (snd (m w)) \<and> chatCount (trace (snd (m w))) = chatCount (trace w)
        \<and> (case fst (m w) of Inl e \<Rightarrow> True | Inr x \<Rightarrow> Q x))"

definition calm :: "('a \<Rightarrow> bool) \<Rightarrow> 'a io \<Rightarrow> bool" where
  "calm Q m \<longleftrightarrow>
     (\<forall>w. launched w \<longrightarrow>
        launched (snd (m w)) \<and> chatCount (trace (snd (m w))) = chatCount (trace w)
        \<and> (case fst (m w) of Inl e \<Rightarrow> False | Inr x \<Rightarrow> Q x))"

definition anything :: "'a \<Rightarrow> bool" where
  "anything x = True"

text \<open>
  The environments of the exhaustion property: no call throws, the snapshot script runs on
  every document, and the model answers every request with a choice that is not terminal.
  A choice is not terminal when it has no tool call, or its first tool call is neither
  \<open>task_done\<close> nor \<open>request_user_input\<close>; the two further conditions exclude runs that
  the program itself aborts: arguments that parse to \<open>null\<close> (\<open>logToolCall\<close> throws) and a
  \<open>switch_tab\<close> index that is a number but no integer (the active page becomes undefined
  and the next snapshot throws).
\<close>

definition quiet :: "env \<Rightarrow> bool" where
  "quiet E \<longleftrightarrow> (\<forall>t c. raises E t c = None)"

definition scriptsRun :: "platform \<Rightarrow> env \<Rightarrow> bool" where
  "scriptsRun P E \<longleftrightarrow> (\<forall>t p. \<exists>snap. collectSnapshotScript P (pageDocument E t p) = Inr snap)"

definition wholeIndex :: "args \<Rightarrow> bool" where
  "wholeIndex args =
     (case map_of args (str ''tab_index'') of
        Some (JNum NaN) \<Rightarrow> False
      | Some (JNum (Fin r)) \<Rightarrow> isInteger r
      | _ \<Rightarrow> True)"

definition nonTerminal :: "platform \<Rightarrow> choice \<Rightarrow> bool" where
  "nonTerminal P ch =
     (case tool_calls ch of
        [] \<Rightarrow> True
      | toolCall # _ \<Rightarrow>
          tc_name toolCall \<noteq> str ''task_done'' \<and> tc_name toolCall \<noteq> str ''request_user_input''
          \<and> parseArguments P (tc_arguments toolCall) \<noteq> JNull
          \<and> (tc_name toolCall = str ''switch_tab''
               \<longrightarrow> wholeIndex (argsOf (parseArguments P (tc_arguments toolCall)))))"

definition neverTerminal :: "platform \<Rightarrow> env \<Rightarrow> bool" where
  "neverTerminal P E \<longleftrightarrow> (\<forall>t ms. \<exists>ch. chatAnswer E t ms = Some ch \<and> nonTerminal P ch)"

definition firstDecision :: "env \<Rightarrow> nat \<Rightarrow> choice \<Rightarrow> bool" where
  \<comment> \<open>\<open>ch\<close> is the answer to a request made after \<open>n\<close> chat completions\<close>
  "firstDecision E n ch \<longleftrightarrow> (\<forall>t ms. chatCount t = n \<longrightarrow> chatAnswer E t ms = Some ch)"

definition taskDone :: "platform \<Rightarrow> choice \<Rightarrow> jstring \<Rightarrow> bool" where
  \<comment> \<open>the first tool call of the choice is \<open>task_done\<close> with the summary as its \<open>result\<close>\<close>
  "taskDone P ch summary =
     (case tool_calls ch of
        [] \<Rightarrow> False
      | toolCall # _ \<Rightarrow>
          tc_name toolCall = str ''task_done''
          \<and> (case parseArguments P (tc_arguments toolCall) of
                JObj kvs \<Rightarrow> map_of kvs (str ''result'') = Some (JStr summary)
              | _ \<Rightarrow> False))"

definition finished :: "jstring \<Rightarrow> agentResult" where
  "finished summary = \<lparr>run_done = True, run_result = Some summary, run_userQuestion = None,
                        run_error = None\<rparr>"

definition exhausted :: agentResult where
  "exhausted = \<lparr>run_done = False, run_result = None, run_userQuestion = None,
                run_error = Some (str ''Max iterations reached'')\<rparr>"

definition noResponse :: agentResult where
  "noResponse = \<lparr>run_done = False, run_result = None, run_userQuestion = None,
                 run_error = Some (str ''No response from model'')\<rparr>"

definition demoPrompts :: prompts where
  "demoPrompts = \<lparr>SUB_AGENT_PROMPTS = (\<lambda>taskType. str ''You are a browser agent.''),
                  formatSnapshotForPrompt = (\<lambda>snap. title snap)\<rparr>"

definition doneChoice :: choice where
  \<comment> \<open>the tool call \<open>task_done({"result": "All done"})\<close>\<close>
  "doneChoice =
     \<lparr>finish_reason = str ''tool_calls'', content = None,
      tool_calls = [\<lparr>tc_id = str ''call_1'', tc_name = str ''task_done'',
                     tc_arguments = str ''{'' @ quoted (str ''result'') @ str '':''
                                    @ quoted (str ''All done'') @ str ''}''\<rparr>]\<rparr>"

definition doneAnswer :: "trace \<Rightarrow> chatMessage list \<Rightarrow> choice option" where
  "doneAnswer t ms = Some doneChoice"

definition noAnswer :: "trace \<Rightarrow> chatMessage list \<Rightarrow> choice option" where
  "noAnswer t ms = None"

definition doneEnv :: env where
  \<comment> \<open>like \<open>demoEnv\<close>, but the model answers \<open>task_done\<close>\<close>
  "doneEnv = demoEnv\<lparr>chatAnswer := doneAnswer\<rparr>"

definition silentEnv :: env where
  \<comment> \<open>like \<open>demoEnv\<close>, but the response of the model has no choice\<close>
  "silentEnv = demoEnv\<lparr>chatAnswer := noAnswer\<rparr>"

subsection \<open>Native dialogs\<close>

text \<open>
  What the browser does after \<open>launch\<close>, as a sequence of events: a page is opened in the
  context, or a page of the context raises a dialog. \<open>dialogReplies\<close> collects, for every
  dialog raised, what the listeners of its page answered.
\<close>

datatype browserEvent = PageOpened nat | DialogRaised nat dialogKind

fun dialogReplies :: "browserContext \<Rightarrow> browserEvent list \<Rightarrow> (nat \<times> dialogKind \<times> dialogReply list) list" where
  "dialogReplies c [] = []"
| "dialogReplies c (PageOpened p # evs) = dialogReplies (emitPage p c) evs"
| "dialogReplies c (DialogRaised p dialog # evs) = (p, dialog, emitDialog p dialog c) # dialogReplies c evs"

fun raised :: "browserEvent list \<Rightarrow> (nat \<times> dialogKind) list" where
  "raised [] = []"
| "raised (PageOpened p # evs) = raised evs"
| "raised (DialogRaised p dialog # evs) = (p, dialog) # raised evs"

fun validEvents :: "nat list \<Rightarrow> browserEvent list \<Rightarrow> bool" where
  \<comment> \<open>a page that opens is a new one, and a dialog is raised by a page of the context\<close>
  "validEvents ps [] = True"
| "validEvents ps (PageOpened p # evs) = (p \<notin> set ps \<and> validEvents (ps @ [p]) evs)"
| "validEvents ps (DialogRaised p dialog # evs) = (p \<in> set ps \<and> validEvents ps evs)"

definition newContext :: "browserContext \<Rightarrow> bool" where
  \<comment> \<open>a context as \<open>launchPersistentContext\<close> returns it: nothing listens yet\<close>
  "newContext c \<longleftrightarrow> distinct (contextPages c) \<and> pageListeners c = [] \<and> (\<forall>p. dialogListeners c p = [])"

definition attached :: "browserContext \<Rightarrow> bool" where
  \<comment> \<open>the state \<open>launch\<close> establishes: the context listens for pages, and exactly the pages
      of the context have the accepting listener, once\<close>
  "attached c \<longleftrightarrow> pageListeners c = [AttachDialogHandler]
     \<and> (\<forall>p. dialogListeners c p = (if p \<in> set (contextPages c) then [AcceptDialog] else []))"

definition acceptedOnce :: "nat \<times> dialogKind \<Rightarrow> nat \<times> dialogKind \<times> dialogReply list" where
  "acceptedOnce d = (fst d, snd d, [Accepted])"

definition demoContext :: "nat list \<Rightarrow> browserContext" where
  "demoContext ps = \<lparr>contextPages = ps, dialogListeners = (\<lambda>p. []), pageListeners = []\<rparr>"

definition demoEvents :: "browserEvent list" where
  \<comment> \<open>a confirm dialog on the first page, then a new tab that raises an alert and a prompt\<close>
  "demoEvents = [DialogRaised 0 ConfirmDialog, PageOpened 1, DialogRaised 1 Alert, DialogRaised 1 Prompt]"
section \<open>Verified properties\<close>

lemmas demo_defs =
  demoIcon_def demoDelete_def demoSearch_def demoBody_def demoNode_def demoDocument_def
  demoPlatform_def

lemmas string_defs =
  str_def trim_def asciiLower_def quoted_def isWhiteSpace_def orElse_def
  optional_def getAttribute_def hasAttribute_def

lemmas selector_defs =
  getStableSelector_def selectorText_def structuralSelector_def escapeXPathText_def

lemmas capture_defs =
  captureElement_def valueString_def displayText_def skipped_def elementKey_def rawInner_def

subsection \<open>Snapshot ids\<close>

lemma captureElement_id: "captureElement P D anc el n = Inr e \<Longrightarrow> elem_id e = n"
  by (auto simp: captureElement_def Let_def split: sum.splits)

lemma denseIds_snoc:
  "denseIds es \<Longrightarrow> length es < MAX_ELEMENTS \<Longrightarrow> elem_id e = length es + 1 \<Longrightarrow> denseIds (es @ [e])"
  by (simp add: denseIds_def)

lemma walk_dense:
  "walk P D anc n st = Inr st' \<Longrightarrow> denseIds (fst st) \<Longrightarrow> denseIds (fst st')"
  "walkChildren P D anc ns st = Inr st' \<Longrightarrow> denseIds (fst st) \<Longrightarrow> denseIds (fst st')"
proof (induction P D anc n st and P D anc ns st arbitrary: st' and st' rule: walk_walkChildren.induct)
  case (1 P D ancestors el cs es seen)
  show ?case
  proof (cases "MAX_ELEMENTS \<le> length es")
    case True
    with "1.prems" show ?thesis by simp
  next
    case False
    note notfull = this
    show ?thesis
    proof (cases "\<not> matchesInteractive el \<or> skipped el \<or> elementKey P el \<in> set seen")
      case True
      then have w: "walkChildren P D (el # ancestors) cs (es, seen) = Inr st'"
        using "1.prems"(1) notfull by (auto split: if_splits)
      have d: "denseIds (fst (es, seen))" using "1.prems"(2) by simp
      consider (a) "\<not> matchesInteractive el"
        | (b) "matchesInteractive el" "skipped el"
        | (c) "matchesInteractive el" "\<not> skipped el" "elementKey P el \<in> set seen"
        using True by blast
      then show ?thesis
      proof cases
        case a
        show ?thesis by (rule "1.IH"(1)[OF notfull a w d])
      next
        case b
        have nn: "\<not> \<not> matchesInteractive el" using b by simp
        show ?thesis by (rule "1.IH"(2)[OF notfull nn b(2) w d])
      next
        case c
        have nn: "\<not> \<not> matchesInteractive el" using c by simp
        show ?thesis by (rule "1.IH"(3)[OF notfull nn c(2) c(3) w d])
      qed
    next
      case False
      then obtain captured where
        cap: "captureElement P D (butlast ancestors) el (length es + 1) = Inr captured"
        using "1.prems"(1) notfull by (auto split: sum.splits)
      have d: "denseIds (es @ [captured])"
        using "1.prems"(2) notfull captureElement_id[OF cap] by (intro denseIds_snoc) auto
      show ?thesis
      proof (cases "matchesNative el")
        case True
        with False cap notfull "1.prems"(1) d show ?thesis by auto
      next
        case nn: False
        have w: "walkChildren P D (el # ancestors) cs (es @ [captured], elementKey P el # seen) = Inr st'"
          using False cap notfull "1.prems"(1) nn by auto
        have n1: "\<not> \<not> matchesInteractive el" and n2: "\<not> skipped el"
          and n3: "elementKey P el \<notin> set seen" using False by auto
        have d': "denseIds (fst (es @ [captured], elementKey P el # seen))" using d by simp
        show ?thesis by (rule "1.IH"(4)[OF notfull n1 n2 n3 cap nn w d'])
      qed
    qed
  qed
next
  case (2 P D ancestors st)
  then show ?case by simp
next
  case (3 P D ancestors c cs st)
  from "3.prems"(1) obtain st1 where w1: "walk P D ancestors c st = Inr st1"
    and w2: "walkChildren P D ancestors cs st1 = Inr st'"
    by (auto split: sum.splits)
  have "denseIds (fst st1)" by (rule "3.IH"(1)[OF w1 "3.prems"(2)])
  then show ?case by (rule "3.IH"(2)[OF w1 w2])
qed

lemma collect_dense: "collectSnapshotScript P D = Inr snap \<Longrightarrow> denseIds (elements snap)"
proof (cases "body D")
  case None
  assume "collectSnapshotScript P D = Inr snap"
  with None show ?thesis by (auto simp: collectSnapshotScript_def denseIds_def)
next
  case (Some rootEl)
  assume run: "collectSnapshotScript P D = Inr snap"
  with Some obtain es seen where w: "walk P D [] rootEl ([], []) = Inr (es, seen)"
    and s: "elements snap = es"
    by (auto simp: collectSnapshotScript_def split: sum.splits)
  have "denseIds (fst ([] :: element list, [] :: jstring list))" by (simp add: denseIds_def)
  from walk_dense(1)[OF w this] s show ?thesis by simp
qed

lemma demo_snapshot_case:
  "case collectSnapshotScript demoPlatform demoDocument of
     Inl e \<Rightarrow> False
   | Inr snap \<Rightarrow> map elem_id (elements snap) = [1, 2, 3]"
  by (simp add: collectSnapshotScript_def capture_defs MAX_ELEMENTS_def Let_def selector_defs
      demo_defs string_defs)

lemma demo_snapshot:
  "\<exists>snap. collectSnapshotScript demoPlatform demoDocument = Inr snap
     \<and> map elem_id (elements snap) = [1, 2, 3]"
  using demo_snapshot_case
  by (cases "collectSnapshotScript demoPlatform demoDocument") simp_all

text \<open>
  C3. In every snapshot that \<open>collectSnapshotScript\<close> returns, the ids of the elements are
  1, 2, ..., N in traversal order, where N is the number of recorded elements; N is at
  most 200; no two elements share an id.
\<close>

theorem snapshot_ids_dense:
  assumes "collectSnapshotScript P D = Inr snap"
  shows "map elem_id (elements snap) = [1..<Suc (length (elements snap))]
         \<and> length (elements snap) \<le> 200
         \<and> distinct (map elem_id (elements snap))"
proof -
  have d: "denseIds (elements snap)" by (rule collect_dense[OF assms])
  then have ids: "map elem_id (elements snap) = [1..<Suc (length (elements snap))]"
    and cap: "length (elements snap) \<le> 200"
    by (simp_all add: denseIds_def MAX_ELEMENTS_def)
  have "distinct [1..<Suc (length (elements snap))]" by simp
  with ids have "distinct (map elem_id (elements snap))" by simp
  with ids cap show ?thesis by simp
qed

theorem snapshot_ids_dense_witness:
  "\<exists>snap. collectSnapshotScript demoPlatform demoDocument = Inr snap
     \<and> map elem_id (elements snap) = [1, 2, 3]
     \<and> length (elements snap) \<le> 200
     \<and> distinct (map elem_id (elements snap))"
proof -
  from demo_snapshot obtain snap where
    run: "collectSnapshotScript demoPlatform demoDocument = Inr snap"
    and ids: "map elem_id (elements snap) = [1, 2, 3]" by (elim exE conjE)
  from snapshot_ids_dense[OF run] have "length (elements snap) \<le> 200"
    and "distinct (map elem_id (elements snap))" by simp_all
  with run ids show ?thesis by (intro exI[of _ snap]) simp
qed

subsection \<open>Selector descriptors\<close>

lemma capture_selector:
  "captureElement P D anc el n = Inr e \<Longrightarrow> getStableSelector P D el = Inr (selector e)"
  by (auto simp: captureElement_def Let_def split: sum.splits)

lemma selectorText_value: "selectorText el = Inr t \<Longrightarrow> t = selectorTextOf el"
  by (auto simp: selectorText_def selectorTextOf_def selectorSources_def orElse_def
      split: if_splits domValue.splits)

lemma stable_selector_cases:
  assumes "getStableSelector P D el = Inr d"
    and "querySelectorAll D (structuralSelector P el) = Some all"
  shows "d = (if 1 < length all \<and> selectorTextOf el \<noteq> [] then
                XPath (str ''//'' @ structuralSelector P el @ str ''[contains(normalize-space(.), ''
                       @ quoted (escapeXPathText (selectorTextOf el)) @ str '')]'')
              else if 1 < length all then Nth (structuralSelector P el) (indexOf all (nodeIdent el))
              else Selector (structuralSelector P el))"
proof -
  from assms(1) obtain t where t: "selectorText el = Inr t"
    by (auto simp: getStableSelector_def split: sum.splits)
  from selectorText_value[OF t] have tv: "t = selectorTextOf el" .
  from assms t show ?thesis unfolding tv
    by (simp add: getStableSelector_def Let_def split: if_splits)
qed

text \<open>
  C5 (amended). For every captured element the selector descriptor is chosen by the number
  of nodes the structural selector matches and by the text \<open>getStableSelector\<close> reads from
  the DOM element (\<open>innerText\<close>, else the value, else the aria-label, trimmed and cut to 80),
  which is not the display text the captured element carries: the plain variant when at
  most one node matches; the text-qualified variant, an XPath filtered by that text, when
  more than one node matches and that text is not empty; the indexed variant, with the
  position of the element among the matches, when more than one node matches and that
  text is empty. The indexed variant is never chosen when that text is not empty.
\<close>

theorem selector_variant_rule:
  assumes "captureElement P D ancestors el n = Inr e"
    and "querySelectorAll D (structuralSelector P el) = Some all"
  shows "(length all \<le> 1 \<longrightarrow> selector e = Selector (structuralSelector P el))
     \<and> (1 < length all \<and> selectorTextOf el \<noteq> [] \<longrightarrow>
          selector e = XPath (str ''//'' @ structuralSelector P el
                              @ str ''[contains(normalize-space(.), ''
                              @ quoted (escapeXPathText (selectorTextOf el)) @ str '')]''))
     \<and> (1 < length all \<and> selectorTextOf el = [] \<longrightarrow>
          selector e = Nth (structuralSelector P el) (indexOf all (nodeIdent el)))
     \<and> (selectorTextOf el \<noteq> [] \<longrightarrow> (\<forall>s i. selector e \<noteq> Nth s i))"
  using stable_selector_cases[OF capture_selector[OF assms(1)] assms(2)]
  by (simp split: if_splits)

lemma demo_selectors:
  "structuralSelector demoPlatform demoSearch
     = str ''input[name='' @ quoted (str ''q'') @ str ''][type='' @ quoted (str ''text'') @ str '']''"
  "structuralSelector demoPlatform demoDelete = str ''button''"
  "structuralSelector demoPlatform demoIcon = str ''button''"
  "selectorTextOf demoSearch = []"
  "selectorTextOf demoDelete = str ''Delete account''"
  "selectorTextOf demoIcon = []"
  "escapeXPathText (str ''Delete account'') = str ''Delete account''"
  "nodeIdent demoIcon = 2"
  by (simp_all add: selector_defs selectorTextOf_def selectorSources_def demo_defs string_defs)

lemma demo_queries:
  "querySelectorAll demoDocument (structuralSelector demoPlatform demoSearch) = Some [3]"
  "querySelectorAll demoDocument (structuralSelector demoPlatform demoDelete) = Some [1, 2]"
  "querySelectorAll demoDocument (structuralSelector demoPlatform demoIcon) = Some [1, 2]"
  by (simp_all add: selector_defs demo_defs string_defs)

lemma demo_captures:
  "\<exists>e. captureElement demoPlatform demoDocument [] demoSearch 3 = Inr e"
  "\<exists>e. captureElement demoPlatform demoDocument [] demoDelete 1 = Inr e"
  by (simp_all add: captureElement_def selector_defs demo_defs string_defs Let_def)

lemma icon_capture:
  "captureElement demoPlatform demoDocument [] demoIcon 2 = Inr demoIconCaptured"
  by (simp add: capture_defs selector_defs demo_defs string_defs Let_def demoIconCaptured_def
      getAssociatedLabelText_def)

theorem selector_variant_rule_witness:
  "(\<exists>e. captureElement demoPlatform demoDocument [] demoSearch 3 = Inr e
        \<and> selector e = Selector (str ''input[name='' @ quoted (str ''q'') @ str ''][type=''
                                  @ quoted (str ''text'') @ str '']''))
   \<and> (\<exists>e. captureElement demoPlatform demoDocument [] demoDelete 1 = Inr e
        \<and> selector e = XPath (str ''//button[contains(normalize-space(.), ''
                               @ quoted (str ''Delete account'') @ str '')]''))
   \<and> (\<exists>e. captureElement demoPlatform demoDocument [] demoIcon 2 = Inr e
        \<and> selector e = Nth (str ''button'') 1)"
proof (intro conjI)
  from demo_captures(1) obtain e where
    c: "captureElement demoPlatform demoDocument [] demoSearch 3 = Inr e" ..
  from selector_variant_rule[OF c demo_queries(1)]
  have "selector e = Selector (structuralSelector demoPlatform demoSearch)" by simp
  with c show "\<exists>e. captureElement demoPlatform demoDocument [] demoSearch 3 = Inr e
        \<and> selector e = Selector (str ''input[name='' @ quoted (str ''q'') @ str ''][type=''
                                  @ quoted (str ''text'') @ str '']'')"
    unfolding demo_selectors(1) by (intro exI[of _ e]) simp
next
  from demo_captures(2) obtain e where
    c: "captureElement demoPlatform demoDocument [] demoDelete 1 = Inr e" ..
  have ne: "selectorTextOf demoDelete \<noteq> []" unfolding demo_selectors(5) by (simp add: str_def)
  from selector_variant_rule[OF c demo_queries(2)] ne
  have "selector e = XPath (str ''//'' @ structuralSelector demoPlatform demoDelete
                              @ str ''[contains(normalize-space(.), ''
                              @ quoted (escapeXPathText (selectorTextOf demoDelete)) @ str '')]'')"
    by simp
  then have "selector e = XPath (str ''//button[contains(normalize-space(.), ''
                               @ quoted (str ''Delete account'') @ str '')]'')"
    unfolding demo_selectors(2,5,7) by (simp add: str_def)
  with c show "\<exists>e. captureElement demoPlatform demoDocument [] demoDelete 1 = Inr e
        \<and> selector e = XPath (str ''//button[contains(normalize-space(.), ''
                               @ quoted (str ''Delete account'') @ str '')]'')"
    by (intro exI[of _ e]) simp
next
  from selector_variant_rule[OF icon_capture demo_queries(3)] demo_selectors(6)
  have "selector demoIconCaptured
          = Nth (structuralSelector demoPlatform demoIcon) (indexOf [1, 2] (nodeIdent demoIcon))"
    by simp
  then have "selector demoIconCaptured = Nth (str ''button'') 1"
    unfolding demo_selectors(3,8) by simp
  with icon_capture show "\<exists>e. captureElement demoPlatform demoDocument [] demoIcon 2 = Inr e
        \<and> selector e = Nth (str ''button'') 1"
    by (intro exI[of _ demoIconCaptured]) simp
qed

text \<open>
  The claim as stated fails: the captured element of the icon button carries the text
  "Close" (from its title), its selector matches two nodes, and its descriptor is the
  indexed one.
\<close>

theorem icon_button_counterexample:
  "captureElement demoPlatform demoDocument [] demoIcon 2 = Inr demoIconCaptured
   \<and> querySelectorAll demoDocument (structuralSelector demoPlatform demoIcon) = Some [1, 2]
   \<and> elem_text demoIconCaptured = str ''Close''
   \<and> selector demoIconCaptured = Nth (str ''button'') 1"
  using icon_capture demo_queries(3) by (simp add: demoIconCaptured_def)

subsection \<open>Display text\<close>

text \<open>
  C9. The text of every captured element is the first non-empty source in the order own
  text, aria-label, title, value, placeholder hint, href hint, associated-label hint (and
  empty when all are): a later source is used only when every earlier one is empty.
\<close>

lemma capture_text:
  "captureElement P D anc el n = Inr e \<Longrightarrow>
     elem_text e = displayText P el
       (if toLowerCase P (dom_tagName el) = str ''input'' \<or> toLowerCase P (dom_tagName el) = str ''textarea''
           \<or> toLowerCase P (dom_tagName el) = str ''select''
        then getAssociatedLabelText D anc el else [])"
  by (auto simp: captureElement_def Let_def split: sum.splits)

lemma displayText_first:
  "displayText P el label =
     firstNonEmpty
       [ take 200 (trim (orElse (innerText el) (textContent el))),
         take 100 (trim (getAttribute el (str ''aria-label''))),
         take 100 (trim (getAttribute el (str ''title''))),
         take 100 (trim (valueString P el)),
         (if take 60 (trim (getAttribute el (str ''placeholder''))) \<noteq> []
          then str ''placeholder: '' @ take 60 (trim (getAttribute el (str ''placeholder''))) else []),
         (if trim (getAttribute el (str ''href'')) \<noteq> []
          then str ''link: '' @ trim (getAttribute el (str ''href'')) else []),
         (if label \<noteq> [] then str ''label: '' @ label else []) ]"
  unfolding displayText_def rawInner_def Let_def
  by (simp add: orElse_def)

theorem display_text_priority:
  assumes "captureElement P D ancestors el n = Inr e"
  shows "elem_text e = firstNonEmpty (displaySources P D ancestors el)"
  unfolding capture_text[OF assms] displayText_first displaySources_def Let_def
  by (rule refl)

theorem display_text_priority_witness:
  "\<exists>e. captureElement demoPlatform demoDocument [] demoSearch 3 = Inr e
      \<and> elem_text e = str ''placeholder: Search''"
proof -
  obtain e where c: "captureElement demoPlatform demoDocument [] demoSearch 3 = Inr e"
    by (simp add: captureElement_def selector_defs demo_defs string_defs Let_def)
  have "firstNonEmpty (displaySources demoPlatform demoDocument [] demoSearch)
          = str ''placeholder: Search''"
    by (simp add: displaySources_def valueString_def getAssociatedLabelText_def demo_defs
        string_defs Let_def)
  with display_text_priority[OF c] c show ?thesis by simp
qed

subsection \<open>Policy gate\<close>

lemma rx_testI:
  "i \<le> length s \<Longrightarrow> isWordBoundary s i \<Longrightarrow> a \<in> set alts \<Longrightarrow> e \<in> set (ends P a s i)
     \<Longrightarrow> isWordBoundary s e \<Longrightarrow> rx_test P alts s"
  unfolding rx_test_def list_ex_iff by force

lemma list_exI: "x \<in> set xs \<Longrightarrow> Q x \<Longrightarrow> list_ex Q xs"
  by (auto simp: list_ex_iff)

lemma deletion_pattern:
  "DESTRUCTIVE_PATTERNS ! 3 =
     [lits (str ''delete''), lits [1091, 1076, 1072, 1083], lits (str ''remove''),
      lits [1091, 1076, 1072, 1083, 1080, 1090, 1100]]"
  by (simp add: DESTRUCTIVE_PATTERNS_def)

lemma deletion_pattern_mem: "DESTRUCTIVE_PATTERNS ! 3 \<in> set DESTRUCTIVE_PATTERNS"
  by (rule nth_mem) (simp add: DESTRUCTIVE_PATTERNS_def)

lemma delete_prefix:
  "rx_test P (DESTRUCTIVE_PATTERNS ! 3) (str ''delete account'' @ rest)"
  unfolding deletion_pattern
proof (rule rx_testI[where i = 0 and e = 6 and a = "lits (str ''delete'')"])
  show "0 \<le> length (str ''delete account'' @ rest)" by simp
  show "isWordBoundary (str ''delete account'' @ rest) 0"
    by (simp add: isWordBoundary_def str_def isWordChar_def)
  show "isWordBoundary (str ''delete account'' @ rest) 6"
    by (simp add: isWordBoundary_def str_def isWordChar_def)
  show "6 \<in> set (ends P (lits (str ''delete'')) (str ''delete account'' @ rest) 0)"
    by (simp add: lits_def str_def)
qed simp

lemma destructive_delete_prefix:
  "matchesDestructivePattern P (str ''delete account'' @ rest)"
  unfolding matchesDestructivePattern_def
proof (rule list_exI[where x = "DESTRUCTIVE_PATTERNS ! 3"
                      and Q = "\<lambda>pattern. rx_test P pattern (str ''delete account'' @ rest)"])
  show "DESTRUCTIVE_PATTERNS ! 3 \<in> set DESTRUCTIVE_PATTERNS" by (rule deletion_pattern_mem)
  show "rx_test P (DESTRUCTIVE_PATTERNS ! 3) (str ''delete account'' @ rest)" by (rule delete_prefix)
qed

lemma ecma_canonicalize:
  assumes "ecmaCase P"
  shows "c < 128 \<Longrightarrow> canonicalize P c = asciiUpper c"
    and "128 \<le> c \<Longrightarrow> n < 128 \<Longrightarrow> (n = canonicalize P c) = False"
    and "128 \<le> c \<Longrightarrow> n < 128 \<Longrightarrow> (canonicalize P c = n) = False"
proof -
  from assms have a: "\<And>c. c < 128 \<Longrightarrow> canonicalize P c = asciiUpper c"
    and b: "\<And>c. 128 \<le> c \<Longrightarrow> 128 \<le> canonicalize P c"
    unfolding ecmaCase_def by auto
  show "c < 128 \<Longrightarrow> canonicalize P c = asciiUpper c" by (rule a)
  show "128 \<le> c \<Longrightarrow> n < 128 \<Longrightarrow> (n = canonicalize P c) = False" using b[of c] by auto
  show "128 \<le> c \<Longrightarrow> n < 128 \<Longrightarrow> (canonicalize P c = n) = False" using b[of c] by auto
qed

lemma ecma_lower:
  assumes "ecmaCase P"
  shows "toLowerCase P (str ''Delete account'') = str ''delete account''"
    and "toLowerCase P (str ''Cancel'') = str ''cancel''"
proof -
  have a: "list_all (\<lambda>c. c < 128) (str ''Delete account'')"
    and b: "list_all (\<lambda>c. c < 128) (str ''Cancel'')" by (simp_all add: str_def)
  from assms a have "toLowerCase P (str ''Delete account'') = map asciiLower (str ''Delete account'')"
    unfolding ecmaCase_def by blast
  then show "toLowerCase P (str ''Delete account'') = str ''delete account''"
    by (simp add: str_def asciiLower_def)
  from assms b have "toLowerCase P (str ''Cancel'') = map asciiLower (str ''Cancel'')"
    unfolding ecmaCase_def by blast
  then show "toLowerCase P (str ''Cancel'') = str ''cancel''"
    by (simp add: str_def asciiLower_def)
qed

lemma cancel_no_match:
  assumes "ecmaCase P"
  shows "\<not> matchesDestructivePattern P (str ''cancel'')"
  by (simp add: matchesDestructivePattern_def DESTRUCTIVE_PATTERNS_def rx_test_def lits_def str_def
       ecma_canonicalize[OF assms] asciiUpper_def
       isWordBoundary_def isWordChar_def isWhiteSpace_def isLineTerminator_def upt_rec)

lemma join_Cons: "join sep (x # ys) = x @ (if ys = [] then [] else sep @ join sep ys)"
  by (cases ys) simp_all

lemma textSurface_prefix:
  assumes "elem_text el \<noteq> []"
  shows "\<exists>rest. textSurface P el = toLowerCase P (elem_text el) @ rest"
  using assms by (simp add: textSurface_def truthy_def join_Cons)

lemma textSurface_only_text:
  assumes "elem_text el \<noteq> []" "\<not> truthy (elem_value el)" "\<not> truthy (elem_title el)"
    "\<not> truthy (labelText el)"
  shows "textSurface P el = toLowerCase P (elem_text el)"
  using assms by (simp add: textSurface_def truthy_def)

lemma click_verdict:
  assumes "map_of args (str ''element_id'') = Some (JNum n)" and "findElement snap n = Some el"
  shows "destructive (checkDestructiveAction P (str ''click_element'') args snap)
           = (textSurface P el \<noteq> [] \<and> matchesDestructivePattern P (textSurface P el))"
  using assms
  by (simp add: checkDestructiveAction_def notDestructive_def Let_def matchesDestructivePattern_def)

lemma delete_account_destructive:
  assumes "ecmaCase P"
    and "map_of args (str ''element_id'') = Some (JNum n)" and "findElement snap n = Some el"
    and "elem_text el = str ''Delete account''"
  shows "destructive (checkDestructiveAction P (str ''click_element'') args snap)"
proof -
  have "elem_text el \<noteq> []" using assms(4) by (simp add: str_def)
  from textSurface_prefix[OF this, of P] obtain rest where
    t: "textSurface P el = str ''delete account'' @ rest"
    using assms(4) ecma_lower(1)[OF assms(1)] by auto
  have "textSurface P el \<noteq> []" unfolding t by (simp add: str_def)
  with destructive_delete_prefix[of P rest] show ?thesis
    unfolding click_verdict[OF assms(2,3)] t by simp
qed

lemma no_match_not_destructive:
  assumes "map_of args (str ''element_id'') = Some (JNum n)" and "findElement snap n = Some el"
    and "\<not> matchesDestructivePattern P (textSurface P el)"
  shows "\<not> destructive (checkDestructiveAction P (str ''click_element'') args snap)"
  using assms(3) unfolding click_verdict[OF assms(1,2)] by simp

lemma cancel_alone_not_destructive:
  assumes "ecmaCase P"
    and "map_of args (str ''element_id'') = Some (JNum n)" and "findElement snap n = Some el"
    and "elem_text el = str ''Cancel''"
    and "\<not> truthy (elem_value el)" "\<not> truthy (elem_title el)" "\<not> truthy (labelText el)"
  shows "\<not> destructive (checkDestructiveAction P (str ''click_element'') args snap)"
proof -
  have "elem_text el \<noteq> []" using assms(4) by (simp add: str_def)
  from textSurface_only_text[OF this assms(5,6,7), of P] have "textSurface P el = str ''cancel''"
    using assms(4) ecma_lower(2)[OF assms(1)] by simp
  with cancel_no_match[OF assms(1)] show ?thesis
    unfolding click_verdict[OF assms(2,3)] by simp
qed

lemma other_tool_not_destructive:
  "name \<noteq> str ''click_element'' \<Longrightarrow> \<not> destructive (checkDestructiveAction P name args snap)"
  by (simp add: checkDestructiveAction_def notDestructive_def)

lemma no_numeric_id_not_destructive:
  "\<forall>n. map_of args (str ''element_id'') \<noteq> Some (JNum n)
     \<Longrightarrow> \<not> destructive (checkDestructiveAction P name args snap)"
  by (auto simp: checkDestructiveAction_def notDestructive_def split: option.splits json.splits)

lemma unknown_id_not_destructive:
  "map_of args (str ''element_id'') = Some (JNum n) \<Longrightarrow> findElement snap n = None
     \<Longrightarrow> \<not> destructive (checkDestructiveAction P name args snap)"
  by (simp add: checkDestructiveAction_def notDestructive_def)

lemma demo_find:
  "findElement demoSnapshot (Fin 1) = Some (demoButton 1 (str ''Delete account'') None False)"
  "findElement demoSnapshot (Fin 2) = Some (demoButton 2 (str ''Cancel'') None False)"
  "findElement demoSnapshot (Fin 3) = Some (demoButton 3 (str ''Cancel'') (Some (str ''Delete draft'')) False)"
  "findElement demoSnapshot (Fin 4) = Some (demoButton 4 (str ''Submit'') None True)"
  "findElement demoSnapshot (Fin 5) = Some demoCancelInput"
  "findElement demoSnapshot (Fin 9) = None"
  by (simp_all add: findElement_def demoSnapshot_def demoButton_def demoCancelInput_def
      jsnum_of_nat_def)

lemma demo_args:
  "map_of (clickArgs 1) (str ''element_id'') = Some (JNum (Fin 1))"
  "map_of (clickArgs 2) (str ''element_id'') = Some (JNum (Fin 2))"
  "map_of (clickArgs 3) (str ''element_id'') = Some (JNum (Fin 3))"
  "map_of (clickArgs 4) (str ''element_id'') = Some (JNum (Fin 4))"
  "map_of (clickArgs 5) (str ''element_id'') = Some (JNum (Fin 5))"
  "map_of (clickArgs 9) (str ''element_id'') = Some (JNum (Fin 9))"
  by (simp_all add: clickArgs_def)

lemma demo_ecmaCase: "ecmaCase demoPlatform"
  by (simp add: ecmaCase_def demoPlatform_def asciiUpper_def)

lemma demo_surfaces:
  "textSurface demoPlatform demoCancelInput = str ''cancel cancel''"
  "textSurface demoPlatform (demoButton 3 (str ''Cancel'') (Some (str ''Delete draft'')) False)
     = str ''cancel delete draft''"
  by (simp_all add: textSurface_def demoButton_def demoCancelInput_def truthy_def demoPlatform_def
      asciiLower_def str_def)

lemma cancel_cancel_no_match: "\<not> matchesDestructivePattern demoPlatform (str ''cancel cancel'')"
  by (simp add: matchesDestructivePattern_def DESTRUCTIVE_PATTERNS_def rx_test_def lits_def str_def
       demoPlatform_def asciiUpper_def
       isWordBoundary_def isWordChar_def isWhiteSpace_def isLineTerminator_def upt_rec)

lemma cancel_delete_draft:
  "rx_test P (DESTRUCTIVE_PATTERNS ! 3) (str ''cancel delete draft'')"
  unfolding deletion_pattern
proof (rule rx_testI[where i = 7 and e = 13 and a = "lits (str ''delete'')"])
  show "7 \<le> length (str ''cancel delete draft'')" by (simp add: str_def)
  show "isWordBoundary (str ''cancel delete draft'') 7"
    by (simp add: isWordBoundary_def str_def isWordChar_def)
  show "isWordBoundary (str ''cancel delete draft'') 13"
    by (simp add: isWordBoundary_def str_def isWordChar_def)
  show "13 \<in> set (ends P (lits (str ''delete'')) (str ''cancel delete draft'') 7)"
    by (simp add: lits_def str_def)
qed simp

text \<open>
  C2 (amended). Under the case rules of ECMAScript, \<open>checkDestructiveAction\<close> answers
  destructive for a click on an element whose text is "Delete account", whatever its
  value, title and label. For a click on an element whose text is "Cancel" it answers not
  destructive whenever the text surface the patterns are tested on (text, value, title and
  label, lowered and joined) matches no pattern, and in particular when the element has no
  value, title or label. It answers not destructive for every tool other than
  \<open>click_element\<close> whatever the arguments, when \<open>element_id\<close> is missing or not a number, and
  when no element of the snapshot has that id.
\<close>

theorem policy_gate_verdicts:
  "(ecmaCase P \<and> map_of args (str ''element_id'') = Some (JNum n) \<and> findElement snap n = Some el
      \<and> elem_text el = str ''Delete account''
      \<longrightarrow> destructive (checkDestructiveAction P (str ''click_element'') args snap))
   \<and> (map_of args (str ''element_id'') = Some (JNum n) \<and> findElement snap n = Some el
      \<and> elem_text el = str ''Cancel'' \<and> \<not> matchesDestructivePattern P (textSurface P el)
      \<longrightarrow> \<not> destructive (checkDestructiveAction P (str ''click_element'') args snap))
   \<and> (ecmaCase P \<and> map_of args (str ''element_id'') = Some (JNum n) \<and> findElement snap n = Some el
      \<and> elem_text el = str ''Cancel''
      \<and> \<not> truthy (elem_value el) \<and> \<not> truthy (elem_title el) \<and> \<not> truthy (labelText el)
      \<longrightarrow> \<not> destructive (checkDestructiveAction P (str ''click_element'') args snap))
   \<and> (name \<noteq> str ''click_element'' \<longrightarrow> \<not> destructive (checkDestructiveAction P name args snap))
   \<and> ((\<forall>m. map_of args (str ''element_id'') \<noteq> Some (JNum m))
      \<longrightarrow> \<not> destructive (checkDestructiveAction P name args snap))
   \<and> (map_of args (str ''element_id'') = Some (JNum n) \<and> findElement snap n = None
      \<longrightarrow> \<not> destructive (checkDestructiveAction P name args snap))"
  using delete_account_destructive[of P args n snap el]
    no_match_not_destructive[of args n snap el P]
    cancel_alone_not_destructive[of P args n snap el]
    other_tool_not_destructive[of name P args snap] no_numeric_id_not_destructive[of args P name snap]
    unknown_id_not_destructive[of args n snap P name]
  by blast

theorem policy_gate_verdicts_witness:
  "destructive (checkDestructiveAction demoPlatform (str ''click_element'') (clickArgs 1) demoSnapshot)
   \<and> \<not> destructive (checkDestructiveAction demoPlatform (str ''click_element'') (clickArgs 5) demoSnapshot)
   \<and> \<not> destructive (checkDestructiveAction demoPlatform (str ''click_element'') (clickArgs 2) demoSnapshot)
   \<and> \<not> destructive (checkDestructiveAction demoPlatform (str ''type_text'') (clickArgs 1) demoSnapshot)
   \<and> \<not> destructive (checkDestructiveAction demoPlatform (str ''click_element'') [] demoSnapshot)
   \<and> \<not> destructive (checkDestructiveAction demoPlatform (str ''click_element'') (clickArgs 9) demoSnapshot)"
proof -
  have a0: "\<forall>m. map_of ([] :: args) (str ''element_id'') \<noteq> Some (JNum m)"
    and nm: "str ''type_text'' \<noteq> str ''click_element''"
    by (simp_all add: str_def)
  have e1: "elem_text (demoButton 1 (str ''Delete account'') None False) = str ''Delete account''"
    and e2: "elem_text (demoButton 2 (str ''Cancel'') None False) = str ''Cancel''"
    and v2: "\<not> truthy (elem_value (demoButton 2 (str ''Cancel'') None False))"
      "\<not> truthy (elem_title (demoButton 2 (str ''Cancel'') None False))"
      "\<not> truthy (labelText (demoButton 2 (str ''Cancel'') None False))"
    and e5: "elem_text demoCancelInput = str ''Cancel''"
    by (simp_all add: demoButton_def demoCancelInput_def truthy_def)
  have s5: "\<not> matchesDestructivePattern demoPlatform (textSurface demoPlatform demoCancelInput)"
    unfolding demo_surfaces(1) by (rule cancel_cancel_no_match)
  note g1 = policy_gate_verdicts[of demoPlatform "clickArgs 1" "Fin 1" demoSnapshot
      "demoButton 1 (str ''Delete account'') None False" "str ''type_text''"]
  note g2 = policy_gate_verdicts[of demoPlatform "clickArgs 2" "Fin 2" demoSnapshot
      "demoButton 2 (str ''Cancel'') None False" "str ''click_element''"]
  note g5 = policy_gate_verdicts[of demoPlatform "clickArgs 5" "Fin 5" demoSnapshot
      demoCancelInput "str ''click_element''"]
  note g0 = policy_gate_verdicts[of demoPlatform "[]" "Fin 1" demoSnapshot
      demoCancelInput "str ''click_element''"]
  note g9 = policy_gate_verdicts[of demoPlatform "clickArgs 9" "Fin 9" demoSnapshot
      demoCancelInput "str ''click_element''"]
  from mp[OF g1[THEN conjunct1]] demo_ecmaCase demo_args(1) demo_find(1) e1
  have c1: "destructive (checkDestructiveAction demoPlatform (str ''click_element'') (clickArgs 1) demoSnapshot)"
    by simp
  from mp[OF g5[THEN conjunct2, THEN conjunct1]] demo_args(5) demo_find(5) e5 s5
  have c5: "\<not> destructive (checkDestructiveAction demoPlatform (str ''click_element'') (clickArgs 5) demoSnapshot)"
    by simp
  from mp[OF g2[THEN conjunct2, THEN conjunct2, THEN conjunct1]]
    demo_ecmaCase demo_args(2) demo_find(2) e2 v2
  have c2: "\<not> destructive (checkDestructiveAction demoPlatform (str ''click_element'') (clickArgs 2) demoSnapshot)"
    by simp
  from mp[OF g1[THEN conjunct2, THEN conjunct2, THEN conjunct2, THEN conjunct1]] nm
  have c3: "\<not> destructive (checkDestructiveAction demoPlatform (str ''type_text'') (clickArgs 1) demoSnapshot)"
    by simp
  from mp[OF g0[THEN conjunct2, THEN conjunct2, THEN conjunct2, THEN conjunct2, THEN conjunct1]] a0
  have c4: "\<not> destructive (checkDestructiveAction demoPlatform (str ''click_element'') [] demoSnapshot)"
    by simp
  from mp[OF g9[THEN conjunct2, THEN conjunct2, THEN conjunct2, THEN conjunct2, THEN conjunct2]]
    demo_args(6) demo_find(6)
  have c9: "\<not> destructive (checkDestructiveAction demoPlatform (str ''click_element'') (clickArgs 9) demoSnapshot)"
    by simp
  from c1 c5 c2 c3 c4 c9 show ?thesis by (intro conjI)
qed

text \<open>
  The claim as stated fails: element 3 of the example snapshot has the text "Cancel" and
  the title "Delete draft", and a click on it is destructive.
\<close>

theorem cancel_with_tooltip_counterexample:
  "findElement demoSnapshot (Fin 3) = Some (demoButton 3 (str ''Cancel'') (Some (str ''Delete draft'')) False)
   \<and> elem_text (demoButton 3 (str ''Cancel'') (Some (str ''Delete draft'')) False) = str ''Cancel''
   \<and> destructive (checkDestructiveAction demoPlatform (str ''click_element'') (clickArgs 3) demoSnapshot)"
proof -
  have "matchesDestructivePattern demoPlatform (str ''cancel delete draft'')"
    unfolding matchesDestructivePattern_def
  proof (rule list_exI[where x = "DESTRUCTIVE_PATTERNS ! 3"
                        and Q = "\<lambda>pattern. rx_test demoPlatform pattern (str ''cancel delete draft'')"])
    show "DESTRUCTIVE_PATTERNS ! 3 \<in> set DESTRUCTIVE_PATTERNS" by (rule deletion_pattern_mem)
    show "rx_test demoPlatform (DESTRUCTIVE_PATTERNS ! 3) (str ''cancel delete draft'')"
      by (rule cancel_delete_draft)
  qed
  moreover have "str ''cancel delete draft'' \<noteq> []" by (simp add: str_def)
  ultimately have "destructive (checkDestructiveAction demoPlatform (str ''click_element'') (clickArgs 3) demoSnapshot)"
    unfolding click_verdict[OF demo_args(3) demo_find(3)] demo_surfaces(2) by simp
  moreover have "elem_text (demoButton 3 (str ''Cancel'') (Some (str ''Delete draft'')) False) = str ''Cancel''"
    by (simp add: demoButton_def)
  ultimately show ?thesis using demo_find(3) by (intro conjI)
qed

subsection \<open>Tool dispatch\<close>

lemmas io_defs = io_return_def io_throw_def io_bind_def io_then_def io_catch_def io_call_def
  io_query_def sleep_def setPage_def delay_def getPage_def getPages_def ignoreErrors_def

lemma executeTool_navigate:
  "executeTool P E (str ''navigate'') args snap =
       (case map_of args (str ''url'') of
          Some (JStr u) \<Rightarrow>
            io_then (navigate E u) (io_return (succeeded (str ''Navigated to '' @ u)))
        | _ \<Rightarrow> io_return (failed (str ''url must be a string'')))"
  by (simp add: executeTool_def str_def)

lemma executeTool_switch_tab:
  "executeTool P E (str ''switch_tab'') args snap =
       (case map_of args (str ''tab_index'') of
          Some (JNum tabIndex) \<Rightarrow>
            io_catch
              (io_then (switchTab P E tabIndex)
                 (io_return (succeeded (str ''Switched to tab '' @ numToString P tabIndex))))
              (\<lambda>err. io_return (failed err))
        | _ \<Rightarrow> io_return (failed (str ''tab_index must be a number'')))"
  by (simp add: executeTool_def str_def)

lemma executeTool_click:
  "executeTool P E (str ''click_element'') args snap =
     (case map_of args (str ''element_id'') of
          Some (JNum elementId) \<Rightarrow>
            if (case findElement snap elementId of None \<Rightarrow> False | Some targetEl \<Rightarrow> disabled targetEl)
            then io_return (failed (str
              ''Element is disabled. Fill required fields or wait for it to become enabled, then try again.''))
            else
              io_catch
                (io_then (clickElement P E snap elementId)
                   (io_return (succeeded (str ''Clicked element '' @ numToString P elementId))))
                (\<lambda>msg. io_return (failed (msg @ str
                  ''. Try scroll(down) to bring the element into view, then wait(2), then click again; or the element may have changed (re-check snapshot).'')))
        | _ \<Rightarrow> io_return (failed (str ''element_id must be a number'')))"
  by (simp add: executeTool_def str_def)

lemma executeTool_type_text:
  "executeTool P E (str ''type_text'') args snap =
       (case map_of args (str ''text'') of
          Some (JStr text) \<Rightarrow>
            io_catch
              (io_then
                 (typeText P E snap
                    (case map_of args (str ''element_id'') of Some (JNum n) \<Rightarrow> Some n | _ \<Rightarrow> None) text)
                 (io_return (succeeded (str ''Typed text into '' @
                    (case map_of args (str ''element_id'') of
                       None \<Rightarrow> str ''focused field''
                     | Some JNull \<Rightarrow> str ''focused field''
                     | Some v \<Rightarrow> str ''element '' @ jsString P v)))))
              (\<lambda>err. io_return (failed err))
        | _ \<Rightarrow> io_return (failed (str ''text must be a string'')))"
  by (simp add: executeTool_def str_def)

lemma executeTool_select_option:
  "executeTool P E (str ''select_option'') args snap =
       (case map_of args (str ''element_id'') of
          Some (JNum elementId) \<Rightarrow>
            (case map_of args (str ''value_or_label'') of
               Some (JStr valueOrLabel) \<Rightarrow>
                 io_catch
                   (io_then (selectOption P E snap elementId valueOrLabel)
                      (io_return (succeeded (str ''Selected '' @ quoted valueOrLabel
                         @ str '' in element '' @ numToString P elementId))))
                   (\<lambda>err. io_return (failed err))
             | _ \<Rightarrow> io_return (failed (str ''value_or_label must be a string'')))
        | _ \<Rightarrow> io_return (failed (str ''element_id must be a number'')))"
  by (simp add: executeTool_def str_def)

lemma executeTool_set_checkbox:
  "executeTool P E (str ''set_checkbox'') args snap =
       (case map_of args (str ''element_id'') of
          Some (JNum elementId) \<Rightarrow>
            (case map_of args (str ''checked'') of
               Some (JBool checked) \<Rightarrow>
                 io_catch
                   (io_then (setCheckbox P E snap elementId checked)
                      (io_return (succeeded ((if checked then str ''Checked'' else str ''Unchecked'')
                         @ str '' element '' @ numToString P elementId))))
                   (\<lambda>err. io_return (failed err))
             | _ \<Rightarrow> io_return (failed (str ''checked must be a boolean'')))
        | _ \<Rightarrow> io_return (failed (str ''element_id must be a number'')))"
  by (simp add: executeTool_def str_def)

lemma executeTool_scroll:
  "executeTool P E (str ''scroll'') args snap =
       (case map_of args (str ''direction'') of
          Some (JStr direction) \<Rightarrow>
            if direction \<in> set [str ''up'', str ''down'', str ''left'', str ''right''] then
              io_then (scroll E direction) (io_return (succeeded (str ''Scrolled '' @ direction)))
            else io_return (failed (str ''direction must be up, down, left, or right''))
        | _ \<Rightarrow> io_return (failed (str ''direction must be up, down, left, or right'')))"
  by (simp add: executeTool_def str_def)

lemma executeTool_wait:
  "executeTool P E (str ''wait'') args snap =
       (let sec = waitSeconds (toNumber P (map_of args (str ''seconds''))) in
        io_then (sleep (sec * 1000))
          (io_return (succeeded (str ''Waited '' @ numToString P (Fin sec) @ str '' seconds''))))"
  by (simp add: executeTool_def str_def)

lemma executeTool_task_done:
  "executeTool P E (str ''task_done'') args snap =
       io_return \<lparr>success = True,
                  message = (case map_of args (str ''result'') of Some (JStr r) \<Rightarrow> r | _ \<Rightarrow> str ''Done''),
                  stop = True, userQuestion = None\<rparr>"
  by (simp add: executeTool_def str_def)

lemma executeTool_request_user_input:
  "executeTool P E (str ''request_user_input'') args snap =
       io_return \<lparr>success = True,
                  message = (case map_of args (str ''question'') of
                               Some (JStr q) \<Rightarrow> q | _ \<Rightarrow> str ''Need your input''),
                  stop = True,
                  userQuestion = (case map_of args (str ''question'') of Some (JStr q) \<Rightarrow> Some q | _ \<Rightarrow> None)\<rparr>"
  by (simp add: executeTool_def str_def)

lemma waitSeconds_bounds: "1 \<le> waitSeconds n \<and> waitSeconds n \<le> 10"
  by (cases n) (simp_all add: waitSeconds_def)

lemma waitSeconds_missing: "waitSeconds (toNumber P None) = 2"
  by (simp add: waitSeconds_def toNumber_def)

lemma not_string: "\<not> typeMatches StringType v \<Longrightarrow> (case v of Some (JStr s) \<Rightarrow> f s | _ \<Rightarrow> g) = g"
  and not_number: "\<not> typeMatches IntegerType v \<Longrightarrow> (case v of Some (JNum n) \<Rightarrow> h n | _ \<Rightarrow> g) = g"
  and not_bool: "\<not> typeMatches BooleanType v \<Longrightarrow> (case v of Some (JBool b) \<Rightarrow> k b | _ \<Rightarrow> g) = g"
  by (auto simp: typeMatches_def split: option.splits json.splits)

lemma navigate_mismatch:
  "\<not> typeMatches StringType (map_of args (str ''url'')) \<Longrightarrow>
     executeTool P E (str ''navigate'') args snap w = (Inr (failed (str ''url must be a string'')), w)"
  unfolding executeTool_navigate by (simp add: not_string io_return_def)

lemma switch_tab_mismatch:
  "\<not> typeMatches IntegerType (map_of args (str ''tab_index'')) \<Longrightarrow>
     executeTool P E (str ''switch_tab'') args snap w = (Inr (failed (str ''tab_index must be a number'')), w)"
  unfolding executeTool_switch_tab by (simp add: not_number io_return_def)

lemma click_mismatch:
  "\<not> typeMatches IntegerType (map_of args (str ''element_id'')) \<Longrightarrow>
     executeTool P E (str ''click_element'') args snap w = (Inr (failed (str ''element_id must be a number'')), w)"
  unfolding executeTool_click by (simp add: not_number io_return_def)

lemma type_text_mismatch:
  "\<not> typeMatches StringType (map_of args (str ''text'')) \<Longrightarrow>
     executeTool P E (str ''type_text'') args snap w = (Inr (failed (str ''text must be a string'')), w)"
  unfolding executeTool_type_text by (simp add: not_string io_return_def)

lemma select_option_mismatch:
  "\<not> (typeMatches IntegerType (map_of args (str ''element_id''))
       \<and> typeMatches StringType (map_of args (str ''value_or_label''))) \<Longrightarrow>
     \<exists>m. executeTool P E (str ''select_option'') args snap w = (Inr (failed m), w)"
proof (cases "typeMatches IntegerType (map_of args (str ''element_id''))")
  case False
  then show ?thesis unfolding executeTool_select_option by (auto simp: not_number io_return_def)
next
  case True
  assume "\<not> (typeMatches IntegerType (map_of args (str ''element_id''))
       \<and> typeMatches StringType (map_of args (str ''value_or_label'')))"
  with True have s: "\<not> typeMatches StringType (map_of args (str ''value_or_label''))" by simp
  from True obtain n where "map_of args (str ''element_id'') = Some (JNum n)"
    by (auto simp: typeMatches_def split: option.splits json.splits)
  then show ?thesis unfolding executeTool_select_option
    by (auto simp: not_string[OF s] io_return_def)
qed

lemma set_checkbox_mismatch:
  "\<not> (typeMatches IntegerType (map_of args (str ''element_id''))
       \<and> typeMatches BooleanType (map_of args (str ''checked''))) \<Longrightarrow>
     \<exists>m. executeTool P E (str ''set_checkbox'') args snap w = (Inr (failed m), w)"
proof (cases "typeMatches IntegerType (map_of args (str ''element_id''))")
  case False
  then show ?thesis unfolding executeTool_set_checkbox by (auto simp: not_number io_return_def)
next
  case True
  assume "\<not> (typeMatches IntegerType (map_of args (str ''element_id''))
       \<and> typeMatches BooleanType (map_of args (str ''checked'')))"
  with True have s: "\<not> typeMatches BooleanType (map_of args (str ''checked''))" by simp
  from True obtain n where "map_of args (str ''element_id'') = Some (JNum n)"
    by (auto simp: typeMatches_def split: option.splits json.splits)
  then show ?thesis unfolding executeTool_set_checkbox
    by (auto simp: not_bool[OF s] io_return_def)
qed

lemma scroll_mismatch:
  "\<not> typeMatches (EnumType [str ''up'', str ''down'', str ''left'', str ''right''])
        (map_of args (str ''direction'')) \<Longrightarrow>
     executeTool P E (str ''scroll'') args snap w
       = (Inr (failed (str ''direction must be up, down, left, or right'')), w)"
  unfolding executeTool_scroll
  by (cases "map_of args (str ''direction'')"; cases "the (map_of args (str ''direction''))")
     (simp_all add: typeMatches_def io_return_def)

lemma tool_cases:
  assumes "d \<in> set TOOL_DEFINITIONS"
  shows "d = TOOL_DEFINITIONS ! 0 \<or> d = TOOL_DEFINITIONS ! 1 \<or> d = TOOL_DEFINITIONS ! 2
       \<or> d = TOOL_DEFINITIONS ! 3 \<or> d = TOOL_DEFINITIONS ! 4 \<or> d = TOOL_DEFINITIONS ! 5
       \<or> d = TOOL_DEFINITIONS ! 6 \<or> d = TOOL_DEFINITIONS ! 7 \<or> d = TOOL_DEFINITIONS ! 8
       \<or> d = TOOL_DEFINITIONS ! 9 \<or> d = TOOL_DEFINITIONS ! 10"
proof -
  have len: "length TOOL_DEFINITIONS = 11" by (simp add: TOOL_DEFINITIONS_def)
  from assms obtain i where "i < 11" "d = TOOL_DEFINITIONS ! i"
    unfolding in_set_conv_nth len by blast
  then show ?thesis
    by (auto simp: less_Suc_eq numeral_eq_Suc)
qed

lemma tool_shapes:
  "tool_name (TOOL_DEFINITIONS ! 0) = str ''navigate''"
  "requiredShape (TOOL_DEFINITIONS ! 0) args = typeMatches StringType (map_of args (str ''url''))"
  "requiredShape (TOOL_DEFINITIONS ! 1) args"
  "tool_name (TOOL_DEFINITIONS ! 2) = str ''switch_tab''"
  "requiredShape (TOOL_DEFINITIONS ! 2) args = typeMatches IntegerType (map_of args (str ''tab_index''))"
  "tool_name (TOOL_DEFINITIONS ! 3) = str ''click_element''"
  "requiredShape (TOOL_DEFINITIONS ! 3) args = typeMatches IntegerType (map_of args (str ''element_id''))"
  "tool_name (TOOL_DEFINITIONS ! 4) = str ''type_text''"
  "requiredShape (TOOL_DEFINITIONS ! 4) args = typeMatches StringType (map_of args (str ''text''))"
  "tool_name (TOOL_DEFINITIONS ! 5) = str ''select_option''"
  "requiredShape (TOOL_DEFINITIONS ! 5) args
     = (typeMatches IntegerType (map_of args (str ''element_id''))
        \<and> typeMatches StringType (map_of args (str ''value_or_label'')))"
  "tool_name (TOOL_DEFINITIONS ! 6) = str ''set_checkbox''"
  "requiredShape (TOOL_DEFINITIONS ! 6) args
     = (typeMatches IntegerType (map_of args (str ''element_id''))
        \<and> typeMatches BooleanType (map_of args (str ''checked'')))"
  "tool_name (TOOL_DEFINITIONS ! 7) = str ''scroll''"
  "requiredShape (TOOL_DEFINITIONS ! 7) args
     = typeMatches (EnumType [str ''up'', str ''down'', str ''left'', str ''right''])
         (map_of args (str ''direction''))"
  "tool_name (TOOL_DEFINITIONS ! 8) = str ''wait''"
  "tool_name (TOOL_DEFINITIONS ! 9) = str ''task_done''"
  "tool_name (TOOL_DEFINITIONS ! 10) = str ''request_user_input''"
  "requiredShape (TOOL_DEFINITIONS ! 8) args = typeMatches NumberType (map_of args (str ''seconds''))"
  by (simp_all add: TOOL_DEFINITIONS_def requiredShape_def str_def)

lemma validation_mismatch:
  assumes "d \<in> set TOOL_DEFINITIONS" and "tool_name d \<notin> set defaultingTools"
    and "\<not> requiredShape d args"
  shows "\<exists>m. executeTool P E (tool_name d) args snap w = (Inr (failed m), w)"
proof -
  have nd: "d \<noteq> TOOL_DEFINITIONS ! 8" "d \<noteq> TOOL_DEFINITIONS ! 9" "d \<noteq> TOOL_DEFINITIONS ! 10"
    using assms(2) tool_shapes(16,17,18) by (auto simp: defaultingTools_def)
  from tool_cases[OF assms(1)] nd consider
      (nav) "d = TOOL_DEFINITIONS ! 0" | (tab) "d = TOOL_DEFINITIONS ! 1"
    | (sw) "d = TOOL_DEFINITIONS ! 2" | (cl) "d = TOOL_DEFINITIONS ! 3"
    | (ty) "d = TOOL_DEFINITIONS ! 4" | (sel) "d = TOOL_DEFINITIONS ! 5"
    | (chk) "d = TOOL_DEFINITIONS ! 6" | (scr) "d = TOOL_DEFINITIONS ! 7"
    by blast
  then show ?thesis
  proof cases
    case nav
    with assms(3) navigate_mismatch[of args P E snap w] show ?thesis
      by (auto simp: tool_shapes(1,2))
  next
    case tab
    have "requiredShape d args" unfolding tab by (rule tool_shapes(3))
    with assms(3) show ?thesis by contradiction
  next
    case sw
    with assms(3) switch_tab_mismatch[of args P E snap w] show ?thesis
      by (auto simp: tool_shapes(4,5))
  next
    case cl
    with assms(3) click_mismatch[of args P E snap w] show ?thesis
      by (auto simp: tool_shapes(6,7))
  next
    case ty
    with assms(3) type_text_mismatch[of args P E snap w] show ?thesis
      by (auto simp: tool_shapes(8,9))
  next
    case sel
    with assms(3) select_option_mismatch[of args P E snap w] show ?thesis
      by (auto simp: tool_shapes(10,11))
  next
    case chk
    with assms(3) set_checkbox_mismatch[of args P E snap w] show ?thesis
      by (auto simp: tool_shapes(12,13))
  next
    case scr
    with assms(3) scroll_mismatch[of args P E snap w] show ?thesis
      by (auto simp: tool_shapes(14,15))
  qed
qed




subsection \<open>Disabled targets\<close>

text \<open>
  C6 (amended). For every \<open>click_element\<close> action whose target element is marked disabled
  in the snapshot, \<open>executeTool\<close> returns, without throwing and before any call to the
  browser, a result with \<open>success = false\<close> and \<open>stop\<close> unset whose message tells the caller
  to fill the required fields or wait. The test is made for \<open>click_element\<close>;
  \<open>type_text\<close> on a disabled element goes to the browser.
\<close>

theorem disabled_click_rejected:
  assumes "map_of args (str ''element_id'') = Some (JNum n)"
    and "findElement snap n = Some el"
    and "disabled el"
  shows "executeTool P E (str ''click_element'') args snap w =
     (Inr \<lparr>success = False,
           message = str ''Element is disabled. Fill required fields or wait for it to become enabled, then try again.'',
           stop = False, userQuestion = None\<rparr>, w)"
  using assms by (simp add: executeTool_click io_return_def failed_def)

theorem disabled_click_rejected_witness:
  "executeTool demoPlatform demoEnv (str ''click_element'') (clickArgs 4) demoSnapshot demoWorld =
     (Inr \<lparr>success = False,
           message = str ''Element is disabled. Fill required fields or wait for it to become enabled, then try again.'',
           stop = False, userQuestion = None\<rparr>, demoWorld)"
proof -
  have "disabled (demoButton 4 (str ''Submit'') None True)" by (simp add: demoButton_def)
  from disabled_click_rejected[OF demo_args(4) demo_find(4) this] show ?thesis .
qed

lemma demo_type_args:
  "map_of (typeArgs 4) (str ''text'') = Some (JStr (str ''x''))"
  "map_of (typeArgs 4) (str ''element_id'') = Some (JNum (Fin 4))"
  by (simp_all add: typeArgs_def str_def)

text \<open>
  The claim as stated fails for \<open>type_text\<close>: on the disabled element 4 of the example
  snapshot the tool calls \<open>fill\<close> on the page twice and succeeds.
\<close>

theorem type_into_disabled_counterexample:
  "findElement demoSnapshot (Fin 4) = Some (demoButton 4 (str ''Submit'') None True)
   \<and> disabled (demoButton 4 (str ''Submit'') None True)
   \<and> executeTool demoPlatform demoEnv (str ''type_text'') (typeArgs 4) demoSnapshot demoWorld
       = (Inr (succeeded (str ''Typed text into element 4'')),
          demoWorld\<lparr>trace := [OnPage 0 (Fill (LocFirst (str ''button'')) []),
                                OnPage 0 (Fill (LocFirst (str ''button'')) (str ''x'')),
                                Sleep 500]\<rparr>)"
proof -
  have t: "typeText demoPlatform demoEnv demoSnapshot (Some (Fin 4)) (str ''x'') demoWorld
       = (Inr (), demoWorld\<lparr>trace := [OnPage 0 (Fill (LocFirst (str ''button'')) []),
                                OnPage 0 (Fill (LocFirst (str ''button'')) (str ''x'')),
                                Sleep 500]\<rparr>)"
    by (simp add: typeText_def findElementInSnapshot_def demo_find(4) locatorFromSelector_def
        io_defs demoButton_def demoEnv_def demoWorld_def ACTION_DELAY_MS_def str_def)
  have m: "str ''Typed text into '' @ str ''element '' @ numToString demoPlatform (Fin 4)
             = str ''Typed text into element 4''"
    by (simp add: demoPlatform_def str_def)
  have "executeTool demoPlatform demoEnv (str ''type_text'') (typeArgs 4) demoSnapshot demoWorld
       = (Inr (succeeded (str ''Typed text into element 4'')),
          demoWorld\<lparr>trace := [OnPage 0 (Fill (LocFirst (str ''button'')) []),
                                OnPage 0 (Fill (LocFirst (str ''button'')) (str ''x'')),
                                Sleep 500]\<rparr>)"
    unfolding executeTool_type_text
    by (simp add: demo_type_args io_catch_def io_then_def io_bind_def io_return_def t m)
  moreover have "disabled (demoButton 4 (str ''Submit'') None True)" by (simp add: demoButton_def)
  ultimately show ?thesis using demo_find(4) by (intro conjI)
qed

subsection \<open>Denied confirmation\<close>

text \<open>
  C1. When \<open>checkDestructiveAction\<close> classifies the proposed action as destructive, the
  confirmation capability is present and it answers false, the loop's gate returns the
  result \<open>{ success: false, message: 'User denied the action.' }\<close> and \<open>executeTool\<close> is
  not run: the only call made is the confirmation itself, no call to the browser.
\<close>

theorem denial_skips_execution:
  assumes "destructive (checkDestructiveAction P name args snap)"
    and "raises E (trace w) (Confirm (confirmPrompt P name args snap)) = None"
    and "\<not> confirmAnswer E (trace w) (confirmPrompt P name args snap)"
  shows "gatedExecute P E True name args snap w =
     (Inr \<lparr>success = False, message = str ''User denied the action.'', stop = False,
           userQuestion = None\<rparr>,
      w\<lparr>trace := trace w @ [Confirm (confirmPrompt P name args snap)]\<rparr>)"
  using assms
  by (simp add: gatedExecute_def confirmation_def confirmPrompt_def io_query_def io_bind_def
      io_return_def failed_def Let_def)

lemma click_result:
  assumes "map_of args (str ''element_id'') = Some (JNum n)" and "findElement snap n = Some el"
    and "destructive (checkDestructiveAction P (str ''click_element'') args snap)"
  shows "checkDestructiveAction P (str ''click_element'') args snap
           = \<lparr>destructive = True,
              description = Some (orElse (trim (take 80 (orElse (elem_text el)
                                    (orUndef (elem_value el) (str ''Action'')))))
                                   (str ''Sensitive action''))\<rparr>"
proof -
  from assms(3) have m: "textSurface P el \<noteq> []"
      "list_ex (\<lambda>pattern. rx_test P pattern (textSurface P el)) DESTRUCTIVE_PATTERNS"
    unfolding click_verdict[OF assms(1,2)] matchesDestructivePattern_def by simp_all
  show ?thesis
    unfolding checkDestructiveAction_def using assms(1,2) m by (simp add: Let_def)
qed

lemma demo_delete_verdict:
  "checkDestructiveAction demoPlatform (str ''click_element'') (clickArgs 1) demoSnapshot
     = \<lparr>destructive = True, description = Some (str ''Delete account'')\<rparr>"
proof -
  have e: "elem_text (demoButton 1 (str ''Delete account'') None False) = str ''Delete account''"
    by (simp add: demoButton_def)
  have d: "destructive (checkDestructiveAction demoPlatform (str ''click_element'') (clickArgs 1) demoSnapshot)"
    by (rule delete_account_destructive[OF demo_ecmaCase demo_args(1) demo_find(1) e])
  have t: "orElse (trim (take 80 (orElse (elem_text (demoButton 1 (str ''Delete account'') None False))
                  (orUndef (elem_value (demoButton 1 (str ''Delete account'') None False)) (str ''Action'')))))
                (str ''Sensitive action'') = str ''Delete account''"
    by (simp add: demoButton_def orElse_def trim_def isWhiteSpace_def str_def)
  show ?thesis unfolding click_result[OF demo_args(1) demo_find(1) d] t by (rule refl)
qed

theorem denial_skips_execution_witness:
  "gatedExecute demoPlatform demoEnv True (str ''click_element'') (clickArgs 1) demoSnapshot demoWorld =
     (Inr \<lparr>success = False, message = str ''User denied the action.'', stop = False,
           userQuestion = None\<rparr>,
      demoWorld\<lparr>trace := [Confirm (str ''Delete account'')]\<rparr>)"
proof -
  have p: "confirmPrompt demoPlatform (str ''click_element'') (clickArgs 1) demoSnapshot
             = str ''Delete account''"
    unfolding confirmPrompt_def demo_delete_verdict by simp
  have d: "destructive (checkDestructiveAction demoPlatform (str ''click_element'') (clickArgs 1) demoSnapshot)"
    unfolding demo_delete_verdict by simp
  have r: "raises demoEnv (trace demoWorld)
             (Confirm (confirmPrompt demoPlatform (str ''click_element'') (clickArgs 1) demoSnapshot)) = None"
    and a: "\<not> confirmAnswer demoEnv (trace demoWorld)
             (confirmPrompt demoPlatform (str ''click_element'') (clickArgs 1) demoSnapshot)"
    by (simp_all add: demoEnv_def)
  from denial_skips_execution[OF d r a] show ?thesis
    unfolding p by (simp add: demoWorld_def)
qed

subsection \<open>Click fallback order\<close>

lemma clickTiers_trace:
  "clickTiers E page loc sd hint w =
     (let c1 = OnPage page (Click loc 10000 False);
          c2 = OnPage page (Click loc 5000 True);
          c3 = OnPage page (EvaluateClick sd (take 40 hint));
          t = trace w
      in if raises E t c1 = None then
           (Inr (), w\<lparr>trace := t @ [c1, Sleep 1200]\<rparr>)
         else if raises E (t @ [c1]) c2 = None then
           (Inr (), w\<lparr>trace := t @ [c1, c2, Sleep 1200]\<rparr>)
         else (case raises E (t @ [c1, c2]) c3 of
                 None \<Rightarrow> (Inr (), w\<lparr>trace := t @ [c1, c2, c3, Sleep 1200]\<rparr>)
               | Some e \<Rightarrow> (Inl e, w\<lparr>trace := t @ [c1, c2, c3]\<rparr>)))"
  by (auto simp: clickTiers_def clickViaEvaluate_def io_then_def io_bind_def io_catch_def io_call_def
      sleep_def CLICK_AFTER_DELAY_MS_def Let_def split: option.splits)

lemma clickElement_plain:
  assumes "findElement snap n = Some el" and "activePage w = Some page"
    and "locatorFromSelector P (selector el) w = (Inr loc, w)"
    and "\<not> isWrapper el"
    and "raises E (trace w) (OnPage page (WaitForVisible loc 15000)) = None"
    and "raises E (trace w @ [OnPage page (WaitForVisible loc 15000)])
           (OnPage page (ScrollIntoViewIfNeeded loc 8000)) = None"
  shows "clickElement P E snap n w =
     clickTiers E page loc (selector el) (take 40 (trim (orElse (elem_text el) (orUndef (href el) []))))
       (w\<lparr>trace := trace w @ [OnPage page (WaitForVisible loc 15000),
                                OnPage page (ScrollIntoViewIfNeeded loc 8000), Sleep 500]\<rparr>)"
  using assms
  by (simp add: clickElement_def findElementInSnapshot_def io_bind_def io_return_def io_then_def
      io_call_def getPage_def delay_def sleep_def ACTION_DELAY_MS_def Let_def)

text \<open>
  C8. For an element that is no wrapper (found in the snapshot, with a valid descriptor,
  visible and scrolled into view), \<open>clickElement\<close> makes its click calls in this order and
  no others: the native click; only if that throws, the forced click; only if that throws
  too, the script-level click. So the forced click always precedes the script-level one,
  and when the native click succeeds neither of the other two is made.
\<close>

theorem click_fallback_order:
  assumes "findElement snap n = Some el" and "activePage w = Some page"
    and "locatorFromSelector P (selector el) w = (Inr loc, w)"
    and "\<not> isWrapper el"
    and "raises E (trace w) (OnPage page (WaitForVisible loc 15000)) = None"
    and "raises E (trace w @ [OnPage page (WaitForVisible loc 15000)])
           (OnPage page (ScrollIntoViewIfNeeded loc 8000)) = None"
  shows "trace (snd (clickElement P E snap n w)) =
     (let t = trace w @ [OnPage page (WaitForVisible loc 15000),
                         OnPage page (ScrollIntoViewIfNeeded loc 8000), Sleep 500];
          tier1 = OnPage page (Click loc 10000 False);
          tier2 = OnPage page (Click loc 5000 True);
          tier3 = OnPage page (EvaluateClick (selector el)
                    (take 40 (trim (orElse (elem_text el) (orUndef (href el) [])))))
      in if raises E t tier1 = None then t @ [tier1, Sleep 1200]
         else if raises E (t @ [tier1]) tier2 = None then t @ [tier1, tier2, Sleep 1200]
         else if raises E (t @ [tier1, tier2]) tier3 = None then t @ [tier1, tier2, tier3, Sleep 1200]
         else t @ [tier1, tier2, tier3])"
  unfolding clickElement_plain[OF assms] clickTiers_trace
  by (simp add: Let_def split: option.splits)

lemma demo_click_setup:
  "activePage demoWorld = Some 0"
  "locatorFromSelector demoPlatform (selector (demoButton 1 (str ''Delete account'') None False)) demoWorld
     = (Inr (LocFirst (str ''button'')), demoWorld)"
  "\<not> isWrapper (demoButton 1 (str ''Delete account'') None False)"
  "selector (demoButton 1 (str ''Delete account'') None False) = Selector (str ''button'')"
  "take 40 (trim (orElse (elem_text (demoButton 1 (str ''Delete account'') None False))
                         (orUndef (href (demoButton 1 (str ''Delete account'') None False)) [])))
     = str ''Delete account''"
  "trace demoWorld = []"
  by (simp_all add: demoWorld_def locatorFromSelector_def demoButton_def isWrapper_def io_return_def
      orElse_def trim_def isWhiteSpace_def str_def)

theorem click_fallback_order_witness:
  "trace (snd (clickElement demoPlatform demoEnv demoSnapshot (Fin 1) demoWorld)) =
     [OnPage 0 (WaitForVisible (LocFirst (str ''button'')) 15000),
      OnPage 0 (ScrollIntoViewIfNeeded (LocFirst (str ''button'')) 8000), Sleep 500,
      OnPage 0 (Click (LocFirst (str ''button'')) 10000 False), Sleep 1200]
   \<and> trace (snd (clickElement demoPlatform stubbornEnv demoSnapshot (Fin 1) demoWorld)) =
     [OnPage 0 (WaitForVisible (LocFirst (str ''button'')) 15000),
      OnPage 0 (ScrollIntoViewIfNeeded (LocFirst (str ''button'')) 8000), Sleep 500,
      OnPage 0 (Click (LocFirst (str ''button'')) 10000 False),
      OnPage 0 (Click (LocFirst (str ''button'')) 5000 True),
      OnPage 0 (EvaluateClick (Selector (str ''button'')) (str ''Delete account'')), Sleep 1200]"
proof
  have r: "raises demoEnv (trace demoWorld) (OnPage 0 (WaitForVisible (LocFirst (str ''button'')) 15000)) = None"
    "raises demoEnv (trace demoWorld @ [OnPage 0 (WaitForVisible (LocFirst (str ''button'')) 15000)])
           (OnPage 0 (ScrollIntoViewIfNeeded (LocFirst (str ''button'')) 8000)) = None"
    by (simp_all add: demoEnv_def)
  show "trace (snd (clickElement demoPlatform demoEnv demoSnapshot (Fin 1) demoWorld)) =
     [OnPage 0 (WaitForVisible (LocFirst (str ''button'')) 15000),
      OnPage 0 (ScrollIntoViewIfNeeded (LocFirst (str ''button'')) 8000), Sleep 500,
      OnPage 0 (Click (LocFirst (str ''button'')) 10000 False), Sleep 1200]"
    unfolding click_fallback_order[OF demo_find(1) demo_click_setup(1,2,3) r] demo_click_setup(4,5,6)
    by (simp add: demoEnv_def Let_def)
next
  have r: "raises stubbornEnv (trace demoWorld) (OnPage 0 (WaitForVisible (LocFirst (str ''button'')) 15000)) = None"
    "raises stubbornEnv (trace demoWorld @ [OnPage 0 (WaitForVisible (LocFirst (str ''button'')) 15000)])
           (OnPage 0 (ScrollIntoViewIfNeeded (LocFirst (str ''button'')) 8000)) = None"
    by (simp_all add: stubbornEnv_def demoEnv_def)
  show "trace (snd (clickElement demoPlatform stubbornEnv demoSnapshot (Fin 1) demoWorld)) =
     [OnPage 0 (WaitForVisible (LocFirst (str ''button'')) 15000),
      OnPage 0 (ScrollIntoViewIfNeeded (LocFirst (str ''button'')) 8000), Sleep 500,
      OnPage 0 (Click (LocFirst (str ''button'')) 10000 False),
      OnPage 0 (Click (LocFirst (str ''button'')) 5000 True),
      OnPage 0 (EvaluateClick (Selector (str ''button'')) (str ''Delete account'')), Sleep 1200]"
    unfolding click_fallback_order[OF demo_find(1) demo_click_setup(1,2,3) r] demo_click_setup(4,5,6)
    by (simp add: stubbornEnv_def demoEnv_def Let_def)
qed

subsection \<open>Calls that keep the browser launched\<close>

lemma calm_steady: "calm Q m \<Longrightarrow> steady Q m"
  unfolding calm_def steady_def by (auto split: sum.splits)

lemma steady_return: "Q x \<Longrightarrow> steady Q (io_return x)"
  and calm_return: "Q x \<Longrightarrow> calm Q (io_return x)"
  and steady_throw: "steady Q (io_throw e)"
  by (simp_all add: steady_def calm_def io_return_def io_throw_def)

lemma steady_bind:
  assumes "steady R m" and "\<And>x. R x \<Longrightarrow> steady Q (k x)"
  shows "steady Q (io_bind m k)"
  unfolding steady_def
proof (intro allI impI)
  fix w assume l: "launched w"
  obtain r w1 where m: "m w = (r, w1)" by (cases "m w")
  from assms(1) l m have i1: "launched w1" "chatCount (trace w1) = chatCount (trace w)"
    and r: "case r of Inl e \<Rightarrow> True | Inr x \<Rightarrow> R x"
    unfolding steady_def by (auto dest!: spec[of _ w])
  show "launched (snd (io_bind m k w)) \<and> chatCount (trace (snd (io_bind m k w))) = chatCount (trace w)
        \<and> (case fst (io_bind m k w) of Inl e \<Rightarrow> True | Inr x \<Rightarrow> Q x)"
  proof (cases r)
    case (Inl e)
    with m i1 show ?thesis by (simp add: io_bind_def)
  next
    case (Inr x)
    with r have "R x" by simp
    from assms(2)[OF this] i1(1) have
      "launched (snd (k x w1)) \<and> chatCount (trace (snd (k x w1))) = chatCount (trace w1)
        \<and> (case fst (k x w1) of Inl e \<Rightarrow> True | Inr y \<Rightarrow> Q y)"
      unfolding steady_def by blast
    with Inr m i1(2) show ?thesis by (simp add: io_bind_def)
  qed
qed

lemma calm_bind:
  assumes "calm R m" and "\<And>x. R x \<Longrightarrow> calm Q (k x)"
  shows "calm Q (io_bind m k)"
  unfolding calm_def
proof (intro allI impI)
  fix w assume l: "launched w"
  obtain r w1 where m: "m w = (r, w1)" by (cases "m w")
  from assms(1) l m have i1: "launched w1" "chatCount (trace w1) = chatCount (trace w)"
    and r: "case r of Inl e \<Rightarrow> False | Inr x \<Rightarrow> R x"
    unfolding calm_def by (auto dest!: spec[of _ w])
  from r obtain x where x: "r = Inr x" "R x" by (cases r) auto
  from assms(2)[OF x(2)] i1(1) have
      "launched (snd (k x w1)) \<and> chatCount (trace (snd (k x w1))) = chatCount (trace w1)
        \<and> (case fst (k x w1) of Inl e \<Rightarrow> False | Inr y \<Rightarrow> Q y)"
    unfolding calm_def by blast
  with x m i1(2) show "launched (snd (io_bind m k w))
        \<and> chatCount (trace (snd (io_bind m k w))) = chatCount (trace w)
        \<and> (case fst (io_bind m k w) of Inl e \<Rightarrow> False | Inr x \<Rightarrow> Q x)"
    by (simp add: io_bind_def)
qed

lemma steady_bindA:
  "steady anything m \<Longrightarrow> (\<And>x. steady Q (k x)) \<Longrightarrow> steady Q (io_bind m k)"
  by (rule steady_bind)

lemma calm_bindA:
  "calm anything m \<Longrightarrow> (\<And>x. calm Q (k x)) \<Longrightarrow> calm Q (io_bind m k)"
  by (rule calm_bind)

lemma steady_then: "steady anything m \<Longrightarrow> steady Q n \<Longrightarrow> steady Q (io_then m n)"
  unfolding io_then_def by (rule steady_bind)

lemma calm_then: "calm anything m \<Longrightarrow> calm Q n \<Longrightarrow> calm Q (io_then m n)"
  unfolding io_then_def by (rule calm_bind)

lemma steady_catch:
  assumes "steady Q m" and "\<And>e. steady Q (h e)"
  shows "steady Q (io_catch m h)"
  unfolding steady_def
proof (intro allI impI)
  fix w assume l: "launched w"
  obtain r w1 where m: "m w = (r, w1)" by (cases "m w")
  from assms(1) l m have i1: "launched w1" "chatCount (trace w1) = chatCount (trace w)"
    and r: "case r of Inl e \<Rightarrow> True | Inr x \<Rightarrow> Q x"
    unfolding steady_def by (auto dest!: spec[of _ w])
  show "launched (snd (io_catch m h w)) \<and> chatCount (trace (snd (io_catch m h w))) = chatCount (trace w)
        \<and> (case fst (io_catch m h w) of Inl e \<Rightarrow> True | Inr x \<Rightarrow> Q x)"
  proof (cases r)
    case (Inr x)
    with m i1 r show ?thesis by (simp add: io_catch_def)
  next
    case (Inl e)
    from assms(2)[of e] i1(1) have
      "launched (snd (h e w1)) \<and> chatCount (trace (snd (h e w1))) = chatCount (trace w1)
        \<and> (case fst (h e w1) of Inl e \<Rightarrow> True | Inr y \<Rightarrow> Q y)"
      unfolding steady_def by blast
    with Inl m i1(2) show ?thesis by (simp add: io_catch_def)
  qed
qed

lemma calm_catch:
  assumes "steady Q m" and "\<And>e. calm Q (h e)"
  shows "calm Q (io_catch m h)"
  unfolding calm_def
proof (intro allI impI)
  fix w assume l: "launched w"
  obtain r w1 where m: "m w = (r, w1)" by (cases "m w")
  from assms(1) l m have i1: "launched w1" "chatCount (trace w1) = chatCount (trace w)"
    and r: "case r of Inl e \<Rightarrow> True | Inr x \<Rightarrow> Q x"
    unfolding steady_def by (auto dest!: spec[of _ w])
  show "launched (snd (io_catch m h w)) \<and> chatCount (trace (snd (io_catch m h w))) = chatCount (trace w)
        \<and> (case fst (io_catch m h w) of Inl e \<Rightarrow> False | Inr x \<Rightarrow> Q x)"
  proof (cases r)
    case (Inr x)
    with m i1 r show ?thesis by (simp add: io_catch_def)
  next
    case (Inl e)
    from assms(2)[of e] i1(1) have
      "launched (snd (h e w1)) \<and> chatCount (trace (snd (h e w1))) = chatCount (trace w1)
        \<and> (case fst (h e w1) of Inl e \<Rightarrow> False | Inr y \<Rightarrow> Q y)"
      unfolding calm_def by blast
    with Inl m i1(2) show ?thesis by (simp add: io_catch_def)
  qed
qed

lemma steady_weaken: "steady Q m \<Longrightarrow> (\<And>x. Q x \<Longrightarrow> Q' x) \<Longrightarrow> steady Q' m"
  unfolding steady_def by (auto split: sum.splits)

lemma calm_weaken: "calm Q m \<Longrightarrow> (\<And>x. Q x \<Longrightarrow> Q' x) \<Longrightarrow> calm Q' m"
  unfolding calm_def by (auto split: sum.splits)

lemma steady_call: "\<not> isChat c \<Longrightarrow> steady anything (io_call E c)"
  by (auto simp: steady_def io_call_def launched_def chatCount_def anything_def split: option.splits)

lemma calm_call: "quiet E \<Longrightarrow> \<not> isChat c \<Longrightarrow> calm anything (io_call E c)"
  by (auto simp: calm_def io_call_def launched_def chatCount_def anything_def quiet_def)

lemma steady_query: "\<not> isChat c \<Longrightarrow> steady anything (io_query E c f)"
  by (auto simp: steady_def io_query_def launched_def chatCount_def anything_def split: option.splits)

lemma calm_query: "quiet E \<Longrightarrow> \<not> isChat c \<Longrightarrow> calm anything (io_query E c f)"
  by (auto simp: calm_def io_query_def launched_def chatCount_def anything_def quiet_def)

lemma not_chat [simp]: "\<not> isChat (OnPage p c)" "\<not> isChat NewPage" "\<not> isChat (Sleep ms)"
  "\<not> isChat (Confirm d)" "\<not> isChat (ClassifyTask u)"
  by (simp_all add: isChat_def)

lemma calm_sleep: "calm anything (sleep ms)"
  and calm_delay: "calm anything delay"
  and calm_getPage: "calm anything getPage"
  and calm_getPages: "calm anything (getPages E)"
  and calm_setPage: "calm anything (setPage (Some p))"
  by (auto simp: calm_def sleep_def delay_def getPage_def getPages_def setPage_def launched_def
      chatCount_def anything_def isChat_def)

lemmas steady_sleep = calm_sleep[THEN calm_steady]
  and steady_delay = calm_delay[THEN calm_steady]
  and steady_getPage = calm_getPage[THEN calm_steady]
  and steady_getPages = calm_getPages[THEN calm_steady]
  and steady_setPage = calm_setPage[THEN calm_steady]

lemma steady_ignoreErrors: "steady anything m \<Longrightarrow> calm anything (ignoreErrors m)"
  unfolding ignoreErrors_def
  by (rule calm_catch) (simp_all add: calm_return anything_def)

lemma steady_gotoAndSettle: "steady anything (gotoAndSettle E page u)"
  unfolding gotoAndSettle_def
  by (intro steady_then steady_call calm_steady[OF steady_ignoreErrors]) simp_all

lemma calm_gotoAndSettle: "quiet E \<Longrightarrow> calm anything (gotoAndSettle E page u)"
  unfolding gotoAndSettle_def
  by (intro calm_then calm_call steady_ignoreErrors steady_call) simp_all

lemma steady_navigate: "steady anything (navigate E u)"
  unfolding navigate_def
  by (intro steady_bindA steady_getPage steady_then steady_gotoAndSettle steady_delay)

lemma calm_navigate: "quiet E \<Longrightarrow> calm anything (navigate E u)"
  unfolding navigate_def
  by (intro calm_bindA calm_getPage calm_then calm_gotoAndSettle calm_delay)

lemma steady_scroll: "steady anything (scroll E d)"
  unfolding scroll_def
  by (intro steady_bindA steady_getPage steady_then steady_delay)
     (auto intro: steady_call steady_return simp: anything_def)

lemma calm_scroll: "quiet E \<Longrightarrow> calm anything (scroll E d)"
  unfolding scroll_def
  by (intro calm_bindA calm_getPage calm_then calm_delay)
     (auto intro: calm_call calm_return simp: anything_def)

lemma steady_findElementInSnapshot: "steady anything (findElementInSnapshot P snap n)"
  unfolding findElementInSnapshot_def
  by (auto intro: steady_throw steady_return simp: anything_def split: option.splits)

lemma steady_locatorFromSelector: "steady anything (locatorFromSelector P sd)"
  unfolding locatorFromSelector_def
  by (auto intro: steady_throw steady_return simp: anything_def split: selectorDesc.splits)

lemmas steady_intros =
  steady_bindA steady_then steady_catch steady_call steady_query steady_return steady_throw
  steady_sleep steady_delay steady_getPage steady_getPages steady_setPage
  steady_findElementInSnapshot steady_locatorFromSelector steady_gotoAndSettle

lemma steady_clickTiers: "steady anything (clickTiers E page loc sd hint)"
  unfolding clickTiers_def clickViaEvaluate_def
  by (intro steady_intros) (simp_all add: anything_def)

lemma steady_clickElement: "steady anything (clickElement P E snap n)"
  unfolding clickElement_def clickViaEvaluate_def Let_def
  by (intro steady_intros steady_clickTiers
        steady_catch[where Q = anything] if_split[where P = "steady anything", THEN iffD2] conjI impI)
     (simp_all add: anything_def)

lemma steady_typeText: "steady anything (typeText P E snap ident text)"
  unfolding typeText_def
  by (cases ident) (auto intro!: steady_intros simp: anything_def)

lemma steady_selectOption: "steady anything (selectOption P E snap n v)"
  unfolding selectOption_def
  by (intro steady_intros) (simp_all add: anything_def)

lemma steady_setCheckbox: "steady anything (setCheckbox P E snap n b)"
  unfolding setCheckbox_def
  by (cases b) (auto intro!: steady_intros simp: anything_def)

lemma steady_newTab: "steady anything (newTab E u)"
  unfolding steady_def
proof (intro allI impI)
  fix w assume l: "launched w"
  have s: "steady anything
         (io_then (io_call E NewPage)
                 (io_then (setPage (Some (newPageHandle E (trace w))))
                   (io_then (if truthy u then gotoAndSettle E (newPageHandle E (trace w)) (the u)
                             else io_return ())
                      delay)))"
    by (intro steady_intros) (auto intro: steady_intros simp: anything_def)
  from l have "hasContext w" by (simp add: launched_def)
  then have "newTab E u w = io_then (io_call E NewPage)
                 (io_then (setPage (Some (newPageHandle E (trace w))))
                   (io_then (if truthy u then gotoAndSettle E (newPageHandle E (trace w)) (the u)
                             else io_return ())
                      delay)) w"
    by (simp add: newTab_def)
  with s l show "launched (snd (newTab E u w)) \<and> chatCount (trace (snd (newTab E u w))) = chatCount (trace w)
        \<and> (case fst (newTab E u w) of Inl e \<Rightarrow> True | Inr x \<Rightarrow> anything x)"
    unfolding steady_def by simp
qed

lemma steady_switchTab:
  assumes "case tabIndex of NaN \<Rightarrow> False | Fin r \<Rightarrow> isInteger r | _ \<Rightarrow> True"
  shows "steady anything (switchTab P E tabIndex)"
  unfolding switchTab_def Let_def
  using assms
  by (cases tabIndex) (auto intro!: steady_intros simp: anything_def)

lemma executeTool_open_new_tab:
  "executeTool P E (str ''open_new_tab'') args snap =
       io_catch
         (io_then (newTab E (case map_of args (str ''url'') of Some (JStr u) \<Rightarrow> Some u | _ \<Rightarrow> None))
           (io_bind (getPages E) (\<lambda>ps.
              let idx = numToString P (Fin (of_nat (length ps) - 1)) in
              io_return (succeeded
                (if jsTruthy (map_of args (str ''url''))
                 then str ''Opened new tab '' @ idx @ str '' and navigated to ''
                        @ jsString P (the (map_of args (str ''url'')))
                 else str ''Opened new tab '' @ idx
                        @ str '' (blank). Use navigate(url) to go to a page.'')))))
         (\<lambda>err. io_return (failed err))"
  by (simp add: executeTool_def str_def)

lemma executeTool_unknown:
  assumes "name \<noteq> str ''navigate''" "name \<noteq> str ''open_new_tab''" "name \<noteq> str ''switch_tab''"
    "name \<noteq> str ''click_element''" "name \<noteq> str ''type_text''" "name \<noteq> str ''select_option''"
    "name \<noteq> str ''set_checkbox''" "name \<noteq> str ''scroll''" "name \<noteq> str ''wait''"
    "name \<noteq> str ''task_done''" "name \<noteq> str ''request_user_input''"
  shows "executeTool P E name args snap = io_return (failed (str ''Unknown tool: '' @ name))"
  using assms by (simp add: executeTool_def)

lemma keeps_going [simp]: "\<not> stop (succeeded m)" "\<not> stop (failed m)"
  by (simp_all add: succeeded_def failed_def)

lemmas calm_intros =
  calm_bindA calm_then calm_catch calm_return calm_sleep calm_delay calm_getPage calm_getPages

lemma calm_navigate_tool:
  "quiet E \<Longrightarrow> calm (\<lambda>r. \<not> stop r) (executeTool P E (str ''navigate'') args snap)"
  unfolding executeTool_navigate
  by (auto intro!: calm_intros calm_navigate split: option.splits json.splits)

lemma calm_open_new_tab_tool:
  "calm (\<lambda>r. \<not> stop r) (executeTool P E (str ''open_new_tab'') args snap)"
  unfolding executeTool_open_new_tab Let_def
  by (intro calm_catch steady_then steady_newTab steady_bindA steady_getPages steady_return
        calm_return) simp_all

lemma calm_switch_tab_tool:
  "wholeIndex args \<Longrightarrow> calm (\<lambda>r. \<not> stop r) (executeTool P E (str ''switch_tab'') args snap)"
  unfolding executeTool_switch_tab wholeIndex_def
  by (auto intro!: calm_catch calm_return steady_then steady_switchTab steady_return
      split: option.splits json.splits jsnum.splits)

lemma calm_click_tool:
  "calm (\<lambda>r. \<not> stop r) (executeTool P E (str ''click_element'') args snap)"
  unfolding executeTool_click
  by (auto intro!: calm_catch calm_return steady_then steady_clickElement steady_return
      split: option.splits json.splits)

lemma calm_type_text_tool:
  "calm (\<lambda>r. \<not> stop r) (executeTool P E (str ''type_text'') args snap)"
  unfolding executeTool_type_text
  by (auto intro!: calm_catch calm_return steady_then steady_typeText steady_return
      split: option.splits json.splits)

lemma calm_select_option_tool:
  "calm (\<lambda>r. \<not> stop r) (executeTool P E (str ''select_option'') args snap)"
  unfolding executeTool_select_option
  by (auto intro!: calm_catch calm_return steady_then steady_selectOption steady_return
      split: option.splits json.splits)

lemma calm_set_checkbox_tool:
  "calm (\<lambda>r. \<not> stop r) (executeTool P E (str ''set_checkbox'') args snap)"
  unfolding executeTool_set_checkbox
  by (auto intro!: calm_catch calm_return steady_then steady_setCheckbox steady_return
      split: option.splits json.splits)

lemma calm_scroll_tool:
  "quiet E \<Longrightarrow> calm (\<lambda>r. \<not> stop r) (executeTool P E (str ''scroll'') args snap)"
  unfolding executeTool_scroll
  by (auto intro!: calm_intros calm_scroll split: option.splits json.splits)

lemma calm_wait_tool:
  "calm (\<lambda>r. \<not> stop r) (executeTool P E (str ''wait'') args snap)"
  unfolding executeTool_wait Let_def
  by (intro calm_then calm_sleep calm_return) simp

lemma calm_executeTool:
  assumes "quiet E" and "name \<noteq> str ''task_done''" and "name \<noteq> str ''request_user_input''"
    and "name = str ''switch_tab'' \<longrightarrow> wholeIndex args"
  shows "calm (\<lambda>r. \<not> stop r) (executeTool P E name args snap)"
proof -
  consider "name = str ''navigate''" | "name = str ''open_new_tab''" | "name = str ''switch_tab''"
    | "name = str ''click_element''" | "name = str ''type_text''" | "name = str ''select_option''"
    | "name = str ''set_checkbox''" | "name = str ''scroll''" | "name = str ''wait''"
    | "name \<noteq> str ''navigate''" "name \<noteq> str ''open_new_tab''" "name \<noteq> str ''switch_tab''"
      "name \<noteq> str ''click_element''" "name \<noteq> str ''type_text''" "name \<noteq> str ''select_option''"
      "name \<noteq> str ''set_checkbox''" "name \<noteq> str ''scroll''" "name \<noteq> str ''wait''"
    by blast
  then show ?thesis
  proof cases
    case 1 then show ?thesis using calm_navigate_tool[OF assms(1)] by simp
  next
    case 2 then show ?thesis using calm_open_new_tab_tool by simp
  next
    case 3 then show ?thesis using calm_switch_tab_tool assms(4) by simp
  next
    case 4 then show ?thesis using calm_click_tool by simp
  next
    case 5 then show ?thesis using calm_type_text_tool by simp
  next
    case 6 then show ?thesis using calm_select_option_tool by simp
  next
    case 7 then show ?thesis using calm_set_checkbox_tool by simp
  next
    case 8 then show ?thesis using calm_scroll_tool[OF assms(1)] by simp
  next
    case 9 then show ?thesis using calm_wait_tool by simp
  next
    case 10
    show ?thesis unfolding executeTool_unknown[OF 10 assms(2,3)]
      by (rule calm_return) simp
  qed
qed

lemma calm_gatedExecute:
  assumes "quiet E" and "name \<noteq> str ''task_done''" and "name \<noteq> str ''request_user_input''"
    and "name = str ''switch_tab'' \<longrightarrow> wholeIndex args"
  shows "calm (\<lambda>r. \<not> stop r) (gatedExecute P E hasConfirmation name args snap)"
  unfolding gatedExecute_def Let_def confirmation_def
  using calm_executeTool[OF assms] assms(1)
  by (auto intro!: calm_bindA calm_query calm_return)

subsection \<open>The loop\<close>

lemma calm_run:
  assumes "calm Q m" and "launched w"
  shows "\<exists>x w'. m w = (Inr x, w') \<and> Q x \<and> launched w' \<and> chatCount (trace w') = chatCount (trace w)"
proof -
  from assms have a: "launched (snd (m w))" "chatCount (trace (snd (m w))) = chatCount (trace w)"
    "case fst (m w) of Inl e \<Rightarrow> False | Inr x \<Rightarrow> Q x"
    unfolding calm_def by simp_all
  obtain r w' where m: "m w = (r, w')" by (cases "m w")
  with a(3) obtain x where "r = Inr x" "Q x" by (cases r) simp_all
  with a(1,2) m show ?thesis by simp
qed

lemma calm_catch_calm: "calm Q m \<Longrightarrow> calm Q (io_catch m h)"
  unfolding calm_def io_catch_def
  by (auto split: sum.splits prod.splits)

lemma calm_tabInfos: "quiet E \<Longrightarrow> calm anything (tabInfos E ps i)"
proof (induction ps arbitrary: i)
  case Nil
  show ?case by (simp add: calm_return anything_def)
next
  case (Cons p ps)
  show ?case
    unfolding tabInfos.simps
    by (intro calm_bindA calm_catch_calm calm_query Cons.IH Cons.prems calm_return)
       (simp_all add: anything_def)
qed

lemma calm_getPageSnapshot:
  assumes "quiet E" and "scriptsRun P E"
  shows "calm anything (getPageSnapshot P E page)"
  unfolding calm_def
proof (intro allI impI)
  fix w :: world
  assume l: "launched w"
  obtain snap where "collectSnapshotScript P (pageDocument E (trace w) page) = Inr snap"
    using assms(2) unfolding scriptsRun_def by blast
  then show "launched (snd (getPageSnapshot P E page w))
      \<and> chatCount (trace (snd (getPageSnapshot P E page w))) = chatCount (trace w)
      \<and> (case fst (getPageSnapshot P E page w) of Inl e \<Rightarrow> False | Inr x \<Rightarrow> anything x)"
    using assms(1) l
    by (simp add: getPageSnapshot_def io_bind_def io_query_def io_return_def quiet_def
        launched_def chatCount_def anything_def)
qed

lemma calm_getSnapshot:
  assumes "quiet E" and "scriptsRun P E"
  shows "calm anything (getSnapshot P E)"
  unfolding getSnapshot_def
  by (intro calm_bindA calm_getPage calm_getPages calm_tabInfos[OF assms(1)] calm_then
        steady_ignoreErrors steady_call calm_catch_calm calm_getPageSnapshot[OF assms] calm_return)
     (simp_all add: anything_def)

lemma calm_classifyTask: "quiet E \<Longrightarrow> calm anything (classifyTask P E userTask)"
  unfolding classifyTask_def Let_def
  by (intro calm_bindA calm_query calm_return) (simp_all add: anything_def)

lemma after_chat:
  "launched w \<Longrightarrow> launched (w\<lparr>trace := trace w @ [c]\<rparr>)"
  "chatCount (t @ [ChatCompletion ms]) = Suc (chatCount t)"
  by (simp_all add: launched_def chatCount_def isChat_def)

lemma iteration_run:
  assumes "quiet E" and "scriptsRun P E" and "launched w"
  shows "\<exists>snap w1 ms1. launched w1 \<and> chatCount (trace w1) = chatCount (trace w)
           \<and> iteration P T E hc i ms w
               = handleResponse P E hc snap ms1 (chatAnswer E (trace w1) ms1)
                   (w1\<lparr>trace := trace w1 @ [ChatCompletion ms1]\<rparr>)"
proof -
  obtain snap w1 where g: "getSnapshot P E w = (Inr snap, w1)" "launched w1"
      "chatCount (trace w1) = chatCount (trace w)"
    using calm_run[OF calm_getSnapshot[OF assms(1,2)] assms(3)] by blast
  let ?state = "str ''Current page state:'' @ [10, 10] @ formatSnapshotForPrompt T snap"
  let ?ms1 = "if i = 0 then mergeIntoFirstUserTurn ms ?state else ms @ [UserMessage ?state]"
  have "iteration P T E hc i ms w
          = handleResponse P E hc snap ?ms1 (chatAnswer E (trace w1) ?ms1)
              (w1\<lparr>trace := trace w1 @ [ChatCompletion ?ms1]\<rparr>)"
    using g(1) assms(1) by (simp add: iteration_def Let_def io_bind_def io_query_def quiet_def)
  with g(2,3) show ?thesis
    by (intro exI[of _ snap] exI[of _ w1] exI[of _ "?ms1"]) simp
qed

lemma handleResponse_continues:
  assumes "quiet E" and "nonTerminal P ch" and "launched w"
  shows "\<exists>ms' w'. handleResponse P E hc snap ms1 (Some ch) w = (Inr (Continue ms'), w')
            \<and> launched w' \<and> chatCount (trace w') = chatCount (trace w)"
proof (cases "tool_calls ch")
  case Nil
  with assms(3) show ?thesis by (simp add: handleResponse_def io_return_def)
next
  case (Cons toolCall rest)
  let ?parsed = "parseArguments P (tc_arguments toolCall)"
  from assms(2) Cons have n: "tc_name toolCall \<noteq> str ''task_done''"
      "tc_name toolCall \<noteq> str ''request_user_input''" "?parsed \<noteq> JNull"
      "tc_name toolCall = str ''switch_tab'' \<longrightarrow> wholeIndex (argsOf ?parsed)"
    by (simp_all add: nonTerminal_def)
  obtain r w' where x: "gatedExecute P E hc (tc_name toolCall) (argsOf ?parsed) snap w = (Inr r, w')"
      "\<not> stop r" "launched w'" "chatCount (trace w') = chatCount (trace w)"
    using calm_run[OF calm_gatedExecute[OF assms(1) n(1,2,4)] assms(3)] by blast
  with Cons n(3) show ?thesis
    by (simp add: handleResponse_def Let_def io_bind_def io_return_def)
qed

lemma handleResponse_done:
  assumes "taskDone P ch summary"
  shows "handleResponse P E hc snap ms1 (Some ch) w = (Inr (Return (finished summary)), w)"
proof (cases "tool_calls ch")
  case Nil
  with assms show ?thesis by (simp add: taskDone_def)
next
  case (Cons toolCall rest)
  with assms obtain kvs where a: "tc_name toolCall = str ''task_done''"
      "parseArguments P (tc_arguments toolCall) = JObj kvs"
      "map_of kvs (str ''result'') = Some (JStr summary)"
    by (auto simp: taskDone_def split: json.splits)
  have "str ''task_done'' \<noteq> str ''click_element''" by (simp add: str_def)
  then have "\<not> destructive (checkDestructiveAction P (str ''task_done'') kvs snap)"
    by (rule other_tool_not_destructive)
  then have "gatedExecute P E hc (str ''task_done'') kvs snap w
               = (Inr \<lparr>success = True, message = summary, stop = True, userQuestion = None\<rparr>, w)"
    using a(3) by (simp add: gatedExecute_def Let_def executeTool_task_done io_return_def)
  with Cons a show ?thesis
    by (simp add: handleResponse_def Let_def io_bind_def io_return_def argsOf_def finished_def)
qed

lemma iteration_continues:
  assumes "quiet E" and "scriptsRun P E" and "neverTerminal P E" and "launched w"
  shows "\<exists>ms' w'. iteration P T E hc i ms w = (Inr (Continue ms'), w')
            \<and> launched w' \<and> chatCount (trace w') = Suc (chatCount (trace w))"
proof -
  obtain snap w1 ms1 where r: "launched w1" "chatCount (trace w1) = chatCount (trace w)"
      "iteration P T E hc i ms w
         = handleResponse P E hc snap ms1 (chatAnswer E (trace w1) ms1)
             (w1\<lparr>trace := trace w1 @ [ChatCompletion ms1]\<rparr>)"
    using iteration_run[OF assms(1,2,4)] by blast
  obtain ch where ch: "chatAnswer E (trace w1) ms1 = Some ch" "nonTerminal P ch"
    using assms(3) unfolding neverTerminal_def by blast
  have l: "launched (w1\<lparr>trace := trace w1 @ [ChatCompletion ms1]\<rparr>)"
    using r(1) by (rule after_chat(1))
  obtain ms' w' where h: "handleResponse P E hc snap ms1 (Some ch)
        (w1\<lparr>trace := trace w1 @ [ChatCompletion ms1]\<rparr>) = (Inr (Continue ms'), w')"
      "launched w'"
      "chatCount (trace w') = chatCount (trace (w1\<lparr>trace := trace w1 @ [ChatCompletion ms1]\<rparr>))"
    using handleResponse_continues[OF assms(1) ch(2) l, where hc = hc and snap = snap and ?ms1.0 = ms1]
    by (elim exE conjE)
  from h(3) have "chatCount (trace w') = Suc (chatCount (trace w))"
    by (simp add: after_chat(2) r(2))
  with h(1,2) show ?thesis unfolding r(3) ch(1) by simp
qed

lemma agentLoop_exhausts:
  assumes "quiet E" and "scriptsRun P E" and "neverTerminal P E"
  shows "launched w \<Longrightarrow> i \<le> MAX_ITERATIONS \<Longrightarrow>
         \<exists>w'. agentLoop P T E hc i ms w = (Inr exhausted, w')
            \<and> chatCount (trace w') = chatCount (trace w) + (MAX_ITERATIONS - i)"
proof (induction "MAX_ITERATIONS - i" arbitrary: i ms w)
  case 0
  then have "MAX_ITERATIONS \<le> i" by simp
  then show ?case by (subst agentLoop.simps) (simp add: exhausted_def)
next
  case (Suc k)
  then have i: "\<not> MAX_ITERATIONS \<le> i" "Suc i \<le> MAX_ITERATIONS" "k = MAX_ITERATIONS - Suc i"
    by simp_all
  obtain ms' w1 where s: "iteration P T E hc i ms w = (Inr (Continue ms'), w1)" "launched w1"
      "chatCount (trace w1) = Suc (chatCount (trace w))"
    using iteration_continues[OF assms Suc.prems(1)] by blast
  obtain w' where l: "agentLoop P T E hc (Suc i) ms' w1 = (Inr exhausted, w')"
      "chatCount (trace w') = chatCount (trace w1) + (MAX_ITERATIONS - Suc i)"
    using Suc.hyps(1)[OF i(3) s(2) i(2)] by blast
  have "agentLoop P T E hc i ms w = agentLoop P T E hc (Suc i) ms' w1"
    using i(1) s(1) by (subst agentLoop.simps) simp
  with l s(3) i(2) Suc.hyps(2) show ?case by simp
qed

lemma agentLoop_first:
  assumes "iteration P T E hc 0 ms w = (Inr (Return r), w')"
  shows "agentLoop P T E hc 0 ms w = (Inr r, w')"
  using assms by (subst agentLoop.simps) (simp add: MAX_ITERATIONS_def)

lemma runAgent_run:
  assumes "quiet E" and "launched w"
  shows "\<exists>ms w0. launched w0 \<and> chatCount (trace w0) = chatCount (trace w)
            \<and> runAgent P T E hc userTask w = agentLoop P T E hc 0 ms w0"
proof -
  obtain taskType w0 where c: "classifyTask P E userTask w = (Inr taskType, w0)" "launched w0"
      "chatCount (trace w0) = chatCount (trace w)"
    using calm_run[OF calm_classifyTask[OF assms(1)] assms(2)] by blast
  then show ?thesis by (auto simp: runAgent_def io_bind_def)
qed

lemma runAgent_exhausts:
  assumes "quiet E" and "scriptsRun P E" and "neverTerminal P E" and "launched w"
  shows "\<exists>w'. runAgent P T E hc userTask w = (Inr exhausted, w')
            \<and> chatCount (trace w') = chatCount (trace w) + MAX_ITERATIONS"
proof -
  obtain ms w0 where r: "launched w0" "chatCount (trace w0) = chatCount (trace w)"
      "runAgent P T E hc userTask w = agentLoop P T E hc 0 ms w0"
    using runAgent_run[OF assms(1,4)] by blast
  from agentLoop_exhausts[OF assms(1-3) r(1), where i = 0 and hc = hc and ms = ms and T = T] r(2,3)
  show ?thesis by simp
qed

lemma runAgent_once:
  assumes "quiet E" and "scriptsRun P E" and "launched w"
    and "\<forall>t ms. chatCount t = chatCount (trace w) \<longrightarrow> chatAnswer E t ms = answer"
    and "\<And>snap ms1 w2. handleResponse P E hc snap ms1 answer w2 = (Inr (Return r), w2)"
  shows "\<exists>w'. runAgent P T E hc userTask w = (Inr r, w')
            \<and> chatCount (trace w') = chatCount (trace w) + 1"
proof -
  obtain ms w0 where r: "launched w0" "chatCount (trace w0) = chatCount (trace w)"
      "runAgent P T E hc userTask w = agentLoop P T E hc 0 ms w0"
    using runAgent_run[OF assms(1,3)] by blast
  obtain snap w1 ms1 where i: "launched w1" "chatCount (trace w1) = chatCount (trace w0)"
      "iteration P T E hc 0 ms w0
         = handleResponse P E hc snap ms1 (chatAnswer E (trace w1) ms1)
             (w1\<lparr>trace := trace w1 @ [ChatCompletion ms1]\<rparr>)"
    using iteration_run[OF assms(1,2) r(1)] by blast
  have "chatAnswer E (trace w1) ms1 = answer" using assms(4) i(2) r(2) by simp
  then have "iteration P T E hc 0 ms w0
               = (Inr (Return r), w1\<lparr>trace := trace w1 @ [ChatCompletion ms1]\<rparr>)"
    using i(3) assms(5) by simp
  from agentLoop_first[OF this] r(2,3) i(2) show ?thesis
    by (simp add: after_chat(2))
qed


lemma demo_quiet: "quiet demoEnv" "quiet doneEnv" "quiet silentEnv"
  by (simp_all add: quiet_def demoEnv_def doneEnv_def silentEnv_def)

lemma demo_scriptsRun:
  "scriptsRun demoPlatform demoEnv" "scriptsRun demoPlatform doneEnv"
  "scriptsRun demoPlatform silentEnv"
  using demo_snapshot
  by (auto simp: scriptsRun_def demoEnv_def doneEnv_def silentEnv_def)

lemma demo_launched: "launched demoWorld" "chatCount (trace demoWorld) = 0"
  by (simp_all add: launched_def demoWorld_def chatCount_def)

lemma demo_neverTerminal: "neverTerminal demoPlatform demoEnv"
  by (simp add: neverTerminal_def demoEnv_def nonTerminal_def plainText_def)

lemma demo_taskDone: "taskDone demoPlatform doneChoice (str ''All done'')"
  by (simp add: taskDone_def doneChoice_def parseArguments_def demoPlatform_def quoted_def str_def)

lemma demo_firstDecision: "firstDecision doneEnv 0 doneChoice"
  by (simp add: firstDecision_def doneEnv_def doneAnswer_def)



subsection \<open>Native dialogs\<close>

lemma fold_attach_pages [simp]:
  "contextPages (fold attachDialogHandler ps c) = contextPages c"
  "pageListeners (fold attachDialogHandler ps c) = pageListeners c"
  by (induction ps arbitrary: c) (simp_all add: attachDialogHandler_def)

lemma fold_attach_listeners:
  "distinct ps \<Longrightarrow>
   dialogListeners (fold attachDialogHandler ps c) p
     = dialogListeners c p @ (if p \<in> set ps then [AcceptDialog] else [])"
  by (induction ps arbitrary: c) (auto simp: attachDialogHandler_def)

lemma emitPage_attached:
  assumes "attached c" and "p \<notin> set (contextPages c)"
  shows "attached (emitPage p c)" and "contextPages (emitPage p c) = contextPages c @ [p]"
  using assms by (auto simp: attached_def emitPage_def attachDialogHandler_def)

lemma launch_attached:
  assumes "newContext c" and "fresh \<notin> set (contextPages c)"
  shows "attached (fst (launch c fresh))"
proof -
  define c2 where "c2 = (fold attachDialogHandler (contextPages c) c)
               \<lparr>pageListeners := pageListeners (fold attachDialogHandler (contextPages c) c)
                                  @ [AttachDialogHandler]\<rparr>"
  from assms(1) have a: "attached c2" and p: "contextPages c2 = contextPages c"
    by (simp_all add: c2_def attached_def newContext_def fold_attach_listeners)
  have l: "launch c fresh
             = (case contextPages c2 of q # _ \<Rightarrow> (c2, q) | [] \<Rightarrow> (emitPage fresh c2, fresh))"
    unfolding launch_def Let_def c2_def by (rule refl)
  show ?thesis
  proof (cases "contextPages c")
    case Nil
    then have "fst (launch c fresh) = emitPage fresh c2" by (simp add: l p)
    moreover have "attached (emitPage fresh c2)"
      using a assms(2) p by (intro emitPage_attached(1)) simp_all
    ultimately show ?thesis by simp
  next
    case (Cons q qs)
    then have "fst (launch c fresh) = c2" by (simp add: l p)
    with a show ?thesis by simp
  qed
qed

lemma attached_replies:
  "attached c \<Longrightarrow> validEvents (contextPages c) evs \<Longrightarrow>
   dialogReplies c evs = map acceptedOnce (raised evs)"
proof (induction evs arbitrary: c)
  case Nil
  show ?case by simp
next
  case (Cons ev evs)
  show ?case
  proof (cases ev)
    case (PageOpened p)
    with Cons.prems have n: "p \<notin> set (contextPages c)"
      and v: "validEvents (contextPages c @ [p]) evs" by simp_all
    from emitPage_attached[OF Cons.prems(1) n] v
    have "dialogReplies (emitPage p c) evs = map acceptedOnce (raised evs)"
      by (intro Cons.IH) simp_all
    with PageOpened show ?thesis by simp
  next
    case (DialogRaised p dialog)
    with Cons.prems have m: "p \<in> set (contextPages c)"
      and v: "validEvents (contextPages c) evs" by simp_all
    from Cons.prems(1) m have "emitDialog p dialog c = [Accepted]"
      by (simp add: attached_def emitDialog_def)
    with DialogRaised Cons.IH[OF Cons.prems(1) v] show ?thesis
      by (simp add: acceptedOnce_def)
  qed
qed



end
